theory Spec2Isabelle
  imports Main
begin

section \<open>Common ground: errors, strings, EAPI attributes\<close>

text \<open>
  The exceptions the dependency code of \<^verbatim>\<open>portage.dep\<close> raises, as values.
  A function that may raise returns \<open>error + 'a\<close>, \<open>Inl\<close> carrying the exception.
  \<open>InvalidDependString\<close> keeps the category of the \<open>InvalidData\<close> it wraps
  (\<^verbatim>\<open>errors=(e,)\<close>) when there is one.
\<close>

datatype error =
    InvalidDependString "string option"
  | InvalidAtom
  | InvalidData
  | PortageException
  | ValueError
  | KeyError
  | IndexError
  | AttributeError
  | AssertionError
  | TypeError

text \<open>
  The attributes of \<^verbatim>\<open>portage.eapi._eapi_attrs\<close> that this code reads. The table
  that maps an EAPI name to its attributes is not part of the sources at hand, so
  every function takes the attributes themselves.
\<close>

record eapi_attrs =
  required_use_at_most_one_of :: bool
  empty_groups_always_true :: bool
  src_uri_arrows :: bool
  selective_src_uri_restriction :: bool

text \<open>
  \<^verbatim>\<open>str.split()\<close> without arguments: runs of whitespace separate the tokens and
  no token is empty. The whitespace of a Python \<^verbatim>\<open>str\<close> below code point 256.
\<close>

definition isspace :: "char \<Rightarrow> bool" where
  "isspace c = (of_char c \<in> {9, 10, 11, 12, 13, 28, 29, 30, 31, 32, 133, 160 :: nat})"

fun split_acc :: "string \<Rightarrow> string \<Rightarrow> string list" where
  "split_acc cur [] = (if cur = [] then [] else [cur])"
| "split_acc cur (c # cs) =
     (if isspace c then (if cur = [] then split_acc [] cs else cur # split_acc [] cs)
      else split_acc (cur @ [c]) cs)"

definition py_split :: "string \<Rightarrow> string list" where
  "py_split s = split_acc [] s"

text \<open>\<^verbatim>\<open>sep.join(parts)\<close>.\<close>

fun join :: "string \<Rightarrow> string list \<Rightarrow> string" where
  "join sep [] = []"
| "join sep [x] = x"
| "join sep (x # y # ys) = x @ sep @ join sep (y # ys)"

text \<open>\<^verbatim>\<open>s.startswith(p)\<close>.\<close>

definition startswith :: "string \<Rightarrow> string \<Rightarrow> bool" where
  "startswith s p = (take (length p) s = p)"

section \<open>REQUIRED\_USE: the tree and its evaluation\<close>

text \<open>
  \<^verbatim>\<open>_RequiredUseLeaf\<close> and \<^verbatim>\<open>_RequiredUseBranch\<close>. Branches are mutable objects
  that refer to their parent, so they live in a store: a list of branch objects, a
  branch being named by its index. The root \<^verbatim>\<open>tree\<close> is object 0. A leaf is never
  changed nor compared by identity, so a child is either a leaf by value or the
  index of a branch.
\<close>

datatype ru_child = RLeaf string bool | RBranch nat

record ru_branch =
  b_children :: "ru_child list"
  b_operator :: "string option"
  b_parent :: "nat option"
  b_satisfied :: bool

type_synonym ru_store = "ru_branch list"

text \<open>An entry of the evaluation stack: a verdict or a pending operator token.\<close>

datatype sval = SB bool | SS string

text \<open>
  The loop state of \<^verbatim>\<open>check_required_use\<close>. \<open>stack\<close> is kept with its top at the
  head: the source maintains \<^verbatim>\<open>len(stack) == level + 1\<close>, so \<^verbatim>\<open>stack[level]\<close> is the
  top of the stack, and after \<^verbatim>\<open>stack.pop()\<close> and \<^verbatim>\<open>level -= 1\<close> it is the new top.
\<close>

record ru_state =
  level :: nat
  stack :: "sval list list"
  store :: ru_store
  node :: nat
  need_bracket :: bool

definition valid_operators :: "eapi_attrs \<Rightarrow> string list" where
  "valid_operators E =
     (if required_use_at_most_one_of E then [''||'', ''^^'', ''??''] else [''||'', ''^^''])"

definition is_active :: "eapi_attrs \<Rightarrow> (string \<Rightarrow> bool) \<Rightarrow> string set \<Rightarrow> string \<Rightarrow> error + bool" where
  "is_active E iuse_match use token =
     (let is_negated = startswith token ''!'';
          flag = (if is_negated then tl token else token)
      in if flag = [] \<or> \<not> iuse_match flag then
           (if \<not> required_use_at_most_one_of E \<and> flag = ''?''
            then Inl (InvalidDependString (Some ''EAPI.incompatible''))
            else Inl (InvalidDependString (Some ''IUSE.missing'')))
         else Inr ((flag \<in> use \<and> \<not> is_negated) \<or> (flag \<notin> use \<and> is_negated)))"

text \<open>
  \<^verbatim>\<open>is_satisfied(operator, argument)\<close>. The argument is the closed list of
  the stack; \<^verbatim>\<open>True in argument\<close>, \<^verbatim>\<open>argument.count(True)\<close> and
  \<^verbatim>\<open>False not in argument\<close> compare its entries with the verdicts. Where no
  branch applies Python returns \<^verbatim>\<open>None\<close>; no call passes such an operator (each
  passes a valid operator or a token that ends in \<^verbatim>\<open>?\<close>), and the model gives
  the falsy \<open>False\<close> there.
\<close>

definition is_satisfied :: "eapi_attrs \<Rightarrow> string \<Rightarrow> sval list \<Rightarrow> bool" where
  "is_satisfied E operator argument =
     (if argument = [] \<and> empty_groups_always_true E then True
      else if operator = ''||'' then SB True \<in> set argument
      else if operator = ''^^'' then count_list argument (SB True) = 1
      else if operator = ''??'' then count_list argument (SB True) \<le> 1
      else if operator \<noteq> [] \<and> last operator = CHR ''?'' then SB False \<notin> set argument
      else False)"

text \<open>
  \<^verbatim>\<open>last_node = node._parent._children.pop()\<close> followed by the assertion that
  \<^verbatim>\<open>last_node is node\<close>.
\<close>

definition pop_from_parent :: "ru_store \<Rightarrow> nat \<Rightarrow> error + ru_store" where
  "pop_from_parent h n =
     (case b_parent (h ! n) of
        None \<Rightarrow> Inl AttributeError
      | Some p \<Rightarrow>
          (if b_children (h ! p) = [] then Inl IndexError
           else if last (b_children (h ! p)) \<noteq> RBranch n then Inl AssertionError
           else Inr (h[p := (h ! p)\<lparr>b_children := butlast (b_children (h ! p))\<rparr>])))"

text \<open>
  \<^verbatim>\<open>for child in node._children: node._parent._children.append(child)\<close>, a branch
  among them getting the new parent.
\<close>

fun reparent :: "ru_store \<Rightarrow> nat \<Rightarrow> ru_child list \<Rightarrow> ru_store" where
  "reparent h p [] = h"
| "reparent h p (c # cs) =
     (let h1 = h[p := (h ! p)\<lparr>b_children := b_children (h ! p) @ [c]\<rparr>];
          h2 = (case c of RLeaf t s \<Rightarrow> h1 | RBranch k \<Rightarrow> h1[k := (h1 ! k)\<lparr>b_parent := Some p\<rparr>])
      in reparent h2 p cs)"

text \<open>
  \<^verbatim>\<open>child = _RequiredUseBranch(operator, parent=node); node._children.append(child);
  node = child\<close>.
\<close>

definition descend :: "string option \<Rightarrow> ru_state \<Rightarrow> ru_state" where
  "descend opr s =
     (let h = store s; n = node s; k = length h;
          h1 = h[n := (h ! n)\<lparr>b_children := b_children (h ! n) @ [RBranch k]\<rparr>]
      in s\<lparr>store := h1 @ [\<lparr>b_children = [], b_operator = opr, b_parent = Some n, b_satisfied = False\<rparr>],
           node := k\<rparr>)"

text \<open>
  \<^verbatim>\<open>node = node._parent\<close>, the last statement of the branch for \<^verbatim>\<open>)\<close>. The
  current node lies as deep as there are open groups, so at \<^verbatim>\<open>level > 0\<close> it has
  a parent; were it the root, Python would go on with \<^verbatim>\<open>node = None\<close> and fail
  at the next use of \<^verbatim>\<open>node\<close>, where the model fails at once.
\<close>

definition ascend :: "ru_state \<Rightarrow> error + ru_state" where
  "ascend s =
     (case b_parent (store s ! node s) of
        None \<Rightarrow> Inl AttributeError
      | Some p \<Rightarrow> Inr (s\<lparr>node := p\<rparr>))"

definition set_satisfied :: "bool \<Rightarrow> ru_state \<Rightarrow> ru_state" where
  "set_satisfied b s = s\<lparr>store := (store s)[node s := (store s ! node s)\<lparr>b_satisfied := b\<rparr>]\<rparr>"

text \<open>
  The tree compaction after a group is closed, from \<^verbatim>\<open>if op is None:\<close> on. \<open>opr\<close>
  is the operator popped from the stack (\<open>None\<close> for a plain group) and \<open>l\<close> the
  closed list.
\<close>

definition compact :: "eapi_attrs \<Rightarrow> string option \<Rightarrow> sval list \<Rightarrow> ru_state \<Rightarrow> error + ru_state" where
  "compact E opr l s0 =
     (case opr of
        None \<Rightarrow>
          (let satisfied = (SB False \<notin> set l);
               s1 = set_satisfied satisfied s0;
               s = (if l \<noteq> [] then s1\<lparr>stack := (hd (stack s1) @ [SB satisfied]) # tl (stack s1)\<rparr> else s1);
               h = store s; n = node s
           in case b_parent (h ! n) of
                None \<Rightarrow> Inl AttributeError
              | Some p \<Rightarrow>
                  (if length (b_children (h ! n)) \<le> 1
                      \<or> b_operator (h ! p) \<notin> Some ` set (valid_operators E)
                   then (case pop_from_parent h n of
                           Inl e \<Rightarrow> Inl e
                         | Inr h1 \<Rightarrow> ascend (s\<lparr>store := reparent h1 p (b_children (h1 ! n))\<rparr>))
                   else ascend s))
      | Some ops \<Rightarrow>
          (let h = store s0; n = node s0
           in if b_children (h ! n) = [] then
                (case pop_from_parent h n of
                   Inl e \<Rightarrow> Inl e
                 | Inr h1 \<Rightarrow> ascend (s0\<lparr>store := h1\<rparr>))
              else if length (b_children (h ! n)) = 1 \<and> ops \<in> set (valid_operators E) then
                (case pop_from_parent h n of
                   Inl e \<Rightarrow> Inl e
                 | Inr h1 \<Rightarrow>
                     (case b_parent (h1 ! n) of
                        None \<Rightarrow> Inl AttributeError
                      | Some p \<Rightarrow>
                          (let c = hd (b_children (h1 ! n));
                               h2 = h1[p := (h1 ! p)\<lparr>b_children := b_children (h1 ! p) @ [c]\<rparr>]
                           in case c of
                                RLeaf t b \<Rightarrow> ascend (s0\<lparr>store := h2\<rparr>)
                              | RBranch k \<Rightarrow>
                                  (let h3 = h2[k := (h2 ! k)\<lparr>b_parent := Some p\<rparr>]
                                   in if b_operator (h3 ! k) = None
                                         \<and> b_operator (h3 ! p) \<notin> Some ` set (valid_operators E)
                                      then (case pop_from_parent h3 k of
                                              Inl e \<Rightarrow> Inl e
                                            | Inr h4 \<Rightarrow>
                                                ascend (s0\<lparr>store := reparent h4 p (b_children (h4 ! k)),
                                                           node := k\<rparr>))
                                      else ascend (s0\<lparr>store := h3, node := k\<rparr>)))))
              else ascend s0))"

text \<open>
  The branch for \<^verbatim>\<open>)\<close> once \<^verbatim>\<open>level > 0\<close> is known: \<^verbatim>\<open>level -= 1; l = stack.pop()\<close>,
  the verdict of the group by the operator that precedes it, then the compaction.
  An inactive conditional group is removed from its parent and the loop continues.
\<close>

definition close_group :: "eapi_attrs \<Rightarrow> (string \<Rightarrow> bool) \<Rightarrow> string set \<Rightarrow> ru_state \<Rightarrow> error + ru_state" where
  "close_group E iuse_match use s00 =
     (let l = hd (stack s00);
          s0 = s00\<lparr>level := level s00 - 1, stack := tl (stack s00)\<rparr>;
          top = hd (stack s0);
          rest = tl (stack s0);
          pending = (if top = [] then None else (case last top of SB b \<Rightarrow> None | SS t \<Rightarrow> Some t))
      in case pending of
           None \<Rightarrow> compact E None l s0
         | Some ops \<Rightarrow>
             (if ops \<in> set (valid_operators E) then
                (let satisfied = is_satisfied E ops l
                 in compact E (Some ops) l
                      (set_satisfied satisfied (s0\<lparr>stack := (butlast top @ [SB satisfied]) # rest\<rparr>)))
              else if ops \<noteq> [] \<and> last ops = CHR ''?'' then
                (case is_active E iuse_match use (butlast ops) of
                   Inl e \<Rightarrow> Inl e
                 | Inr True \<Rightarrow>
                     (let satisfied = is_satisfied E ops l
                      in compact E (Some ops) l
                           (set_satisfied satisfied (s0\<lparr>stack := (butlast top @ [SB satisfied]) # rest\<rparr>)))
                 | Inr False \<Rightarrow>
                     (let s1 = set_satisfied True (s0\<lparr>stack := butlast top # rest\<rparr>)
                      in case pop_from_parent (store s1) (node s1) of
                           Inl e \<Rightarrow> Inl e
                         | Inr h1 \<Rightarrow> ascend (s1\<lparr>store := h1\<rparr>)))
              else compact E None l s0))"

text \<open>One iteration of \<^verbatim>\<open>for token in mysplit\<close>.\<close>

definition push :: "sval \<Rightarrow> ru_state \<Rightarrow> ru_state" where
  "push v s = s\<lparr>stack := (hd (stack s) @ [v]) # tl (stack s)\<rparr>"

definition ru_step :: "eapi_attrs \<Rightarrow> (string \<Rightarrow> bool) \<Rightarrow> string set \<Rightarrow> ru_state \<Rightarrow> string \<Rightarrow> error + ru_state" where
  "ru_step E iuse_match use s token =
     (if token = ''('' then
        (let s1 = (if \<not> need_bracket s then descend None s else s)
         in Inr (s1\<lparr>need_bracket := False, stack := [] # stack s1, level := level s1 + 1\<rparr>))
      else if token = '')'' then
        (if need_bracket s then Inl (InvalidDependString None)
         else if level s > 0 then close_group E iuse_match use s
         else Inl (InvalidDependString None))
      else if token \<in> set (valid_operators E) then
        (if need_bracket s then Inl (InvalidDependString None)
         else Inr (descend (Some token) (push (SS token) (s\<lparr>need_bracket := True\<rparr>))))
      else
        (if need_bracket s then Inl (InvalidDependString None)
         else if last token = CHR ''?'' then
           Inr (descend (Some token) (push (SS token) (s\<lparr>need_bracket := True\<rparr>)))
         else
           (case is_active E iuse_match use token of
              Inl e \<Rightarrow> Inl e
            | Inr satisfied \<Rightarrow>
                Inr (push (SB satisfied)
                      (s\<lparr>store := (store s)[node s := (store s ! node s)
                            \<lparr>b_children := b_children (store s ! node s) @ [RLeaf token satisfied]\<rparr>]\<rparr>)))))"

fun ru_loop :: "eapi_attrs \<Rightarrow> (string \<Rightarrow> bool) \<Rightarrow> string set \<Rightarrow> ru_state \<Rightarrow> string list \<Rightarrow> error + ru_state" where
  "ru_loop E iuse_match use s [] = Inr s"
| "ru_loop E iuse_match use s (token # ts) =
     (case ru_step E iuse_match use s token of
        Inl e \<Rightarrow> Inl e
      | Inr s' \<Rightarrow> ru_loop E iuse_match use s' ts)"

text \<open>
  \<^verbatim>\<open>check_required_use(required_use, use, iuse_match, eapi)\<close>. The result is the
  store, whose object 0 is the returned \<^verbatim>\<open>tree\<close>.
\<close>

definition check_required_use ::
  "eapi_attrs \<Rightarrow> string \<Rightarrow> string set \<Rightarrow> (string \<Rightarrow> bool) \<Rightarrow> error + ru_store" where
  "check_required_use E required_use use iuse_match =
     (case ru_loop E iuse_match use
             \<lparr>level = 0, stack = [[]],
              store = [\<lparr>b_children = [], b_operator = None, b_parent = None, b_satisfied = False\<rparr>],
              node = 0, need_bracket = False\<rparr>
             (py_split required_use) of
        Inl e \<Rightarrow> Inl e
      | Inr s \<Rightarrow>
          (if level s \<noteq> 0 \<or> need_bracket s then Inl (InvalidDependString None)
           else Inr ((store s)[0 := (store s ! 0)\<lparr>b_satisfied := (SB False \<notin> set (hd (stack s)))\<rparr>])))"

text \<open>The verdict of a returned tree: \<^verbatim>\<open>bool(tree)\<close>, that is \<^verbatim>\<open>tree._satisfied\<close>.\<close>

definition verdict :: "error + ru_store \<Rightarrow> error + bool" where
  "verdict r = (case r of Inl e \<Rightarrow> Inl e | Inr h \<Rightarrow> Inr (b_satisfied (h ! 0)))"

text \<open>
  \<^verbatim>\<open>_RequiredUseBranch.tounicode\<close>. The loop that looks for an operator
  \<^verbatim>\<open>||\<close>, \<^verbatim>\<open>^^\<close> or \<^verbatim>\<open>??\<close> on the way to the root follows parent references,
  and the rendering follows child references: both take fuel, and \<open>None\<close> says
  that it ran out.
\<close>

fun complex_nesting :: "nat \<Rightarrow> ru_store \<Rightarrow> nat option \<Rightarrow> bool option" where
  "complex_nesting 0 h n = None"
| "complex_nesting (Suc k) h None = Some False"
| "complex_nesting (Suc k) h (Some n) =
     (if b_operator (h ! n) \<in> {Some ''||'', Some ''^^'', Some ''??''} then Some True
      else complex_nesting k h (b_parent (h ! n)))"

definition child_satisfied :: "ru_store \<Rightarrow> ru_child \<Rightarrow> bool" where
  "child_satisfied h c = (case c of RLeaf t b \<Rightarrow> b | RBranch k \<Rightarrow> b_satisfied (h ! k))"

fun those_all :: "'a option list \<Rightarrow> 'a list option" where
  "those_all [] = Some []"
| "those_all (None # xs) = None"
| "those_all (Some x # xs) = (case those_all xs of None \<Rightarrow> None | Some ys \<Rightarrow> Some (x # ys))"

fun tounicode :: "nat \<Rightarrow> ru_store \<Rightarrow> nat \<Rightarrow> string option" where
  "tounicode 0 h n = None"
| "tounicode (Suc k) h n =
     (let include_parens = (b_parent (h ! n) \<noteq> None);
          tokens = (case b_operator (h ! n) of None \<Rightarrow> [] | Some opr \<Rightarrow> [opr])
                   @ (if include_parens then [''(''] else [])
      in case complex_nesting (Suc (length h)) h (Some n) of
           None \<Rightarrow> None
         | Some nesting \<Rightarrow>
             (case those_all (map (\<lambda>c. case c of RLeaf t b \<Rightarrow> Some t | RBranch m \<Rightarrow> tounicode k h m)
                               (if nesting then b_children (h ! n)
                                else filter (\<lambda>c. \<not> child_satisfied h c) (b_children (h ! n)))) of
                None \<Rightarrow> None
              | Some parts \<Rightarrow>
                  Some (join '' '' (tokens @ parts @ (if include_parens then ['')''] else [])))))"

text \<open>The rendering of a returned tree, with fuel to spare for every branch.\<close>

definition explanation :: "error + ru_store \<Rightarrow> string option" where
  "explanation r = (case r of Inl e \<Rightarrow> None | Inr h \<Rightarrow> tounicode (Suc (length h)) h 0)"

section \<open>String primitives of the matcher\<close>

text \<open>\<^verbatim>\<open>s.find(sub, start)\<close>, \<open>None\<close> standing for \<^verbatim>\<open>-1\<close>.\<close>

fun find_at :: "string \<Rightarrow> string \<Rightarrow> nat \<Rightarrow> nat option" where
  "find_at [] sub i = (if sub = [] then Some i else None)"
| "find_at (c # cs) sub i = (if startswith (c # cs) sub then Some i else find_at cs sub (Suc i))"

definition find_from :: "string \<Rightarrow> string \<Rightarrow> nat \<Rightarrow> nat option" where
  "find_from s sub start = (if start > length s then None else find_at (drop start s) sub start)"

definition py_find :: "string \<Rightarrow> string \<Rightarrow> nat option" where
  "py_find s sub = find_from s sub 0"

text \<open>\<^verbatim>\<open>sub in s\<close> for strings.\<close>

definition contains :: "string \<Rightarrow> string \<Rightarrow> bool" where
  "contains s sub = (py_find s sub \<noteq> None)"

text \<open>\<^verbatim>\<open>s.replace(old, new, 1)\<close>: the leftmost occurrence is replaced.\<close>

definition replace_first :: "string \<Rightarrow> string \<Rightarrow> string \<Rightarrow> string" where
  "replace_first s old new =
     (case py_find s old of
        None \<Rightarrow> s
      | Some i \<Rightarrow> take i s @ new @ drop (i + length old) s)"

text \<open>\<^verbatim>\<open>s.lstrip("0")\<close> and \<^verbatim>\<open>c.isdigit()\<close> (code points below 256).\<close>

definition lstrip0 :: "string \<Rightarrow> string" where
  "lstrip0 s = dropWhile (\<lambda>c. c = CHR ''0'') s"

definition isdigit :: "char \<Rightarrow> bool" where
  "isdigit c = ((48 \<le> (of_char c :: nat) \<and> (of_char c :: nat) \<le> 57)
                \<or> (of_char c :: nat) \<in> {178, 179, 185})"

section \<open>Packages, USE dependencies and atoms\<close>

text \<open>
  What the matcher reads of a candidate that is a \<^verbatim>\<open>_pkg_str\<close> or a \<^verbatim>\<open>Package\<close>
  (neither class is part of the sources at hand). \<open>pkg_cpv\<close> is the text of
  \<^verbatim>\<open>x.cpv\<close>; \<open>pkg_cpv_split\<close>, \<open>pkg_version\<close> and \<open>pkg_build_id\<close> are read from
  \<^verbatim>\<open>x\<close> or from \<^verbatim>\<open>x.cpv\<close>, which agree. An attribute that the object may lack
  (\<^verbatim>\<open>slot\<close>, \<^verbatim>\<open>sub_slot\<close>, \<^verbatim>\<open>repo\<close>, \<^verbatim>\<open>use\<close>) is an option, \<open>None\<close> for its absence;
  \<open>pkg_use\<close> is \<^verbatim>\<open>x.use.enabled\<close> and \<open>pkg_iuse_is_valid_flag\<close> is
  \<^verbatim>\<open>x.iuse.is_valid_flag\<close> on one flag.
\<close>

record pkg =
  pkg_cpv :: string
  pkg_cp :: string
  pkg_cpv_split :: "string \<times> string \<times> string \<times> string"
  pkg_version :: string
  pkg_build_id :: "nat option"
  pkg_slot :: "string option"
  pkg_sub_slot :: "string option"
  pkg_repo :: "string option"
  pkg_use :: "string set option"
  pkg_iuse_is_valid_flag :: "string \<Rightarrow> bool"

text \<open>A candidate, and the \<^verbatim>\<open>cpv\<close> of an atom: a plain string or such an object.\<close>

datatype cand = Str string | Pkg pkg

definition cand_text :: "cand \<Rightarrow> string" where
  "cand_text x = (case x of Str s \<Rightarrow> s | Pkg p \<Rightarrow> pkg_cpv p)"

text \<open>\<^verbatim>\<open>_use_dep\<close> with its \<^verbatim>\<open>_conditionals_class\<close>.\<close>

record conditionals =
  c_enabled :: "string set"
  c_disabled :: "string set"
  c_equal :: "string set"
  c_not_equal :: "string set"

record use_dep =
  tokens :: "string list"
  required :: "string set"
  enabled :: "string set"
  disabled :: "string set"
  missing_enabled :: "string set"
  missing_disabled :: "string set"
  conditional :: "conditionals option"

text \<open>
  \<^verbatim>\<open>Atom\<close>. \<open>atom_str\<close> is the text of the atom (an \<^verbatim>\<open>Atom\<close> is a \<^verbatim>\<open>str\<close>);
  \<open>blocker\<close> is \<open>None\<close> for \<^verbatim>\<open>False\<close> and \<open>Some forbid\<close> for a blocker;
  \<open>unevaluated_atom\<close> is \<open>None\<close> where the attribute is the atom itself.
  \<^verbatim>\<open>without_use\<close> is read by none of the functions here and is left out.
\<close>

datatype atom = Atom
  (atom_str: string)
  (blocker: "bool option")
  (operator: "string option")
  (cp: string)
  (cpv: cand)
  (version: "string option")
  (slot: "string option")
  (sub_slot: "string option")
  (slot_operator: "string option")
  (repo: "string option")
  (use: "use_dep option")
  (build_id: "nat option")
  (extended_syntax: bool)
  (unevaluated_atom: "atom option")

text \<open>
  What \<^verbatim>\<open>Atom.__init__\<close> takes from the text by its regular expressions and
  \<^verbatim>\<open>_pkg_str\<close> (lines 78 to 212): the expressions \<^verbatim>\<open>_cp\<close>, \<^verbatim>\<open>_cpv\<close>, \<^verbatim>\<open>_slot\<close> of
  \<^verbatim>\<open>portage.versions\<close> are not part of the sources at hand, so this step is a
  parameter. \<open>syn_use_str\<close> is the group \<^verbatim>\<open>[...]\<close>, where there is one.
\<close>

record atom_syntax =
  syn_blocker :: "bool option"
  syn_operator :: "string option"
  syn_cp :: string
  syn_cpv :: cand
  syn_version :: "string option"
  syn_slot :: "string option"
  syn_sub_slot :: "string option"
  syn_slot_operator :: "string option"
  syn_repo :: "string option"
  syn_build_id :: "nat option"
  syn_extended_syntax :: bool
  syn_use_str :: "string option"

text \<open>
  The functions of \<^verbatim>\<open>portage.versions\<close> and the constant \<^verbatim>\<open>_unknown_repo\<close> that the
  matcher imports, none of them in the sources at hand, as parameters.
  \<open>vercmp\<close> may raise, or return \<^verbatim>\<open>None\<close>; \<open>catpkgsplit\<close> returns \<^verbatim>\<open>None\<close> on
  what is no cpv; \<open>pkg_str_new s slot\<close> is \<^verbatim>\<open>_pkg_str(s, slot=slot)\<close>, \<open>None\<close> where
  it raises \<^verbatim>\<open>InvalidData\<close>; \<open>atom_parse s allow_wildcard allow_repo\<close> is the
  parsing step of \<^verbatim>\<open>Atom.__init__\<close> with \<^verbatim>\<open>eapi=None\<close>.
\<close>

record versions_env =
  vercmp :: "string \<Rightarrow> string \<Rightarrow> error + int option"
  catpkgsplit :: "cand \<Rightarrow> (string \<times> string \<times> string \<times> string) option"
  pkg_str_new :: "string \<Rightarrow> string option \<Rightarrow> pkg option"
  unknown_repo :: string
  atom_parse :: "string \<Rightarrow> bool \<Rightarrow> bool \<Rightarrow> error + atom_syntax"

section \<open>USE dependencies\<close>

text \<open>
  A match of \<^verbatim>\<open>_usedep_re\<close>, the expression
  \<^verbatim>\<open>^(?P<prefix>[!-]?)(?P<flag>[A-Za-z0-9][A-Za-z0-9+_@-]*)(?P<default>(\(\+\)|\(\-\))?)(?P<suffix>[?=]?)$\<close>,
  with its four named groups. No character that may follow the flag belongs to the
  class of the flag, so the flag is the longest run; \<^verbatim>\<open>$\<close> also matches before a
  final newline.
\<close>

record usedep_groups =
  g_prefix :: string
  g_flag :: string
  g_default :: string
  g_suffix :: string

definition isalnum_ascii :: "char \<Rightarrow> bool" where
  "isalnum_ascii c =
     (let k = (of_char c :: nat)
      in (48 \<le> k \<and> k \<le> 57) \<or> (65 \<le> k \<and> k \<le> 90) \<or> (97 \<le> k \<and> k \<le> 122))"

definition flag_char :: "char \<Rightarrow> bool" where
  "flag_char c = (isalnum_ascii c \<or> c \<in> {CHR ''+'', CHR ''_'', CHR ''@'', CHR ''-''})"

definition usedep_re_match :: "string \<Rightarrow> usedep_groups option" where
  "usedep_re_match x =
     (let prefix = (if x \<noteq> [] \<and> hd x \<in> {CHR ''!'', CHR ''-''} then [hd x] else []);
          r1 = drop (length prefix) x
      in if r1 = [] \<or> \<not> isalnum_ascii (hd r1) then None
         else
           (let flag = hd r1 # takeWhile flag_char (tl r1);
                r2 = dropWhile flag_char (tl r1);
                default = (if startswith r2 ''(+)'' then ''(+)''
                           else if startswith r2 ''(-)'' then ''(-)'' else []);
                r3 = drop (length default) r2;
                suffix = (if r3 \<noteq> [] \<and> hd r3 \<in> {CHR ''?'', CHR ''=''} then [hd r3] else []);
                r4 = drop (length suffix) r3
            in if r4 = [] \<or> r4 = [CHR 0x0A]
               then Some \<lparr>g_prefix = prefix, g_flag = flag, g_default = default, g_suffix = suffix\<rparr>
               else None))"

text \<open>
  The dictionary \<^verbatim>\<open>conditional\<close> of sets, as the list of its items, and
  \<^verbatim>\<open>conditional.setdefault(k, set()).add(flag)\<close> on it.
\<close>

fun cond_add :: "string \<Rightarrow> string \<Rightarrow> (string \<times> string set) list \<Rightarrow> (string \<times> string set) list" where
  "cond_add k flag [] = [(k, {flag})]"
| "cond_add k flag ((k', fs) # c) =
     (if k' = k then (k', insert flag fs) # c else (k', fs) # cond_add k flag c)"

text \<open>
  The \<^verbatim>\<open>_conditionals_class\<close> made of such a dictionary when it is not empty,
  \<^verbatim>\<open>frozenset(conditional.get(k, ()))\<close> for each of the four keys.
\<close>

definition cond_get :: "string \<Rightarrow> (string \<times> string set) list \<Rightarrow> string set" where
  "cond_get k c = (case map_of c k of None \<Rightarrow> {} | Some fs \<Rightarrow> fs)"

definition conditionals_of :: "(string \<times> string set) list \<Rightarrow> conditionals option" where
  "conditionals_of c =
     (if c = [] then None
      else Some \<lparr>c_enabled = cond_get ''enabled'' c,
                 c_disabled = cond_get ''disabled'' c,
                 c_equal = cond_get ''equal'' c,
                 c_not_equal = cond_get ''not_equal'' c\<rparr>)"

text \<open>
  \<^verbatim>\<open>_use_dep.__init__(use, eapi_attrs)\<close>, the parsing constructor: the state of its
  loop over the tokens and one iteration.
\<close>

record usedep_acc =
  acc_enabled :: "string set"
  acc_disabled :: "string set"
  acc_missing_enabled :: "string set"
  acc_missing_disabled :: "string set"
  acc_no_default :: "string set"
  acc_conditional :: "(string \<times> string set) list"

definition use_dep_init_step :: "usedep_acc \<Rightarrow> string \<Rightarrow> error + usedep_acc" where
  "use_dep_init_step a x =
     (case usedep_re_match x of
        None \<Rightarrow> Inl InvalidAtom
      | Some m \<Rightarrow>
          (let opr = g_prefix m @ g_suffix m; flag = g_flag m; default = g_default m
           in case (if opr = [] then Inr (a\<lparr>acc_enabled := insert flag (acc_enabled a)\<rparr>)
                    else if opr = ''-'' then Inr (a\<lparr>acc_disabled := insert flag (acc_disabled a)\<rparr>)
                    else if opr = ''?'' then Inr (a\<lparr>acc_conditional := cond_add ''enabled'' flag (acc_conditional a)\<rparr>)
                    else if opr = ''='' then Inr (a\<lparr>acc_conditional := cond_add ''equal'' flag (acc_conditional a)\<rparr>)
                    else if opr = ''!='' then Inr (a\<lparr>acc_conditional := cond_add ''not_equal'' flag (acc_conditional a)\<rparr>)
                    else if opr = ''!?'' then Inr (a\<lparr>acc_conditional := cond_add ''disabled'' flag (acc_conditional a)\<rparr>)
                    else Inl InvalidAtom) of
                Inl e \<Rightarrow> Inl e
              | Inr b \<Rightarrow>
                  (if default \<noteq> [] then
                     (if default = ''(+)'' then
                        (if flag \<in> acc_missing_disabled b \<or> flag \<in> acc_no_default b then Inl InvalidAtom
                         else Inr (b\<lparr>acc_missing_enabled := insert flag (acc_missing_enabled b)\<rparr>))
                      else
                        (if flag \<in> acc_missing_enabled b \<or> flag \<in> acc_no_default b then Inl InvalidAtom
                         else Inr (b\<lparr>acc_missing_disabled := insert flag (acc_missing_disabled b)\<rparr>)))
                   else
                     (if flag \<in> acc_missing_enabled b \<or> flag \<in> acc_missing_disabled b then Inl InvalidAtom
                      else Inr (b\<lparr>acc_no_default := insert flag (acc_no_default b)\<rparr>)))))"

fun use_dep_init_loop :: "usedep_acc \<Rightarrow> string list \<Rightarrow> error + usedep_acc" where
  "use_dep_init_loop a [] = Inr a"
| "use_dep_init_loop a (x # xs) =
     (case use_dep_init_step a x of Inl e \<Rightarrow> Inl e | Inr b \<Rightarrow> use_dep_init_loop b xs)"

definition use_dep_init :: "string list \<Rightarrow> error + use_dep" where
  "use_dep_init use_tokens =
     (case use_dep_init_loop
             \<lparr>acc_enabled = {}, acc_disabled = {}, acc_missing_enabled = {},
              acc_missing_disabled = {}, acc_no_default = {}, acc_conditional = []\<rparr>
             use_tokens of
        Inl e \<Rightarrow> Inl e
      | Inr a \<Rightarrow>
          Inr \<lparr>tokens = use_tokens, required = acc_no_default a, enabled = acc_enabled a,
               disabled = acc_disabled a, missing_enabled = acc_missing_enabled a,
               missing_disabled = acc_missing_disabled a,
               conditional = conditionals_of (acc_conditional a)\<rparr>)"

text \<open>\<^verbatim>\<open>bool(use_dep)\<close> and \<^verbatim>\<open>str(use_dep)\<close>.\<close>

definition use_dep_bool :: "use_dep \<Rightarrow> bool" where
  "use_dep_bool d = (tokens d \<noteq> [])"

definition use_dep_str :: "use_dep \<Rightarrow> string" where
  "use_dep_str d = (if tokens d = [] then [] else ''['' @ join '','' (tokens d) @ '']'')"

text \<open>
  \<^verbatim>\<open>_use_dep.evaluate_conditionals(use)\<close>: the loop over \<^verbatim>\<open>self.tokens\<close> with the
  sets \<^verbatim>\<open>enabled_flags\<close>, \<^verbatim>\<open>disabled_flags\<close> and the list \<^verbatim>\<open>tokens\<close>. A token that
  the expression does not match makes \<^verbatim>\<open>m.group\<close> fail on \<^verbatim>\<open>None\<close>. The result is
  built by the shortcut of the constructor, with no \<^verbatim>\<open>conditional\<close>.
\<close>

definition eval_token ::
  "string set \<Rightarrow> string set \<times> string set \<times> string list \<Rightarrow> string
     \<Rightarrow> error + string set \<times> string set \<times> string list" where
  "eval_token use_set st x =
     (case st of (enabled_flags, disabled_flags, toks) \<Rightarrow>
        (case usedep_re_match x of
           None \<Rightarrow> Inl AttributeError
         | Some m \<Rightarrow>
             (let opr = g_prefix m @ g_suffix m; flag = g_flag m; default = g_default m
              in if opr = ''?'' then
                   (if flag \<in> use_set
                    then Inr (insert flag enabled_flags, disabled_flags, toks @ [flag @ default])
                    else Inr st)
                 else if opr = ''='' then
                   (if flag \<in> use_set
                    then Inr (insert flag enabled_flags, disabled_flags, toks @ [flag @ default])
                    else Inr (enabled_flags, insert flag disabled_flags, toks @ [''-'' @ flag @ default]))
                 else if opr = ''!='' then
                   (if flag \<in> use_set
                    then Inr (enabled_flags, insert flag disabled_flags, toks @ [''-'' @ flag @ default])
                    else Inr (insert flag enabled_flags, disabled_flags, toks @ [flag @ default]))
                 else if opr = ''!?'' then
                   (if flag \<notin> use_set
                    then Inr (enabled_flags, insert flag disabled_flags, toks @ [''-'' @ flag @ default])
                    else Inr st)
                 else Inr (enabled_flags, disabled_flags, toks @ [x]))))"

fun eval_tokens ::
  "string set \<Rightarrow> string set \<times> string set \<times> string list \<Rightarrow> string list
     \<Rightarrow> error + string set \<times> string set \<times> string list" where
  "eval_tokens use_set st [] = Inr st"
| "eval_tokens use_set st (x # xs) =
     (case eval_token use_set st x of Inl e \<Rightarrow> Inl e | Inr st' \<Rightarrow> eval_tokens use_set st' xs)"

definition use_dep_evaluate_conditionals :: "use_dep \<Rightarrow> string set \<Rightarrow> error + use_dep" where
  "use_dep_evaluate_conditionals self use_set =
     (case eval_tokens use_set (enabled self, disabled self, []) (tokens self) of
        Inl e \<Rightarrow> Inl e
      | Inr (enabled_flags, disabled_flags, toks) \<Rightarrow>
          Inr \<lparr>tokens = toks, required = required self, enabled = enabled_flags,
               disabled = disabled_flags, missing_enabled = missing_enabled self,
               missing_disabled = missing_disabled self, conditional = None\<rparr>)"

section \<open>Atoms: construction and evaluation of conditionals\<close>

text \<open>\<^verbatim>\<open>remove_slot\<close>, \<^verbatim>\<open>dep_getslot\<close> and \<^verbatim>\<open>dep_getrepo\<close> on the text of a dependency.\<close>

definition remove_slot :: "string \<Rightarrow> string" where
  "remove_slot mydep =
     (case py_find mydep '':'' of
        Some colon \<Rightarrow> take colon mydep
      | None \<Rightarrow> (case py_find mydep ''['' of Some bracket \<Rightarrow> take bracket mydep | None \<Rightarrow> mydep))"

definition dep_getslot_str :: "string \<Rightarrow> string option" where
  "dep_getslot_str mydep0 =
     (let mydep = (case py_find mydep0 ''::'' of None \<Rightarrow> mydep0 | Some i \<Rightarrow> take i mydep0)
      in case py_find mydep '':'' of
           None \<Rightarrow> None
         | Some colon \<Rightarrow>
             (case find_from mydep ''['' colon of
                None \<Rightarrow> Some (drop (colon + 1) mydep)
              | Some bracket \<Rightarrow> Some (take (bracket - (colon + 1)) (drop (colon + 1) mydep))))"

definition dep_getrepo_str :: "string \<Rightarrow> string option" where
  "dep_getrepo_str mydep =
     (case py_find mydep ''::'' of
        None \<Rightarrow> None
      | Some colon \<Rightarrow>
          (case find_from mydep ''['' colon of
             None \<Rightarrow> Some (drop (colon + 2) mydep)
           | Some bracket \<Rightarrow> Some (take (bracket - (colon + 2)) (drop (colon + 2) mydep))))"

text \<open>
  \<^verbatim>\<open>Atom(s, unevaluated_atom, allow_wildcard, allow_repo, _use)\<close> with \<^verbatim>\<open>eapi=None\<close>,
  as every call here makes it: the parsing step, then the USE dependencies (the
  given \<^verbatim>\<open>_use\<close>, or the tokens between the brackets parsed, when the text has the
  group; none otherwise) and \<^verbatim>\<open>unevaluated_atom\<close>. With \<^verbatim>\<open>eapi=None\<close> an absent
  \<^verbatim>\<open>allow_repo\<close> is \<^verbatim>\<open>True\<close> and the checks against the EAPI are skipped.
  \<^verbatim>\<open>use_str[1:-1].split(",")\<close> is \<open>split_on\<close>.
\<close>

fun split_on_acc :: "char \<Rightarrow> string \<Rightarrow> string \<Rightarrow> string list" where
  "split_on_acc sep cur [] = [cur]"
| "split_on_acc sep cur (c # cs) =
     (if c = sep then cur # split_on_acc sep [] cs else split_on_acc sep (cur @ [c]) cs)"

definition split_on :: "char \<Rightarrow> string \<Rightarrow> string list" where
  "split_on sep s = split_on_acc sep [] s"

definition Atom_init ::
  "versions_env \<Rightarrow> string \<Rightarrow> atom option \<Rightarrow> bool \<Rightarrow> bool option \<Rightarrow> use_dep option \<Rightarrow> error + atom" where
  "Atom_init env s unevaluated allow_wildcard allow_repo use_given =
     (case atom_parse env s allow_wildcard (case allow_repo of None \<Rightarrow> True | Some b \<Rightarrow> b) of
        Inl e \<Rightarrow> Inl e
      | Inr syn \<Rightarrow>
          (case (case syn_use_str syn of
                   None \<Rightarrow> Inr None
                 | Some use_str \<Rightarrow>
                     (case use_given of
                        Some d \<Rightarrow> Inr (Some d)
                      | None \<Rightarrow>
                          (case use_dep_init (split_on CHR '','' (butlast (tl use_str))) of
                             Inl e \<Rightarrow> Inl e
                           | Inr d \<Rightarrow> Inr (Some d)))) of
             Inl e \<Rightarrow> Inl e
           | Inr u \<Rightarrow>
               Inr (Atom s (syn_blocker syn) (syn_operator syn) (syn_cp syn) (syn_cpv syn)
                      (syn_version syn) (syn_slot syn) (syn_sub_slot syn) (syn_slot_operator syn)
                      (syn_repo syn) u (syn_build_id syn) (syn_extended_syntax syn)
                      (case unevaluated of
                         None \<Rightarrow> None
                       | Some ua \<Rightarrow> if atom_str ua \<noteq> [] then Some ua else None))))"

text \<open>
  The text that \<^verbatim>\<open>evaluate_conditionals\<close> builds before it adds the USE
  dependencies: \<^verbatim>\<open>remove_slot(self)\<close>, then the slot, sub-slot and slot operator.
\<close>

definition slot_suffix :: "atom \<Rightarrow> string" where
  "slot_suffix self =
     (if slot self \<noteq> None \<or> slot_operator self \<noteq> None
      then '':'' @ (case slot self of None \<Rightarrow> [] | Some sl \<Rightarrow> sl)
               @ (case sub_slot self of None \<Rightarrow> [] | Some ss \<Rightarrow> ''/'' @ ss)
               @ (case slot_operator self of None \<Rightarrow> [] | Some so \<Rightarrow> so)
      else [])"

text \<open>\<^verbatim>\<open>Atom.evaluate_conditionals(use)\<close>.\<close>

definition evaluate_conditionals :: "versions_env \<Rightarrow> atom \<Rightarrow> string set \<Rightarrow> error + atom" where
  "evaluate_conditionals env self use_set =
     (case use self of
        None \<Rightarrow> Inr self
      | Some d \<Rightarrow>
          (if \<not> (use_dep_bool d \<and> conditional d \<noteq> None) then Inr self
           else
             (case use_dep_evaluate_conditionals d use_set of
                Inl e \<Rightarrow> Inl e
              | Inr use_dep \<Rightarrow>
                  Atom_init env (remove_slot (atom_str self) @ slot_suffix self @ use_dep_str use_dep)
                    (Some self) False (Some (repo self \<noteq> None)) (Some use_dep))))"

section \<open>The matcher: \<^verbatim>\<open>match_from_list\<close>\<close>

text \<open>
  A loop \<^verbatim>\<open>for x in candidate_list\<close> that skips a candidate (\<^verbatim>\<open>continue\<close>), keeps
  it (\<^verbatim>\<open>mylist.append(x)\<close>) or raises: the candidates are filtered in order by a
  test that may fail, and the first failure is the result.
\<close>

fun filter_err :: "('a \<Rightarrow> error + bool) \<Rightarrow> 'a list \<Rightarrow> error + 'a list" where
  "filter_err f [] = Inr []"
| "filter_err f (x # xs) =
     (case f x of
        Inl e \<Rightarrow> Inl e
      | Inr b \<Rightarrow>
          (case filter_err f xs of
             Inl e \<Rightarrow> Inl e
           | Inr ys \<Rightarrow> Inr (if b then x # ys else ys)))"

text \<open>The first argument of \<^verbatim>\<open>match_from_list\<close>: an \<^verbatim>\<open>Atom\<close> or a plain string.\<close>

datatype dep_arg = AtomArg atom | StrArg string

definition dep_text :: "dep_arg \<Rightarrow> string" where
  "dep_text d = (case d of AtomArg a \<Rightarrow> atom_str a | StrArg s \<Rightarrow> s)"

text \<open>
  \<^verbatim>\<open>_match_slot(atom, pkg)\<close>, for a package that has the attribute \<^verbatim>\<open>slot\<close>; reading
  a \<^verbatim>\<open>sub_slot\<close> that the package lacks fails.
\<close>

definition match_slot :: "atom \<Rightarrow> pkg \<Rightarrow> error + bool" where
  "match_slot a p =
     (if pkg_slot p = slot a then
        (if sub_slot a = None \<or> sub_slot a = Some [] then Inr True
         else (case pkg_sub_slot p of
                 None \<Rightarrow> Inl AttributeError
               | Some ss \<Rightarrow> Inr (sub_slot a = Some ss)))
      else Inr False)"

text \<open>\<^verbatim>\<open>cpvequal(cpv1, cpv2)\<close>: a string is made a \<^verbatim>\<open>_pkg_str\<close> first.\<close>

definition as_pkg :: "versions_env \<Rightarrow> cand \<Rightarrow> pkg option" where
  "as_pkg env c = (case c of Pkg p \<Rightarrow> Some p | Str s \<Rightarrow> pkg_str_new env s None)"

definition cpvequal :: "versions_env \<Rightarrow> cand \<Rightarrow> cand \<Rightarrow> error + bool" where
  "cpvequal env cpv1 cpv2 =
     (case as_pkg env cpv1 of
        None \<Rightarrow> Inl PortageException
      | Some p1 \<Rightarrow>
          (case as_pkg env cpv2 of
             None \<Rightarrow> Inl PortageException
           | Some p2 \<Rightarrow>
               (case (pkg_cpv_split p1, pkg_cpv_split p2) of
                  ((c1, n1, v1, r1), (c2, n2, v2, r2)) \<Rightarrow>
                    (if c1 \<noteq> c2 \<or> n1 \<noteq> n2 then Inr False
                     else (case vercmp env (pkg_version p1) (pkg_version p2) of
                             Inl e \<Rightarrow> Inl e
                           | Inr r \<Rightarrow> Inr (r = Some 0))))))"

text \<open>
  \<^verbatim>\<open>extended_cp_match(extended_cp, other_cp)\<close>: the expression is the escaped
  pattern with each \<^verbatim>\<open>*\<close> standing for \<^verbatim>\<open>[^/]*\<close>, between \<^verbatim>\<open>^\<close> and \<^verbatim>\<open>$\<close>.
\<close>

fun extended_cp_match :: "string \<Rightarrow> string \<Rightarrow> bool" where
  "extended_cp_match [] other = (other = [] \<or> other = [CHR 0x0A])"
| "extended_cp_match (c # pat) other =
     (if c = CHR ''*''
      then list_ex (\<lambda>k. extended_cp_match pat (drop k other))
             [0 ..< Suc (length (takeWhile (\<lambda>d. d \<noteq> CHR ''/'') other))]
      else (case other of [] \<Rightarrow> False | d # rest \<Rightarrow> d = c \<and> extended_cp_match pat rest))"

text \<open>
  The \<^verbatim>\<open>cp\<close> of a candidate as the branches for wildcard and plain atoms find it:
  the attribute, or \<^verbatim>\<open>catpkgsplit(remove_slot(x))\<close>.
\<close>

definition cand_cp :: "versions_env \<Rightarrow> cand \<Rightarrow> string option" where
  "cand_cp env x =
     (case x of
        Pkg p \<Rightarrow> Some (pkg_cp p)
      | Str s \<Rightarrow>
          (case catpkgsplit env (Str (remove_slot s)) of
             None \<Rightarrow> None
           | Some (c, n, v, r) \<Rightarrow> Some (c @ ''/'' @ n)))"

text \<open>The branch \<^verbatim>\<open>if mydep.extended_syntax\<close>.\<close>

definition cand_version :: "versions_env \<Rightarrow> cand \<Rightarrow> string option" where
  "cand_version env x =
     (case x of
        Pkg p \<Rightarrow> Some (pkg_version p)
      | Str s \<Rightarrow>
          (case catpkgsplit env (Str (remove_slot s)) of
             None \<Rightarrow> None
           | Some (c, n, v, r) \<Rightarrow> Some (v @ ''-'' @ r)))"

definition match_extended :: "versions_env \<Rightarrow> atom \<Rightarrow> cand list \<Rightarrow> error + cand list" where
  "match_extended env mydep candidate_list =
     (let mylist = filter (\<lambda>x. case cand_cp env x of
                                  None \<Rightarrow> False
                                | Some xcp \<Rightarrow> xcp = cand_text (cpv mydep) \<or> extended_cp_match (cp mydep) xcp)
                     candidate_list
      in if mylist \<noteq> [] \<and> operator mydep = Some ''=*'' then
           (case version mydep of
              None \<Rightarrow> Inl TypeError
            | Some v \<Rightarrow>
                Inr (filter (\<lambda>x. case cand_version env x of
                                   None \<Rightarrow> False
                                 | Some x_ver \<Rightarrow> contains x_ver (butlast (tl v)))
                       mylist))
         else Inr mylist)"

text \<open>The branch \<^verbatim>\<open>elif operator is None\<close>.\<close>

definition match_cp :: "versions_env \<Rightarrow> atom \<Rightarrow> cand list \<Rightarrow> cand list" where
  "match_cp env mydep candidate_list =
     filter (\<lambda>x. cand_cp env x = Some (cp mydep)) candidate_list"

text \<open>The branch \<^verbatim>\<open>elif operator == "="\<close>.\<close>

definition exact_test :: "versions_env \<Rightarrow> atom \<Rightarrow> cand \<Rightarrow> error + bool" where
  "exact_test env mydep x =
     (let xcpv = (case x of Pkg p \<Rightarrow> Pkg p | Str s \<Rightarrow> Str (remove_slot s))
      in case cpvequal env xcpv (cpv mydep) of
           Inl e \<Rightarrow> Inl e
         | Inr False \<Rightarrow> Inr False
         | Inr True \<Rightarrow>
             Inr (\<not> (build_id mydep \<noteq> None
                      \<and> (case xcpv of Pkg p \<Rightarrow> pkg_build_id p | Str s \<Rightarrow> None) \<noteq> build_id mydep)))"

text \<open>
  The branch \<^verbatim>\<open>elif operator == "=*"\<close>. \<open>glob_ver\<close> is the version without its
  leading zeros, one zero put back where nothing or no digit would lead;
  \<open>glob_cpv\<close> is \<^verbatim>\<open>mycpv_cmp\<close> for the atom and \<^verbatim>\<open>xcpv\<close> for a candidate.
\<close>

definition glob_ver :: "string \<Rightarrow> string" where
  "glob_ver v =
     (let myver = lstrip0 v
      in if myver = [] \<or> \<not> isdigit (hd myver) then ''0'' @ myver else myver)"

definition glob_cpv :: "string \<Rightarrow> string \<Rightarrow> string \<Rightarrow> string" where
  "glob_cpv cpv_text cp_text v =
     (if glob_ver v = v then cpv_text
      else replace_first cpv_text (cp_text @ ''-'' @ v) (cp_text @ ''-'' @ glob_ver v))"

definition glob_boundary :: "string \<Rightarrow> string \<Rightarrow> error + bool" where
  "glob_boundary mycpv_cmp xcpv =
     (if startswith xcpv mycpv_cmp then
        (let next_char = take 1 (drop (length mycpv_cmp) xcpv)
         in if next_char = [] \<or> contains ''._-'' next_char then Inr True
            else if mycpv_cmp = [] then Inl IndexError
            else Inr (isdigit (last mycpv_cmp) \<noteq> isdigit (hd next_char)))
      else Inr False)"

definition glob_test :: "versions_env \<Rightarrow> string \<Rightarrow> cand \<Rightarrow> error + bool" where
  "glob_test env mycpv_cmp x =
     (case (case x of Pkg p \<Rightarrow> Some p | Str s \<Rightarrow> pkg_str_new env (remove_slot s) None) of
        None \<Rightarrow> Inr False
      | Some p \<Rightarrow>
          (case pkg_cpv_split p of
             (c, n, v, r) \<Rightarrow> glob_boundary mycpv_cmp (glob_cpv (pkg_cpv p) (pkg_cp p) v)))"

text \<open>The branch \<^verbatim>\<open>elif operator == "~"\<close>.\<close>

definition revision_test ::
  "versions_env \<Rightarrow> string \<times> string \<times> string \<times> string \<Rightarrow> cand \<Rightarrow> error + bool" where
  "revision_test env mycpv_cps x =
     (case (case x of Pkg p \<Rightarrow> Some (pkg_cpv_split p)
                    | Str s \<Rightarrow> catpkgsplit env (Str (remove_slot s))) of
        None \<Rightarrow> Inl InvalidData
      | Some (c, n, v, r) \<Rightarrow>
          (case mycpv_cps of (mc, mn, ver, rv) \<Rightarrow>
             (case cpvequal env (Str (c @ ''/'' @ n @ ''-'' @ v)) (Str (mc @ ''/'' @ mn @ ''-'' @ ver)) of
                Inl e \<Rightarrow> Inl e
              | Inr False \<Rightarrow> Inr False
              | Inr True \<Rightarrow> Inr (v = ver))))"

text \<open>
  The branch \<^verbatim>\<open>elif operator in (">", ">=", "<", "<=")\<close>. An atom without a
  version would hand \<^verbatim>\<open>None\<close> to \<^verbatim>\<open>vercmp\<close>.
\<close>

definition relational_test :: "versions_env \<Rightarrow> atom \<Rightarrow> string \<Rightarrow> cand \<Rightarrow> error + bool" where
  "relational_test env mydep opr x =
     (case (case x of Pkg p \<Rightarrow> Some p | Str s \<Rightarrow> pkg_str_new env (remove_slot s) None) of
        None \<Rightarrow> Inr False
      | Some p \<Rightarrow>
          (if pkg_cp p \<noteq> cp mydep then Inr False
           else (case version mydep of
                   None \<Rightarrow> Inl TypeError
                 | Some v \<Rightarrow>
                     (case vercmp env (pkg_version p) v of
                        Inl e \<Rightarrow> Inl e
                      | Inr None \<Rightarrow> Inr False
                      | Inr (Some result) \<Rightarrow>
                          (if opr = ''>'' then Inr (result > 0)
                           else if opr = ''>='' then Inr (result \<ge> 0)
                           else if opr = ''<'' then Inr (result < 0)
                           else if opr = ''<='' then Inr (result \<le> 0)
                           else Inl KeyError)))))"

text \<open>The filter \<^verbatim>\<open>if mydep.slot is not None\<close>.\<close>

definition slot_test :: "versions_env \<Rightarrow> atom \<Rightarrow> cand \<Rightarrow> error + bool" where
  "slot_test env mydep x =
     (case x of
        Pkg p \<Rightarrow> (if pkg_slot p = None then Inr True else match_slot mydep p)
      | Str s \<Rightarrow>
          (case dep_getslot_str s of
             None \<Rightarrow> Inr True
           | Some xslot \<Rightarrow>
               (case pkg_str_new env (remove_slot s) (Some xslot) of
                  None \<Rightarrow> Inr False
                | Some p \<Rightarrow> (if pkg_slot p = None then Inr True else match_slot mydep p))))"

text \<open>
  The filter \<^verbatim>\<open>if mydep.unevaluated_atom.use\<close>, \<open>uu\<close> being these USE dependencies.
  \<^verbatim>\<open>x.iuse.is_valid_flag\<close> on the set \<^verbatim>\<open>required\<close> holds when it holds of each flag.
\<close>

definition use_test :: "atom \<Rightarrow> use_dep \<Rightarrow> cand \<Rightarrow> bool" where
  "use_test mydep uu x =
     (case x of
        Str s \<Rightarrow> True
      | Pkg p \<Rightarrow>
          (case pkg_use p of
             None \<Rightarrow> True
           | Some use_enabled \<Rightarrow>
               (if use_dep_bool uu \<and> \<not> (\<forall>f \<in> required uu. pkg_iuse_is_valid_flag p f) then False
                else (case use mydep of
                        None \<Rightarrow> True
                      | Some d \<Rightarrow>
                          (if \<not> use_dep_bool d then True
                           else
                             (let is_missing_enabled = {f \<in> missing_enabled d. \<not> pkg_iuse_is_valid_flag p f};
                                  is_missing_disabled = {f \<in> missing_disabled d. \<not> pkg_iuse_is_valid_flag p f}
                              in if enabled d \<noteq> {}
                                    \<and> (enabled d \<inter> is_missing_disabled \<noteq> {}
                                       \<or> \<not> (enabled d - use_enabled \<subseteq> is_missing_enabled)) then False
                                 else if disabled d \<noteq> {}
                                    \<and> (disabled d \<inter> is_missing_enabled \<noteq> {}
                                       \<or> \<not> (disabled d \<inter> use_enabled \<subseteq> is_missing_disabled)) then False
                                 else True))))))"

text \<open>
  The filter \<^verbatim>\<open>if mydep.repo\<close>: the attribute \<^verbatim>\<open>repo\<close> of the candidate, or
  \<^verbatim>\<open>dep_getrepo(x)\<close>, which reads its text (no candidate has \<^verbatim>\<open>metadata\<close>).
\<close>

definition cand_repo :: "cand \<Rightarrow> string option" where
  "cand_repo x =
     (case x of
        Pkg p \<Rightarrow> (case pkg_repo p of Some r \<Rightarrow> Some r | None \<Rightarrow> dep_getrepo_str (pkg_cpv p))
      | Str s \<Rightarrow> dep_getrepo_str s)"

definition repo_test :: "versions_env \<Rightarrow> atom \<Rightarrow> cand \<Rightarrow> bool" where
  "repo_test env mydep x =
     (\<not> (cand_repo x \<noteq> None \<and> cand_repo x \<noteq> Some (unknown_repo env) \<and> cand_repo x \<noteq> repo mydep))"

definition repo_filter :: "versions_env \<Rightarrow> atom \<Rightarrow> cand list \<Rightarrow> cand list" where
  "repo_filter env mydep mylist =
     (if repo mydep \<noteq> None \<and> repo mydep \<noteq> Some [] then filter (repo_test env mydep) mylist
      else mylist)"

definition use_filter :: "atom \<Rightarrow> cand list \<Rightarrow> cand list" where
  "use_filter mydep mylist =
     (case use (case unevaluated_atom mydep of None \<Rightarrow> mydep | Some ua \<Rightarrow> ua) of
        None \<Rightarrow> mylist
      | Some uu \<Rightarrow> if use_dep_bool uu then filter (use_test mydep uu) mylist else mylist)"

definition slot_filter :: "versions_env \<Rightarrow> atom \<Rightarrow> cand list \<Rightarrow> error + cand list" where
  "slot_filter env mydep mylist =
     (if slot mydep \<noteq> None then filter_err (slot_test env mydep) mylist else Inr mylist)"

text \<open>
  The dispatch on the atom, from \<^verbatim>\<open>mycpv = mydep.cpv\<close> to the end of the chain of
  branches: the candidates that the operator accepts.
\<close>

definition match_operator :: "versions_env \<Rightarrow> atom \<Rightarrow> cand list \<Rightarrow> error + cand list" where
  "match_operator env mydep candidate_list =
     (let mycpv = cpv mydep; mycpv_cps = catpkgsplit env mycpv
      in if mycpv_cps \<noteq> None \<and> atom_str mydep = cand_text mycpv then Inl KeyError
         else
           (let specific = (case mycpv_cps of
                              None \<Rightarrow> False
                            | Some (c, n, ver, rv) \<Rightarrow> ver \<noteq> [] \<and> rv \<noteq> [])
            in if specific \<and> (operator mydep = None \<or> operator mydep = Some []) then Inr []
               else
                 (let opr = (if specific then operator mydep else None)
                  in if extended_syntax mydep then match_extended env mydep candidate_list
                     else (case opr of
                             None \<Rightarrow> Inr (match_cp env mydep candidate_list)
                           | Some op \<Rightarrow>
                               (case mycpv_cps of
                                  None \<Rightarrow> Inl TypeError
                                | Some (c, n, ver, rv) \<Rightarrow>
                                    (if op = ''='' then filter_err (exact_test env mydep) candidate_list
                                     else if op = ''=*'' then
                                       filter_err (glob_test env (glob_cpv (cand_text mycpv) (cp mydep) ver))
                                         candidate_list
                                     else if op = ''~'' then
                                       filter_err (revision_test env (c, n, ver, rv)) candidate_list
                                     else if op \<in> {''>'', ''>='', ''<'', ''<=''} then
                                       filter_err (relational_test env mydep op) candidate_list
                                     else Inl KeyError))))))"

text \<open>
  \<^verbatim>\<open>match_from_list(mydep, candidate_list)\<close>. A blocker prefix is cut from the text,
  which leaves a plain string; what is not an \<^verbatim>\<open>Atom\<close> then is parsed with
  \<^verbatim>\<open>allow_wildcard=True, allow_repo=True\<close>.
\<close>

definition match_from_list :: "versions_env \<Rightarrow> dep_arg \<Rightarrow> cand list \<Rightarrow> error + cand list" where
  "match_from_list env mydep0 candidate_list =
     (if candidate_list = [] then Inr []
      else
        (let mydep1 = (if take 1 (dep_text mydep0) = ''!''
                       then (if take 1 (drop 1 (dep_text mydep0)) = ''!''
                             then StrArg (drop 2 (dep_text mydep0))
                             else StrArg (drop 1 (dep_text mydep0)))
                       else mydep0)
         in case (case mydep1 of
                    AtomArg a \<Rightarrow> Inr a
                  | StrArg s \<Rightarrow> Atom_init env s None True (Some True) None) of
              Inl e \<Rightarrow> Inl e
            | Inr mydep \<Rightarrow>
                (case match_operator env mydep candidate_list of
                   Inl e \<Rightarrow> Inl e
                 | Inr mylist1 \<Rightarrow>
                     (case slot_filter env mydep mylist1 of
                        Inl e \<Rightarrow> Inl e
                      | Inr mylist2 \<Rightarrow> Inr (repo_filter env mydep (use_filter mydep mylist2))))))"

section \<open>Ranking: \<^verbatim>\<open>match_to_list\<close> and \<^verbatim>\<open>best_match_to_list\<close>\<close>

text \<open>
  \<^verbatim>\<open>match_to_list(mypkg, mylist)\<close>: the atoms of \<^verbatim>\<open>mylist\<close>, each once (an atom is
  its text), that match the package. \<open>seen\<close> is the set \<^verbatim>\<open>matches\<close>.
\<close>

fun match_to_list_from :: "versions_env \<Rightarrow> cand \<Rightarrow> string list \<Rightarrow> atom list \<Rightarrow> error + atom list" where
  "match_to_list_from env mypkg seen [] = Inr []"
| "match_to_list_from env mypkg seen (x # xs) =
     (if atom_str x \<in> set seen then match_to_list_from env mypkg seen xs
      else (case match_from_list env (AtomArg x) [mypkg] of
              Inl e \<Rightarrow> Inl e
            | Inr r \<Rightarrow>
                (case match_to_list_from env mypkg (seen @ [atom_str x]) xs of
                   Inl e \<Rightarrow> Inl e
                 | Inr ys \<Rightarrow> Inr (if r \<noteq> [] then x # ys else ys))))"

definition match_to_list :: "versions_env \<Rightarrow> cand \<Rightarrow> atom list \<Rightarrow> error + atom list" where
  "match_to_list env mypkg mylist = match_to_list_from env mypkg [] mylist"

definition operator_values :: "string option \<Rightarrow> int option" where
  "operator_values opr =
     (if opr = Some ''='' then Some 6
      else if opr = Some ''~'' then Some 5
      else if opr = Some ''=*'' then Some 4
      else if opr \<in> {Some ''>'', Some ''<'', Some ''>='', Some ''<=''} then Some 2
      else if opr = None then Some 1
      else None)"

text \<open>
  \<^verbatim>\<open>cpv_list.sort(key=cmp_sort_key(cmp_cpv))\<close>: the key compares by
  \<^verbatim>\<open>vercmp(cpv1.version, cpv2.version) < 0\<close>, and \<^verbatim>\<open>list.sort\<close> is stable. The
  model inserts the elements one by one, each behind those it is not less than;
  where \<^verbatim>\<open>vercmp\<close> orders the versions totally, every stable sort gives this list.
  A \<^verbatim>\<open>vercmp\<close> that returns \<^verbatim>\<open>None\<close> makes the comparison with 0 fail.
\<close>

definition cmp_cpv_less :: "versions_env \<Rightarrow> pkg \<Rightarrow> pkg \<Rightarrow> error + bool" where
  "cmp_cpv_less env cpv1 cpv2 =
     (case vercmp env (pkg_version cpv1) (pkg_version cpv2) of
        Inl e \<Rightarrow> Inl e
      | Inr None \<Rightarrow> Inl TypeError
      | Inr (Some r) \<Rightarrow> Inr (r < 0))"

fun insert_sorted :: "versions_env \<Rightarrow> pkg \<Rightarrow> pkg list \<Rightarrow> error + pkg list" where
  "insert_sorted env x [] = Inr [x]"
| "insert_sorted env x (y # ys) =
     (case cmp_cpv_less env x y of
        Inl e \<Rightarrow> Inl e
      | Inr True \<Rightarrow> Inr (x # y # ys)
      | Inr False \<Rightarrow>
          (case insert_sorted env x ys of Inl e \<Rightarrow> Inl e | Inr zs \<Rightarrow> Inr (y # zs)))"

fun sort_cpvs :: "versions_env \<Rightarrow> pkg list \<Rightarrow> pkg list \<Rightarrow> error + pkg list" where
  "sort_cpvs env acc [] = Inr acc"
| "sort_cpvs env acc (x # xs) =
     (case insert_sorted env x acc of Inl e \<Rightarrow> Inl e | Inr acc' \<Rightarrow> sort_cpvs env acc' xs)"

text \<open>
  The tie between the current best \<^verbatim>\<open>bestm\<close> and the challenger \<^verbatim>\<open>x\<close>, both of
  value 2: the branch \<^verbatim>\<open>elif op_val == maxvalue and op_val == 2\<close>, which returns
  the new \<^verbatim>\<open>bestm\<close>. The three \<^verbatim>\<open>cpv\<close> that are sorted have pairwise different
  texts, so \<^verbatim>\<open>is\<close> on them is the comparison of the texts. An atom whose \<^verbatim>\<open>cpv\<close>
  is a plain string has no \<^verbatim>\<open>version\<close> to compare.
\<close>

definition tie_break :: "versions_env \<Rightarrow> atom \<Rightarrow> pkg \<Rightarrow> atom \<Rightarrow> error + atom" where
  "tie_break env bestm mypkg_cpv x =
     (if cand_text (cpv bestm) = pkg_cpv mypkg_cpv \<or> cand_text (cpv bestm) = cand_text (cpv x)
      then Inr bestm
      else if cand_text (cpv x) = pkg_cpv mypkg_cpv then Inr x
      else (case (cpv bestm, cpv x) of
              (Pkg bp, Pkg xp) \<Rightarrow>
                (case sort_cpvs env [] [bp, mypkg_cpv, xp] of
                   Inl e \<Rightarrow> Inl e
                 | Inr cpv_list \<Rightarrow>
                     (if pkg_cpv (cpv_list ! 0) = pkg_cpv mypkg_cpv
                         \<or> pkg_cpv (cpv_list ! 2) = pkg_cpv mypkg_cpv
                      then (if pkg_cpv (cpv_list ! 1) = pkg_cpv xp then Inr x else Inr bestm)
                      else Inr bestm))
            | _ \<Rightarrow> Inl AttributeError))"

text \<open>
  One iteration of the loop of \<^verbatim>\<open>best_match_to_list\<close> over the matching atoms, on
  the state \<^verbatim>\<open>(maxvalue, bestm, mypkg_cpv)\<close>.
\<close>

definition best_step ::
  "versions_env \<Rightarrow> cand \<Rightarrow> int \<times> atom option \<times> pkg option \<Rightarrow> atom
     \<Rightarrow> error + int \<times> atom option \<times> pkg option" where
  "best_step env mypkg st x =
     (case st of (maxvalue0, bestm0, mypkg_cpv0) \<Rightarrow>
        if extended_syntax x then
          (if operator x = Some ''=*'' then
             Inr (if maxvalue0 < 0 then (0, Some x, mypkg_cpv0) else st)
           else if slot x \<noteq> None then
             Inr (if maxvalue0 < - 1 then (- 1, Some x, mypkg_cpv0) else st)
           else
             Inr (if maxvalue0 < - 2 then (- 2, Some x, mypkg_cpv0) else st))
        else
          (let (maxvalue, bestm) =
                 (if slot x \<noteq> None \<and> maxvalue0 < 3 then (3, Some x) else (maxvalue0, bestm0))
           in case operator_values (operator x) of
                None \<Rightarrow> Inl KeyError
              | Some op_val \<Rightarrow>
                  (if op_val > maxvalue then Inr (op_val, Some x, mypkg_cpv0)
                   else if op_val = maxvalue \<and> op_val = 2 then
                     (case (case mypkg_cpv0 of
                              Some c \<Rightarrow> Some c
                            | None \<Rightarrow> (case mypkg of
                                         Pkg p \<Rightarrow> Some p
                                       | Str s \<Rightarrow> pkg_str_new env (remove_slot s) None)) of
                        None \<Rightarrow> Inl InvalidData
                      | Some mypkg_cpv \<Rightarrow>
                          (case bestm of
                             None \<Rightarrow> Inl AttributeError
                           | Some b \<Rightarrow>
                               (case tie_break env b mypkg_cpv x of
                                  Inl e \<Rightarrow> Inl e
                                | Inr b' \<Rightarrow> Inr (maxvalue, Some b', Some mypkg_cpv))))
                   else Inr (maxvalue, bestm, mypkg_cpv0))))"

fun best_loop ::
  "versions_env \<Rightarrow> cand \<Rightarrow> int \<times> atom option \<times> pkg option \<Rightarrow> atom list
     \<Rightarrow> error + int \<times> atom option \<times> pkg option" where
  "best_loop env mypkg st [] = Inr st"
| "best_loop env mypkg st (x # xs) =
     (case best_step env mypkg st x of Inl e \<Rightarrow> Inl e | Inr st' \<Rightarrow> best_loop env mypkg st' xs)"

definition best_match_to_list :: "versions_env \<Rightarrow> cand \<Rightarrow> atom list \<Rightarrow> error + atom option" where
  "best_match_to_list env mypkg mylist =
     (case match_to_list env mypkg mylist of
        Inl e \<Rightarrow> Inl e
      | Inr atoms \<Rightarrow>
          (case best_loop env mypkg (- 99, None, None) atoms of
             Inl e \<Rightarrow> Inl e
           | Inr (maxvalue, bestm, mypkg_cpv) \<Rightarrow> Inr bestm))"

section \<open>The dependency reducer: \<^verbatim>\<open>use_reduce\<close>\<close>

text \<open>
  A reduced dependency structure is a list of leaves and nested lists. A leaf is
  the text of its token: an \<^verbatim>\<open>Atom\<close> made by \<^verbatim>\<open>token_class\<close> is a \<^verbatim>\<open>str\<close>, and the
  reducer reads nothing of it but its text.
\<close>

datatype dep = Tok string | Lst "dep list"

text \<open>
  The arguments of \<^verbatim>\<open>_use_reduce_cached\<close> other than \<^verbatim>\<open>depstr\<close>. \<open>ur_eapi\<close> is
  \<^verbatim>\<open>_get_eapi_attrs(eapi)\<close>; \<open>ur_token_class\<close> is the call
  \<^verbatim>\<open>token_class(token, eapi=eapi, is_valid_flag=is_valid_flag)\<close> of the class
  \<^verbatim>\<open>Atom\<close>, \<open>Inl\<close> for the exception it raises (an \<^verbatim>\<open>Atom\<close> raises no
  \<^verbatim>\<open>SystemExit\<close>).
\<close>

record reduce_args =
  ur_uselist :: "string set"
  ur_masklist :: "string set"
  ur_matchall :: bool
  ur_excludeall :: "string set"
  ur_is_src_uri :: bool
  ur_eapi :: eapi_attrs
  ur_opconvert :: bool
  ur_flat :: bool
  ur_is_valid_flag :: "(string \<Rightarrow> bool) option"
  ur_token_class :: "(string \<Rightarrow> error + atom) option"
  ur_matchnone :: bool
  ur_subset :: "string set option"

text \<open>
  \<^verbatim>\<open>useflag_re.match(flag) is not None\<close>, for \<^verbatim>\<open>^[A-Za-z0-9][A-Za-z0-9+_@-]*$\<close>.
\<close>

definition useflag_re_match :: "string \<Rightarrow> bool" where
  "useflag_re_match flag =
     (flag \<noteq> [] \<and> isalnum_ascii (hd flag)
      \<and> (dropWhile flag_char (tl flag) = [] \<or> dropWhile flag_char (tl flag) = [CHR 0x0A]))"

text \<open>\<^verbatim>\<open>is_active(conditional)\<close> of \<^verbatim>\<open>_use_reduce_cached\<close>.\<close>

definition use_is_active :: "reduce_args \<Rightarrow> string \<Rightarrow> error + bool" where
  "use_is_active A cond_token =
     (let is_negated = startswith cond_token ''!'';
          flag = (if is_negated then butlast (tl cond_token) else butlast cond_token)
      in if (case ur_is_valid_flag A of
               Some valid \<Rightarrow> \<not> valid flag
             | None \<Rightarrow> False)
         then Inl (InvalidDependString (Some ''IUSE.missing''))
         else if ur_is_valid_flag A = None \<and> \<not> useflag_re_match flag
         then Inl (InvalidDependString None)
         else if is_negated \<and> flag \<in> ur_excludeall A then Inr False
         else if flag \<in> ur_masklist A then Inr is_negated
         else if ur_matchall A then Inr True
         else if ur_matchnone A then Inr False
         else Inr ((flag \<in> ur_uselist A \<and> \<not> is_negated) \<or> (flag \<notin> ur_uselist A \<and> is_negated)))"

text \<open>
  The loop state of \<^verbatim>\<open>_use_reduce_cached\<close>; the stack has its top at the head, as
  in the REQUIRED\_USE evaluation (\<^verbatim>\<open>len(stack) == level + 1\<close>), so \<^verbatim>\<open>stack[level]\<close>
  is the head and \<^verbatim>\<open>stack[level - 1]\<close> the list below it.
\<close>

record ur_state =
  u_level :: nat
  u_stack :: "dep list list"
  u_need_bracket :: bool
  u_need_simple_token :: bool

text \<open>
  \<^verbatim>\<open>ends_in_any_of_dep(level)\<close> on the top list, \<^verbatim>\<open>ends_in_any_of_dep(level - 1)\<close> on
  the stack below the top, and \<^verbatim>\<open>last_any_of_operator_level(level - 1) != -1\<close>.
\<close>

definition ends_in_any_of_dep :: "dep list \<Rightarrow> bool" where
  "ends_in_any_of_dep cur = (cur \<noteq> [] \<and> last cur = Tok ''||'')"

definition below_ends_in_any_of_dep :: "dep list list \<Rightarrow> bool" where
  "below_ends_in_any_of_dep below = (case below of [] \<Rightarrow> False | b # bs \<Rightarrow> ends_in_any_of_dep b)"

fun last_any_of_operator :: "dep list list \<Rightarrow> bool" where
  "last_any_of_operator [] = False"
| "last_any_of_operator (b # bs) =
     (if b \<noteq> [] \<and> (case last b of Tok t \<Rightarrow> True | Lst xs \<Rightarrow> False) then
        (if last b = Tok ''||'' then True
         else if (case last b of Tok t \<Rightarrow> last t \<noteq> CHR ''?'' | Lst xs \<Rightarrow> False) then False
         else last_any_of_operator bs)
      else last_any_of_operator bs)"

text \<open>
  What \<^verbatim>\<open>stack[level].extend(v)\<close> adds: the elements of a list, the characters of
  a string.
\<close>

definition extend_items :: "dep \<Rightarrow> dep list" where
  "extend_items v = (case v of Lst xs \<Rightarrow> xs | Tok t \<Rightarrow> map (\<lambda>c. Tok [c]) t)"

text \<open>
  \<^verbatim>\<open>special_append()\<close>: the new top list, for the closed list \<^verbatim>\<open>l\<close>, the top list
  and the stack below it.
\<close>

definition special_append :: "bool \<Rightarrow> bool \<Rightarrow> dep list \<Rightarrow> dep list \<Rightarrow> dep list list \<Rightarrow> error + dep list" where
  "special_append opc is_single l cur below =
     (if is_single then
        (case l of
           [] \<Rightarrow> Inl IndexError
         | l0 # ltail \<Rightarrow>
             (if l0 = Tok ''||'' \<and> below_ends_in_any_of_dep below then
                (if opc then Inr (cur @ ltail)
                 else (case ltail of [] \<Rightarrow> Inl IndexError | l1 # lrest \<Rightarrow> Inr (cur @ extend_items l1)))
              else
                (case l0 of
                   Lst inner \<Rightarrow>
                     (if length l = 1 then
                        (if \<not> last_any_of_operator below then
                           (if opc \<and> inner \<noteq> [] \<and> hd inner = Tok ''||'' then Inr (cur @ [l0])
                            else Inr (cur @ inner))
                         else
                           (if opc \<and> inner \<noteq> [] \<and> hd inner = Tok ''||'' then Inr (cur @ tl inner)
                            else Inr (cur @ [l0])))
                      else Inr (cur @ l))
                 | Tok t \<Rightarrow> Inr (cur @ l))))
      else
        (if opc \<and> cur \<noteq> [] \<and> last cur = Tok ''||''
         then Inr (butlast cur @ [Lst (Tok ''||'' # l)])
         else Inr (cur @ [Lst l])))"

text \<open>
  The body of \<^verbatim>\<open>if l and not ignore:\<close>, which merges the closed list \<^verbatim>\<open>l\<close> into
  the top list: the new top list.
\<close>

definition close_merge :: "bool \<Rightarrow> bool \<Rightarrow> dep list \<Rightarrow> dep list \<Rightarrow> dep list list \<Rightarrow> error + dep list" where
  "close_merge opc is_single l cur below =
     (if \<not> below_ends_in_any_of_dep below \<and> \<not> ends_in_any_of_dep cur
      then Inr (cur @ l)
      else if cur = [] then special_append opc is_single l cur below
      else if is_single \<and> ends_in_any_of_dep cur
      then special_append opc is_single l (butlast cur) below
      else if ends_in_any_of_dep cur \<and> below_ends_in_any_of_dep below
      then Inr (butlast cur @ l)
      else if opc \<and> ends_in_any_of_dep cur
      then Inr (butlast cur @ [Lst (Tok ''||'' # l)])
      else special_append opc is_single l cur below)"

text \<open>
  The branch for \<^verbatim>\<open>)\<close> once \<^verbatim>\<open>level > 0\<close> is known, in \<^verbatim>\<open>flat\<close> mode and
  otherwise. The token of an empty any-of group is made by \<^verbatim>\<open>token_class\<close> or
  \<^verbatim>\<open>str\<close>; its text is the same, and the constructor takes this text.
\<close>

definition close_flat :: "reduce_args \<Rightarrow> ur_state \<Rightarrow> error + ur_state" where
  "close_flat A s0 =
     (let l = hd (u_stack s0);
          cur = hd (tl (u_stack s0));
          below = tl (tl (u_stack s0));
          s = s0\<lparr>u_level := u_level s0 - 1\<rparr>
      in if cur \<noteq> [] \<and> (case last cur of Tok t \<Rightarrow> t \<noteq> [] \<and> last t = CHR ''?''
                                         | Lst xs \<Rightarrow> xs \<noteq> [] \<and> last xs = Tok ''?'')
         then (case last cur of
                 Tok t \<Rightarrow>
                   (case use_is_active A t of
                      Inl e \<Rightarrow> Inl e
                    | Inr True \<Rightarrow> Inr (s\<lparr>u_stack := (butlast cur @ l) # below\<rparr>)
                    | Inr False \<Rightarrow> Inr (s\<lparr>u_stack := butlast cur # below\<rparr>))
               | Lst xs \<Rightarrow> Inl AttributeError)
         else Inr (s\<lparr>u_stack := (cur @ l) # below\<rparr>))"

definition close_nested :: "reduce_args \<Rightarrow> ur_state \<Rightarrow> error + ur_state" where
  "close_nested A s0 =
     (let l0 = hd (u_stack s0);
          top0 = hd (tl (u_stack s0));
          below = tl (tl (u_stack s0));
          s = s0\<lparr>u_level := u_level s0 - 1\<rparr>;
          opc = ur_opconvert A;
          is_single = (length l0 = 1 \<or> (opc \<and> l0 \<noteq> [] \<and> hd l0 = Tok ''||'')
                       \<or> (\<not> opc \<and> length l0 = 2 \<and> hd l0 = Tok ''||''))
      in case (case (if top0 = [] then None else (case last top0 of Tok t \<Rightarrow> Some t | Lst xs \<Rightarrow> None)) of
                 None \<Rightarrow> Inr (l0, top0, False)
               | Some t \<Rightarrow>
                   (if t = ''||'' \<and> l0 = [] then
                      Inr ((if \<not> empty_groups_always_true (ur_eapi A)
                            then [Tok ''__const__/empty-any-of''] else []),
                           butlast top0, False)
                    else if last t = CHR ''?'' then
                      (case use_is_active A t of
                         Inl e \<Rightarrow> Inl e
                       | Inr active \<Rightarrow> Inr (l0, butlast top0, \<not> active))
                    else Inr (l0, top0, False))) of
           Inl e \<Rightarrow> Inl e
         | Inr (l, cur, ignore) \<Rightarrow>
             (if l \<noteq> [] \<and> \<not> ignore then
                (case close_merge opc is_single l cur below of
                   Inl e \<Rightarrow> Inl e
                 | Inr cur' \<Rightarrow> Inr (s\<lparr>u_stack := cur' # below\<rparr>))
              else Inr (s\<lparr>u_stack := cur # below\<rparr>)))"

text \<open>
  One iteration of \<^verbatim>\<open>for pos, token in enumerate(mysplit)\<close>; \<open>nxt\<close> is
  \<^verbatim>\<open>mysplit[pos + 1]\<close> where there is one. \<open>env\<close> serves
  \<^verbatim>\<open>token.evaluate_conditionals(uselist)\<close>, which is called outside the
  \<^verbatim>\<open>try\<close>: what it raises is not rewrapped.
\<close>

definition ur_push :: "dep \<Rightarrow> ur_state \<Rightarrow> ur_state" where
  "ur_push v s = s\<lparr>u_stack := (hd (u_stack s) @ [v]) # tl (u_stack s)\<rparr>"

definition ur_step ::
  "versions_env \<Rightarrow> reduce_args \<Rightarrow> ur_state \<Rightarrow> string \<Rightarrow> string option \<Rightarrow> error + ur_state" where
  "ur_step env A s token nxt =
     (if token = ''('' then
        (if u_need_simple_token s then Inl (InvalidDependString None)
         else if nxt = Some '')'' then Inl (InvalidDependString None)
         else Inr (s\<lparr>u_need_bracket := False, u_stack := [] # u_stack s, u_level := u_level s + 1\<rparr>))
      else if token = '')'' then
        (if u_need_bracket s then Inl (InvalidDependString None)
         else if u_need_simple_token s then Inl (InvalidDependString None)
         else if u_level s > 0 then (if ur_flat A then close_flat A s else close_nested A s)
         else Inl (InvalidDependString None))
      else if token = ''||'' then
        (if ur_is_src_uri A then Inl (InvalidDependString None)
         else if u_need_bracket s then Inl (InvalidDependString None)
         else Inr (ur_push (Tok token) (s\<lparr>u_need_bracket := True\<rparr>)))
      else if token = ''->'' then
        (if u_need_simple_token s then Inl (InvalidDependString None)
         else if \<not> ur_is_src_uri A then Inl (InvalidDependString None)
         else if \<not> src_uri_arrows (ur_eapi A) then Inl (InvalidDependString None)
         else Inr (ur_push (Tok token) (s\<lparr>u_need_simple_token := True\<rparr>)))
      else
        (if u_need_bracket s then Inl (InvalidDependString None)
         else if u_need_simple_token s \<and> CHR ''/'' \<in> set token then Inl (InvalidDependString None)
         else if last token = CHR ''?'' then Inr (ur_push (Tok token) (s\<lparr>u_need_bracket := True\<rparr>))
         else
           (let s1 = s\<lparr>u_need_simple_token := False\<rparr>
            in if ur_is_src_uri A then
                 (if \<not> selective_src_uri_restriction (ur_eapi A)
                     \<and> (startswith token ''fetch+'' \<or> startswith token ''mirror+'')
                  then Inl (InvalidDependString None)
                  else Inr (ur_push (Tok token) s1))
               else
                 (case ur_token_class A of
                    None \<Rightarrow> Inr (ur_push (Tok token) s1)
                  | Some new_token \<Rightarrow>
                      (case new_token token of
                         Inl e \<Rightarrow> Inl (InvalidDependString None)
                       | Inr a \<Rightarrow>
                           (if \<not> ur_matchall A then
                              (case evaluate_conditionals env a (ur_uselist A) of
                                 Inl e \<Rightarrow> Inl e
                               | Inr a' \<Rightarrow> Inr (ur_push (Tok (atom_str a')) s1))
                            else Inr (ur_push (Tok (atom_str a)) s1)))))))"

fun ur_loop :: "versions_env \<Rightarrow> reduce_args \<Rightarrow> ur_state \<Rightarrow> string list \<Rightarrow> error + ur_state" where
  "ur_loop env A s [] = Inr s"
| "ur_loop env A s (token # ts) =
     (case ur_step env A s token (case ts of [] \<Rightarrow> None | n # ns \<Rightarrow> Some n) of
        Inl e \<Rightarrow> Inl e
      | Inr s' \<Rightarrow> ur_loop env A s' ts)"

text \<open>
  The reduction of the tokens and the checks at the end of the string:
  \<^verbatim>\<open>_use_reduce_cached\<close> from \<^verbatim>\<open>mysplit = depstr.split()\<close> on.
\<close>

definition reduce_tokens :: "versions_env \<Rightarrow> reduce_args \<Rightarrow> string list \<Rightarrow> error + dep list" where
  "reduce_tokens env A mysplit =
     (case ur_loop env A
             \<lparr>u_level = 0, u_stack = [[]], u_need_bracket = False, u_need_simple_token = False\<rparr>
             mysplit of
        Inl e \<Rightarrow> Inl e
      | Inr s \<Rightarrow>
          (if u_level s \<noteq> 0 then Inl (InvalidDependString None)
           else if u_need_bracket s then Inl (InvalidDependString None)
           else if u_need_simple_token s then Inl (InvalidDependString None)
           else Inr (last (u_stack s))))"

section \<open>The selection of a subset, and the memoized \<^verbatim>\<open>use_reduce\<close>\<close>

text \<open>
  \<^verbatim>\<open>paren_reduce(mystr)\<close>, which the selection of a subset runs first. \<open>ends_q\<close> is
  \<^verbatim>\<open>v[-1] == "?"\<close> for an element of a list: the last character of a string, the
  last element of a list (neither a token nor a sublist of the stack is empty).
\<close>

definition ends_q :: "dep \<Rightarrow> bool" where
  "ends_q v = (case v of Tok t \<Rightarrow> t \<noteq> [] \<and> last t = CHR ''?''
                       | Lst xs \<Rightarrow> xs \<noteq> [] \<and> last xs = Tok ''?'')"

record pr_state =
  p_level :: nat
  p_stack :: "dep list list"
  p_need_bracket :: bool

definition pr_special_append :: "bool \<Rightarrow> dep list \<Rightarrow> dep list \<Rightarrow> dep list" where
  "pr_special_append is_single l cur =
     (if is_single \<and> (cur = [] \<or> \<not> ends_q (last cur)) then
        (case l of
           [Lst inner] \<Rightarrow> cur @ inner
         | _ \<Rightarrow> cur @ l)
      else cur @ [Lst l])"

definition pr_close :: "pr_state \<Rightarrow> pr_state" where
  "pr_close s0 =
     (let l = hd (p_stack s0);
          cur = hd (tl (p_stack s0));
          below = tl (tl (p_stack s0));
          is_single = (length l = 1 \<or> (length l = 2 \<and> (hd l = Tok ''||'' \<or> ends_q (hd l))));
          ends_in_operator = (cur \<noteq> [] \<and> (last cur = Tok ''||'' \<or> ends_q (last cur)));
          cur' =
            (if l \<noteq> [] then
               (if \<not> below_ends_in_any_of_dep below \<and> \<not> ends_in_operator then cur @ l
                else if cur = [] then pr_special_append is_single l cur
                else if length l = 1 \<and> ends_in_any_of_dep cur
                then pr_special_append is_single l (butlast cur)
                else if length l = 2 \<and> (hd l = Tok ''||'' \<or> ends_q (hd l))
                        \<and> (last cur = hd l \<or> last cur = Tok ''||'')
                then pr_special_append is_single l (butlast cur)
                else pr_special_append is_single l cur)
             else (if ends_in_operator then butlast cur else cur))
      in s0\<lparr>p_level := p_level s0 - 1, p_stack := cur' # below\<rparr>)"

definition pr_step :: "pr_state \<Rightarrow> string \<Rightarrow> error + pr_state" where
  "pr_step s token =
     (if token = ''('' then
        Inr (s\<lparr>p_need_bracket := False, p_stack := [] # p_stack s, p_level := p_level s + 1\<rparr>)
      else if token = '')'' then
        (if p_need_bracket s then Inl (InvalidDependString None)
         else if p_level s > 0 then Inr (pr_close s)
         else Inl (InvalidDependString None))
      else if token = ''||'' then
        (if p_need_bracket s then Inl (InvalidDependString None)
         else Inr (s\<lparr>p_need_bracket := True,
                      p_stack := (hd (p_stack s) @ [Tok token]) # tl (p_stack s)\<rparr>))
      else
        (if p_need_bracket s then Inl (InvalidDependString None)
         else Inr (s\<lparr>p_need_bracket := (if last token = CHR ''?'' then True else p_need_bracket s),
                      p_stack := (hd (p_stack s) @ [Tok token]) # tl (p_stack s)\<rparr>)))"

fun pr_loop :: "pr_state \<Rightarrow> string list \<Rightarrow> error + pr_state" where
  "pr_loop s [] = Inr s"
| "pr_loop s (token # ts) =
     (case pr_step s token of Inl e \<Rightarrow> Inl e | Inr s' \<Rightarrow> pr_loop s' ts)"

definition paren_reduce :: "string \<Rightarrow> error + dep list" where
  "paren_reduce mystr =
     (case pr_loop \<lparr>p_level = 0, p_stack = [[]], p_need_bracket = False\<rparr> (py_split mystr) of
        Inl e \<Rightarrow> Inl e
      | Inr s \<Rightarrow>
          (if p_level s \<noteq> 0 \<or> p_need_bracket s then Inl (InvalidDependString None)
           else Inr (last (p_stack s))))"

text \<open>
  \<^verbatim>\<open>select_subset(dep_struct, disjunction, selected)\<close>: the loop that pops the
  tokens from the front of the structure. In what \<^verbatim>\<open>paren_reduce\<close> returns, a
  conditional and \<^verbatim>\<open>||\<close> are followed by a list; were a string to follow, Python
  would walk its characters, and the model stops with an error there.
\<close>

fun select_subset :: "reduce_args \<Rightarrow> dep list \<Rightarrow> bool \<Rightarrow> bool \<Rightarrow> error + dep list" where
  "select_subset A [] disjunction selected = Inr []"
| "select_subset A (Lst ch # rest) disjunction selected =
     (case select_subset A ch False selected of
        Inl e \<Rightarrow> Inl e
      | Inr children \<Rightarrow>
          (case select_subset A rest disjunction selected of
             Inl e \<Rightarrow> Inl e
           | Inr result \<Rightarrow>
               Inr ((if disjunction then (if children \<noteq> [] then [Lst children] else [])
                     else children) @ result)))"
| "select_subset A [Tok token] disjunction selected =
     (if token \<noteq> [] \<and> last token = CHR ''?'' then Inl IndexError
      else if token = ''||'' then Inl IndexError
      else Inr (if selected then [Tok token] else []))"
| "select_subset A (Tok token # Tok t # rest) disjunction selected =
     (if (token \<noteq> [] \<and> last token = CHR ''?'') \<or> token = ''||'' then Inl TypeError
      else (case select_subset A (Tok t # rest) disjunction selected of
              Inl e \<Rightarrow> Inl e
            | Inr result \<Rightarrow> Inr ((if selected then [Tok token] else []) @ result)))"
| "select_subset A (Tok token # Lst ch # rest) disjunction selected =
     (if token \<noteq> [] \<and> last token = CHR ''?'' then
        (case use_is_active A token of
           Inl e \<Rightarrow> Inl e
         | Inr False \<Rightarrow> select_subset A rest disjunction selected
         | Inr True \<Rightarrow>
             (case select_subset A ch False
                     (selected \<or> (case ur_subset A of None \<Rightarrow> False | Some fs \<Rightarrow> butlast token \<in> fs)) of
                Inl e \<Rightarrow> Inl e
              | Inr children \<Rightarrow>
                  (case select_subset A rest disjunction selected of
                     Inl e \<Rightarrow> Inl e
                   | Inr result \<Rightarrow>
                       Inr ((if disjunction then (if children \<noteq> [] then [Lst children] else [])
                             else children) @ result))))
      else if token = ''||'' then
        (case select_subset A ch True selected of
           Inl e \<Rightarrow> Inl e
         | Inr children \<Rightarrow>
             (case select_subset A rest disjunction selected of
                Inl e \<Rightarrow> Inl e
              | Inr result \<Rightarrow>
                  Inr ((if children \<noteq> [] then
                          (if disjunction then children else [Tok token, Lst children])
                        else []) @ result)))
      else
        (case select_subset A (Lst ch # rest) disjunction selected of
           Inl e \<Rightarrow> Inl e
         | Inr result \<Rightarrow> Inr ((if selected then [Tok token] else []) @ result)))"

text \<open>
  \<^verbatim>\<open>paren_enclose(mylist)\<close> with its default arguments: \<open>mystrparts\<close> is the list
  of that name, with the recursive call on a sublist written out.
\<close>

fun mystrparts :: "dep list \<Rightarrow> string list" where
  "mystrparts [] = []"
| "mystrparts (Tok t # xs) = t # mystrparts xs"
| "mystrparts (Lst ys # xs) = [''( '' @ join '' '' (mystrparts ys) @ '' )''] @ mystrparts xs"

definition paren_enclose :: "dep list \<Rightarrow> string" where
  "paren_enclose mylist = join '' '' (mystrparts mylist)"

text \<open>
  \<^verbatim>\<open>_use_reduce_cached(depstr, ...)\<close>: the two checks of the arguments, the
  selection of a subset where \<^verbatim>\<open>subset\<close> is given and not empty, then the
  reduction of the tokens.
\<close>

definition use_reduce_cached :: "versions_env \<Rightarrow> reduce_args \<Rightarrow> string \<Rightarrow> error + dep list" where
  "use_reduce_cached env A depstr =
     (if ur_opconvert A \<and> ur_flat A then Inl ValueError
      else if ur_matchall A \<and> ur_matchnone A then Inl ValueError
      else
        (case (if (case ur_subset A of None \<Rightarrow> False | Some fs \<Rightarrow> fs \<noteq> {}) then
                 (case paren_reduce depstr of
                    Inl e \<Rightarrow> Inl e
                  | Inr ds \<Rightarrow>
                      (case select_subset A ds False False of
                         Inl e \<Rightarrow> Inl e
                       | Inr sel \<Rightarrow> Inr (paren_enclose sel)))
               else Inr depstr) of
           Inl e \<Rightarrow> Inl e
         | Inr depstr' \<Rightarrow> reduce_tokens env A (py_split depstr')))"

text \<open>
  \<^verbatim>\<open>use_reduce\<close> hands out lists that its callers may change, and the cache of
  \<^verbatim>\<open>_use_reduce_cached\<close> keeps the list it returned: lists are objects in a store,
  named by their index. An element of a list object is a string or the reference
  to a list object.
\<close>

datatype item = IStr string | IRef nat

text \<open>
  The key under which \<^verbatim>\<open>lru_cache\<close> files a call of \<^verbatim>\<open>_use_reduce_cached\<close>: the
  tuple of its arguments, compared by \<^verbatim>\<open>==\<close>. Strings, booleans and frozensets
  compare by value; \<^verbatim>\<open>eapi\<close> is the EAPI string itself, not its attributes; the two
  callables compare by identity, which a number stands for.
\<close>

record call_ids =
  id_eapi :: "string option"
  id_is_valid_flag :: "nat option"
  id_token_class :: "nat option"

record cache_key =
  k_depstr :: string
  k_uselist :: "string set"
  k_masklist :: "string set"
  k_matchall :: bool
  k_excludeall :: "string set"
  k_is_src_uri :: bool
  k_eapi :: "string option"
  k_opconvert :: bool
  k_flat :: bool
  k_is_valid_flag :: "nat option"
  k_token_class :: "nat option"
  k_matchnone :: bool
  k_subset :: "string set option"

definition cache_key_of :: "call_ids \<Rightarrow> reduce_args \<Rightarrow> string \<Rightarrow> cache_key" where
  "cache_key_of ids A depstr =
     \<lparr>k_depstr = depstr, k_uselist = ur_uselist A, k_masklist = ur_masklist A,
      k_matchall = ur_matchall A, k_excludeall = ur_excludeall A,
      k_is_src_uri = ur_is_src_uri A, k_eapi = id_eapi ids, k_opconvert = ur_opconvert A,
      k_flat = ur_flat A, k_is_valid_flag = id_is_valid_flag ids,
      k_token_class = id_token_class ids, k_matchnone = ur_matchnone A,
      k_subset = ur_subset A\<rparr>"

text \<open>
  The store and the \<^verbatim>\<open>lru_cache(1024)\<close>: the calls that returned, the most recently
  used first, each with the list object it returned. A hit moves its entry to the
  front; a miss adds one there and drops what lies beyond the 1024th entry.
\<close>

record world =
  heap :: "item list list"
  cache :: "(cache_key \<times> nat) list"

text \<open>
  The lists that a reduction builds are new objects, one for each nested list:
  \<open>store_items\<close> puts the nested lists of a structure into the store and returns
  the elements of the outermost list.
\<close>

fun store_dep :: "dep \<Rightarrow> item list list \<Rightarrow> item \<times> item list list"
  and store_items :: "dep list \<Rightarrow> item list list \<Rightarrow> item list \<times> item list list" where
  "store_dep (Tok t) h = (IStr t, h)"
| "store_dep (Lst ys) h = (case store_items ys h of (its, h1) \<Rightarrow> (IRef (length h1), h1 @ [its]))"
| "store_items [] h = ([], h)"
| "store_items (d # ds) h =
     (case store_dep d h of (i, h1) \<Rightarrow>
        (case store_items ds h1 of (its, h2) \<Rightarrow> (i # its, h2)))"

text \<open>
  The structure that a caller sees behind a list object; the references are
  followed with fuel, \<open>None\<close> where it runs out or a reference names no object.
\<close>

fun fetch :: "nat \<Rightarrow> item list list \<Rightarrow> nat \<Rightarrow> dep list option" where
  "fetch 0 h a = None"
| "fetch (Suc k) h a =
     (if a < length h
      then those_all (map (\<lambda>i. case i of IStr t \<Rightarrow> Some (Tok t)
                                      | IRef b \<Rightarrow> map_option Lst (fetch k h b)) (h ! a))
      else None)"

text \<open>\<^verbatim>\<open>lst.append(v)\<close> on the list object \<open>a\<close>, as a caller may do it.\<close>

definition list_append :: "nat \<Rightarrow> item \<Rightarrow> world \<Rightarrow> world" where
  "list_append a v w = w\<lparr>heap := (heap w)[a := heap w ! a @ [v]]\<rparr>"

text \<open>
  \<^verbatim>\<open>use_reduce(depstr, ...)\<close> for a string \<^verbatim>\<open>depstr\<close>: the call of the cached
  function, a hit returning the cached list object itself, then \<^verbatim>\<open>result[:]\<close>, a
  new list object with the same elements. An exception is not cached. \<open>ids\<close> is
  what the key holds of the EAPI and of the two callables.
\<close>

definition use_reduce ::
  "versions_env \<Rightarrow> call_ids \<Rightarrow> reduce_args \<Rightarrow> string \<Rightarrow> world \<Rightarrow> error + nat \<times> world" where
  "use_reduce env ids A depstr w =
     (let key = cache_key_of ids A depstr
      in case (case map_of (cache w) key of
                 Some r \<Rightarrow>
                   Inr (r, w\<lparr>cache := (key, r) # filter (\<lambda>e. fst e \<noteq> key) (cache w)\<rparr>)
               | None \<Rightarrow>
                   (case use_reduce_cached env A depstr of
                      Inl e \<Rightarrow> Inl e
                    | Inr ds \<Rightarrow>
                        (case store_items ds (heap w) of (its, h1) \<Rightarrow>
                           Inr (length h1,
                                w\<lparr>heap := h1 @ [its],
                                  cache := take 1024 ((key, length h1) # cache w)\<rparr>)))) of
           Inl e \<Rightarrow> Inl e
         | Inr (result, w1) \<Rightarrow>
             Inr (length (heap w1), w1\<lparr>heap := heap w1 @ [heap w1 ! result]\<rparr>))"

section \<open>Invariants of the reducer's stack\<close>







section \<open>The tie at value 2, by an order of the versions\<close>

text \<open>
  An atom that \<^verbatim>\<open>best_match_to_list\<close> values at 2 and at nothing else: a plain atom
  (no extended syntax) without slot whose operator is relational; its \<^verbatim>\<open>cpv\<close> is a
  \<^verbatim>\<open>_pkg_str\<close>, which has a version.
\<close>

definition relational :: "atom \<Rightarrow> bool" where
  "relational a =
     (operator a \<in> {Some ''>'', Some ''>='', Some ''<'', Some ''<=''}
      \<and> \<not> extended_syntax a \<and> slot a = None
      \<and> (case cpv a of Pkg p \<Rightarrow> True | Str t \<Rightarrow> False))"

text \<open>
  The rule of the tie as the documentation states it, for versions ordered by a
  rank: the challenger \<open>xp\<close> takes the place of the current best \<open>bp\<close> when, of the
  three versions sorted, the one of the queried package \<open>my\<close> is at an end and the
  one of the challenger is in the middle, so it lies between the version of the
  package (included) and the version of the current best (excluded). Equal \<^verbatim>\<open>cpv\<close>
  are settled first: a current best with the \<^verbatim>\<open>cpv\<close> of the package or of the
  challenger stays, and otherwise a challenger with the \<^verbatim>\<open>cpv\<close> of the package
  wins. \<open>nearer\<close> is the better of two atoms by this rule.
\<close>

definition replaces :: "(string \<Rightarrow> int) \<Rightarrow> pkg \<Rightarrow> pkg \<Rightarrow> pkg \<Rightarrow> bool" where
  "replaces rank my bp xp =
     (pkg_cpv bp \<noteq> pkg_cpv my \<and> pkg_cpv bp \<noteq> pkg_cpv xp
      \<and> (pkg_cpv xp = pkg_cpv my
         \<or> (rank (pkg_version my) \<le> rank (pkg_version xp)
            \<and> rank (pkg_version xp) < rank (pkg_version bp))
         \<or> (rank (pkg_version bp) \<le> rank (pkg_version xp)
            \<and> rank (pkg_version xp) < rank (pkg_version my))))"

definition nearer :: "(string \<Rightarrow> int) \<Rightarrow> pkg \<Rightarrow> atom \<Rightarrow> atom \<Rightarrow> atom" where
  "nearer rank my b x =
     (case (cpv b, cpv x) of
        (Pkg bp, Pkg xp) \<Rightarrow> if replaces rank my bp xp then x else b
      | _ \<Rightarrow> b)"

section \<open>The rendering of a group in full\<close>



section \<open>Properties of the REQUIRED\_USE evaluation\<close>

lemmas ru_defs =
  check_required_use_def py_split_def isspace_def ru_step_def valid_operators_def
  is_active_def startswith_def descend_def push_def close_group_def is_satisfied_def
  compact_def set_satisfied_def pop_from_parent_def ascend_def verdict_def
  explanation_def child_satisfied_def Let_def

text \<open>
  C7. \<^verbatim>\<open>check_required_use("|| ( )", use=())\<close> returns a tree, and the tree is
  satisfied exactly under the EAPI attributes whose \<open>empty_groups_always_true\<close> is
  true: it is satisfied where the attribute is true and unsatisfied where it is
  false, whatever the other attributes and \<^verbatim>\<open>iuse_match\<close> are.
\<close>

theorem empty_any_of_verdict:
  "verdict (check_required_use E ''|| ( )'' {} iuse_match) = Inr (empty_groups_always_true E)"
  by (simp add: ru_defs)

theorem empty_any_of_verdict_witness:
  "verdict (check_required_use
      \<lparr>required_use_at_most_one_of = True, empty_groups_always_true = True,
       src_uri_arrows = True, selective_src_uri_restriction = False\<rparr>
      ''|| ( )'' {} (\<lambda>f. True)) = Inr True
   \<and> verdict (check_required_use
      \<lparr>required_use_at_most_one_of = True, empty_groups_always_true = False,
       src_uri_arrows = True, selective_src_uri_restriction = True\<rparr>
      ''|| ( )'' {} (\<lambda>f. True)) = Inr False"
  using empty_any_of_verdict
          [of "\<lparr>required_use_at_most_one_of = True, empty_groups_always_true = True,
                 src_uri_arrows = True, selective_src_uri_restriction = False\<rparr>" "\<lambda>f. True"]
        empty_any_of_verdict
          [of "\<lparr>required_use_at_most_one_of = True, empty_groups_always_true = False,
                 src_uri_arrows = True, selective_src_uri_restriction = True\<rparr>" "\<lambda>f. True"]
  by simp























section \<open>Properties of the matcher\<close>

lemmas match_defs =
  match_from_list_def dep_text_def match_operator_def match_cp_def cand_cp_def slot_filter_def
  use_filter_def repo_filter_def repo_test_def cand_repo_def dep_getrepo_str_def py_find_def
  find_from_def startswith_def cand_text_def relational_test_def exact_test_def cpvequal_def
  as_pkg_def glob_test_def glob_boundary_def glob_cpv_def glob_ver_def lstrip0_def isdigit_def
  contains_def replace_first_def

lemma filter_err_Inr:
  "filter_err f xs = Inr ys \<Longrightarrow> ys = filter (\<lambda>x. f x = Inr True) xs"
proof (induction xs arbitrary: ys)
  case Nil
  then show ?case by simp
next
  case (Cons x xs)
  then show ?case
    by (auto split: sum.splits if_splits)
qed

lemma filter_err_total:
  "(\<And>x. x \<in> set xs \<Longrightarrow> \<exists>b. f x = Inr b) \<Longrightarrow> filter_err f xs = Inr (filter (\<lambda>x. f x = Inr True) xs)"
proof (induction xs)
  case Nil
  then show ?case by simp
next
  case (Cons x xs)
  then obtain b where "f x = Inr b" by auto
  moreover have "filter_err f xs = Inr (filter (\<lambda>x. f x = Inr True) xs)"
    using Cons by simp
  ultimately show ?case by simp
qed

lemma set_filter_err:
  "filter_err f xs = Inr ys \<Longrightarrow> set ys = {x \<in> set xs. f x = Inr True}"
  by (drule filter_err_Inr) auto

text \<open>
  C10. \<^verbatim>\<open>match_from_list(mydep, [])\<close> returns the empty list and raises nothing,
  whatever \<^verbatim>\<open>mydep\<close> is, a string that is no atom included: the test of the
  candidate list comes before the blocker prefix is cut and before the string is
  parsed.
\<close>

theorem match_from_list_no_candidates: "match_from_list env mydep [] = Inr []"
  by (simp add: match_from_list_def)

theorem match_from_list_no_candidates_witness:
  "match_from_list \<lparr>vercmp = (\<lambda>a b. Inr (Some (int (of_char (hd a)) - int (of_char (hd b))))), catpkgsplit = (\<lambda>c. case c of Str t \<Rightarrow> None | Pkg p \<Rightarrow> Some (pkg_cpv_split p)), pkg_str_new = (\<lambda>t sl. None), unknown_repo = ''__unknown__'', atom_parse = (\<lambda>t w r. Inl InvalidAtom)\<rparr> (StrArg ''!!not an [atom'') [] = Inr []
   \<and> match_from_list \<lparr>vercmp = (\<lambda>a b. Inr (Some (int (of_char (hd a)) - int (of_char (hd b))))), catpkgsplit = (\<lambda>c. case c of Str t \<Rightarrow> None | Pkg p \<Rightarrow> Some (pkg_cpv_split p)), pkg_str_new = (\<lambda>t sl. None), unknown_repo = ''__unknown__'', atom_parse = (\<lambda>t w r. Inl InvalidAtom)\<rparr> (AtomArg (Atom ''cat/pkg::gentoo'' None None ''cat/pkg'' (Str ''cat/pkg'') None None None None (Some ''gentoo'') None None False None)) [] = Inr []"
  using match_from_list_no_candidates [where env = "\<lparr>vercmp = (\<lambda>a b. Inr (Some (int (of_char (hd a)) - int (of_char (hd b))))), catpkgsplit = (\<lambda>c. case c of Str t \<Rightarrow> None | Pkg p \<Rightarrow> Some (pkg_cpv_split p)), pkg_str_new = (\<lambda>t sl. None), unknown_repo = ''__unknown__'', atom_parse = (\<lambda>t w r. Inl InvalidAtom)\<rparr>" and mydep = "StrArg ''!!not an [atom''"]
        match_from_list_no_candidates [where env = "\<lparr>vercmp = (\<lambda>a b. Inr (Some (int (of_char (hd a)) - int (of_char (hd b))))), catpkgsplit = (\<lambda>c. case c of Str t \<Rightarrow> None | Pkg p \<Rightarrow> Some (pkg_cpv_split p)), pkg_str_new = (\<lambda>t sl. None), unknown_repo = ''__unknown__'', atom_parse = (\<lambda>t w r. Inl InvalidAtom)\<rparr>" and mydep = "AtomArg (Atom ''cat/pkg::gentoo'' None None ''cat/pkg'' (Str ''cat/pkg'') None None None None (Some ''gentoo'') None None False None)"]
  by simp

text \<open>
  C8, as the claim states it, fails: a candidate that carries no repository at all
  (a \<^verbatim>\<open>_pkg_str\<close> without the attribute \<^verbatim>\<open>repo\<close>, whose text has no \<^verbatim>\<open>::\<close>) passes
  the filter of the atom \<^verbatim>\<open>cat/pkg::gentoo\<close>, although its repository is neither
  \<^verbatim>\<open>gentoo\<close> nor the marker of an unknown repository.
\<close>

theorem repo_filter_no_repository_counterexample:
  "match_from_list \<lparr>vercmp = (\<lambda>a b. Inr (Some (int (of_char (hd a)) - int (of_char (hd b))))), catpkgsplit = (\<lambda>c. case c of Str t \<Rightarrow> None | Pkg p \<Rightarrow> Some (pkg_cpv_split p)), pkg_str_new = (\<lambda>t sl. None), unknown_repo = ''__unknown__'', atom_parse = (\<lambda>t w r. Inl InvalidAtom)\<rparr> (AtomArg (Atom ''cat/pkg::gentoo'' None None ''cat/pkg'' (Str ''cat/pkg'') None None None None (Some ''gentoo'') None None False None)) [Pkg \<lparr>pkg_cpv = ''cat/pkg-1'', pkg_cp = ''cat/pkg'', pkg_cpv_split = (''cat'', ''pkg'', ''1'', ''r0''), pkg_version = ''1'', pkg_build_id = None, pkg_slot = None, pkg_sub_slot = None, pkg_repo = None, pkg_use = None, pkg_iuse_is_valid_flag = (\<lambda>f. True)\<rparr>] = Inr [Pkg \<lparr>pkg_cpv = ''cat/pkg-1'', pkg_cp = ''cat/pkg'', pkg_cpv_split = (''cat'', ''pkg'', ''1'', ''r0''), pkg_version = ''1'', pkg_build_id = None, pkg_slot = None, pkg_sub_slot = None, pkg_repo = None, pkg_use = None, pkg_iuse_is_valid_flag = (\<lambda>f. True)\<rparr>]
   \<and> cand_repo (Pkg \<lparr>pkg_cpv = ''cat/pkg-1'', pkg_cp = ''cat/pkg'', pkg_cpv_split = (''cat'', ''pkg'', ''1'', ''r0''), pkg_version = ''1'', pkg_build_id = None, pkg_slot = None, pkg_sub_slot = None, pkg_repo = None, pkg_use = None, pkg_iuse_is_valid_flag = (\<lambda>f. True)\<rparr>) \<noteq> Some ''gentoo''
   \<and> cand_repo (Pkg \<lparr>pkg_cpv = ''cat/pkg-1'', pkg_cp = ''cat/pkg'', pkg_cpv_split = (''cat'', ''pkg'', ''1'', ''r0''), pkg_version = ''1'', pkg_build_id = None, pkg_slot = None, pkg_sub_slot = None, pkg_repo = None, pkg_use = None, pkg_iuse_is_valid_flag = (\<lambda>f. True)\<rparr>) \<noteq> Some (unknown_repo \<lparr>vercmp = (\<lambda>a b. Inr (Some (int (of_char (hd a)) - int (of_char (hd b))))), catpkgsplit = (\<lambda>c. case c of Str t \<Rightarrow> None | Pkg p \<Rightarrow> Some (pkg_cpv_split p)), pkg_str_new = (\<lambda>t sl. None), unknown_repo = ''__unknown__'', atom_parse = (\<lambda>t w r. Inl InvalidAtom)\<rparr>)"
  by (simp add: match_defs)

text \<open>
  C8, amended. When the atom names a repository, the candidates that
  \<^verbatim>\<open>match_from_list\<close> returns are those survivors of the operator, slot and USE
  stages whose repository is absent (\<^verbatim>\<open>None\<close>), is the marker of an unknown
  repository, or equals the repository of the atom; a survivor with another
  repository is rejected.
\<close>

theorem repo_filter_keeps:
  assumes "repo a = Some r" "r \<noteq> []" "take 1 (atom_str a) \<noteq> ''!''" "cs \<noteq> []"
    and "match_from_list env (AtomArg a) cs = Inr ys"
  shows "\<exists>m1 m2. match_operator env a cs = Inr m1 \<and> slot_filter env a m1 = Inr m2
     \<and> ys = filter (\<lambda>x. cand_repo x = None \<or> cand_repo x = Some (unknown_repo env) \<or> cand_repo x = Some r)
             (use_filter a m2)"
proof -
  obtain m1 where m1: "match_operator env a cs = Inr m1"
    using assms by (auto simp: match_from_list_def dep_text_def split: sum.splits)
  obtain m2 where m2: "slot_filter env a m1 = Inr m2"
    using assms m1 by (auto simp: match_from_list_def dep_text_def split: sum.splits)
  have "ys = repo_filter env a (use_filter a m2)"
    using assms m1 m2 by (auto simp: match_from_list_def dep_text_def split: sum.splits)
  moreover have "repo_test env a = (\<lambda>x. cand_repo x = None \<or> cand_repo x = Some (unknown_repo env) \<or> cand_repo x = Some r)"
    using assms(1) by (auto simp: repo_test_def fun_eq_iff)
  ultimately show ?thesis
    using m1 m2 assms(1,2) by (simp add: repo_filter_def)
qed

theorem repo_filter_keeps_witness:
  "\<exists>m1 m2. match_operator \<lparr>vercmp = (\<lambda>a b. Inr (Some (int (of_char (hd a)) - int (of_char (hd b))))), catpkgsplit = (\<lambda>c. case c of Str t \<Rightarrow> None | Pkg p \<Rightarrow> Some (pkg_cpv_split p)), pkg_str_new = (\<lambda>t sl. None), unknown_repo = ''__unknown__'', atom_parse = (\<lambda>t w r. Inl InvalidAtom)\<rparr> (Atom ''cat/pkg::gentoo'' None None ''cat/pkg'' (Str ''cat/pkg'') None None None None (Some ''gentoo'') None None False None) [Pkg \<lparr>pkg_cpv = ''cat/pkg-1'', pkg_cp = ''cat/pkg'', pkg_cpv_split = (''cat'', ''pkg'', ''1'', ''r0''), pkg_version = ''1'', pkg_build_id = None, pkg_slot = None, pkg_sub_slot = None, pkg_repo = (Some ''gentoo''), pkg_use = None, pkg_iuse_is_valid_flag = (\<lambda>f. True)\<rparr>, Pkg \<lparr>pkg_cpv = ''cat/pkg-1'', pkg_cp = ''cat/pkg'', pkg_cpv_split = (''cat'', ''pkg'', ''1'', ''r0''), pkg_version = ''1'', pkg_build_id = None, pkg_slot = None, pkg_sub_slot = None, pkg_repo = (Some ''other''), pkg_use = None, pkg_iuse_is_valid_flag = (\<lambda>f. True)\<rparr>, Pkg \<lparr>pkg_cpv = ''cat/pkg-1'', pkg_cp = ''cat/pkg'', pkg_cpv_split = (''cat'', ''pkg'', ''1'', ''r0''), pkg_version = ''1'', pkg_build_id = None, pkg_slot = None, pkg_sub_slot = None, pkg_repo = (Some ''__unknown__''), pkg_use = None, pkg_iuse_is_valid_flag = (\<lambda>f. True)\<rparr>, Pkg \<lparr>pkg_cpv = ''cat/pkg-1'', pkg_cp = ''cat/pkg'', pkg_cpv_split = (''cat'', ''pkg'', ''1'', ''r0''), pkg_version = ''1'', pkg_build_id = None, pkg_slot = None, pkg_sub_slot = None, pkg_repo = None, pkg_use = None, pkg_iuse_is_valid_flag = (\<lambda>f. True)\<rparr>] = Inr m1
     \<and> slot_filter \<lparr>vercmp = (\<lambda>a b. Inr (Some (int (of_char (hd a)) - int (of_char (hd b))))), catpkgsplit = (\<lambda>c. case c of Str t \<Rightarrow> None | Pkg p \<Rightarrow> Some (pkg_cpv_split p)), pkg_str_new = (\<lambda>t sl. None), unknown_repo = ''__unknown__'', atom_parse = (\<lambda>t w r. Inl InvalidAtom)\<rparr> (Atom ''cat/pkg::gentoo'' None None ''cat/pkg'' (Str ''cat/pkg'') None None None None (Some ''gentoo'') None None False None) m1 = Inr m2
     \<and> [Pkg \<lparr>pkg_cpv = ''cat/pkg-1'', pkg_cp = ''cat/pkg'', pkg_cpv_split = (''cat'', ''pkg'', ''1'', ''r0''), pkg_version = ''1'', pkg_build_id = None, pkg_slot = None, pkg_sub_slot = None, pkg_repo = (Some ''gentoo''), pkg_use = None, pkg_iuse_is_valid_flag = (\<lambda>f. True)\<rparr>, Pkg \<lparr>pkg_cpv = ''cat/pkg-1'', pkg_cp = ''cat/pkg'', pkg_cpv_split = (''cat'', ''pkg'', ''1'', ''r0''), pkg_version = ''1'', pkg_build_id = None, pkg_slot = None, pkg_sub_slot = None, pkg_repo = (Some ''__unknown__''), pkg_use = None, pkg_iuse_is_valid_flag = (\<lambda>f. True)\<rparr>, Pkg \<lparr>pkg_cpv = ''cat/pkg-1'', pkg_cp = ''cat/pkg'', pkg_cpv_split = (''cat'', ''pkg'', ''1'', ''r0''), pkg_version = ''1'', pkg_build_id = None, pkg_slot = None, pkg_sub_slot = None, pkg_repo = None, pkg_use = None, pkg_iuse_is_valid_flag = (\<lambda>f. True)\<rparr>]
        = filter (\<lambda>x. cand_repo x = None \<or> cand_repo x = Some (unknown_repo \<lparr>vercmp = (\<lambda>a b. Inr (Some (int (of_char (hd a)) - int (of_char (hd b))))), catpkgsplit = (\<lambda>c. case c of Str t \<Rightarrow> None | Pkg p \<Rightarrow> Some (pkg_cpv_split p)), pkg_str_new = (\<lambda>t sl. None), unknown_repo = ''__unknown__'', atom_parse = (\<lambda>t w r. Inl InvalidAtom)\<rparr>) \<or> cand_repo x = Some ''gentoo'')
            (use_filter (Atom ''cat/pkg::gentoo'' None None ''cat/pkg'' (Str ''cat/pkg'') None None None None (Some ''gentoo'') None None False None) m2)"
proof -
  have r: "repo (Atom ''cat/pkg::gentoo'' None None ''cat/pkg'' (Str ''cat/pkg'') None None None None (Some ''gentoo'') None None False None) = Some ''gentoo''" by simp
  have n: "''gentoo'' \<noteq> []" by simp
  have t: "take 1 (atom_str (Atom ''cat/pkg::gentoo'' None None ''cat/pkg'' (Str ''cat/pkg'') None None None None (Some ''gentoo'') None None False None)) \<noteq> ''!''" by simp
  have c: "[Pkg \<lparr>pkg_cpv = ''cat/pkg-1'', pkg_cp = ''cat/pkg'', pkg_cpv_split = (''cat'', ''pkg'', ''1'', ''r0''), pkg_version = ''1'', pkg_build_id = None, pkg_slot = None, pkg_sub_slot = None, pkg_repo = (Some ''gentoo''), pkg_use = None, pkg_iuse_is_valid_flag = (\<lambda>f. True)\<rparr>, Pkg \<lparr>pkg_cpv = ''cat/pkg-1'', pkg_cp = ''cat/pkg'', pkg_cpv_split = (''cat'', ''pkg'', ''1'', ''r0''), pkg_version = ''1'', pkg_build_id = None, pkg_slot = None, pkg_sub_slot = None, pkg_repo = (Some ''other''), pkg_use = None, pkg_iuse_is_valid_flag = (\<lambda>f. True)\<rparr>, Pkg \<lparr>pkg_cpv = ''cat/pkg-1'', pkg_cp = ''cat/pkg'', pkg_cpv_split = (''cat'', ''pkg'', ''1'', ''r0''), pkg_version = ''1'', pkg_build_id = None, pkg_slot = None, pkg_sub_slot = None, pkg_repo = (Some ''__unknown__''), pkg_use = None, pkg_iuse_is_valid_flag = (\<lambda>f. True)\<rparr>, Pkg \<lparr>pkg_cpv = ''cat/pkg-1'', pkg_cp = ''cat/pkg'', pkg_cpv_split = (''cat'', ''pkg'', ''1'', ''r0''), pkg_version = ''1'', pkg_build_id = None, pkg_slot = None, pkg_sub_slot = None, pkg_repo = None, pkg_use = None, pkg_iuse_is_valid_flag = (\<lambda>f. True)\<rparr>] \<noteq> []" by simp
  have m: "match_from_list \<lparr>vercmp = (\<lambda>a b. Inr (Some (int (of_char (hd a)) - int (of_char (hd b))))), catpkgsplit = (\<lambda>c. case c of Str t \<Rightarrow> None | Pkg p \<Rightarrow> Some (pkg_cpv_split p)), pkg_str_new = (\<lambda>t sl. None), unknown_repo = ''__unknown__'', atom_parse = (\<lambda>t w r. Inl InvalidAtom)\<rparr> (AtomArg (Atom ''cat/pkg::gentoo'' None None ''cat/pkg'' (Str ''cat/pkg'') None None None None (Some ''gentoo'') None None False None)) [Pkg \<lparr>pkg_cpv = ''cat/pkg-1'', pkg_cp = ''cat/pkg'', pkg_cpv_split = (''cat'', ''pkg'', ''1'', ''r0''), pkg_version = ''1'', pkg_build_id = None, pkg_slot = None, pkg_sub_slot = None, pkg_repo = (Some ''gentoo''), pkg_use = None, pkg_iuse_is_valid_flag = (\<lambda>f. True)\<rparr>, Pkg \<lparr>pkg_cpv = ''cat/pkg-1'', pkg_cp = ''cat/pkg'', pkg_cpv_split = (''cat'', ''pkg'', ''1'', ''r0''), pkg_version = ''1'', pkg_build_id = None, pkg_slot = None, pkg_sub_slot = None, pkg_repo = (Some ''other''), pkg_use = None, pkg_iuse_is_valid_flag = (\<lambda>f. True)\<rparr>, Pkg \<lparr>pkg_cpv = ''cat/pkg-1'', pkg_cp = ''cat/pkg'', pkg_cpv_split = (''cat'', ''pkg'', ''1'', ''r0''), pkg_version = ''1'', pkg_build_id = None, pkg_slot = None, pkg_sub_slot = None, pkg_repo = (Some ''__unknown__''), pkg_use = None, pkg_iuse_is_valid_flag = (\<lambda>f. True)\<rparr>, Pkg \<lparr>pkg_cpv = ''cat/pkg-1'', pkg_cp = ''cat/pkg'', pkg_cpv_split = (''cat'', ''pkg'', ''1'', ''r0''), pkg_version = ''1'', pkg_build_id = None, pkg_slot = None, pkg_sub_slot = None, pkg_repo = None, pkg_use = None, pkg_iuse_is_valid_flag = (\<lambda>f. True)\<rparr>]
      = Inr [Pkg \<lparr>pkg_cpv = ''cat/pkg-1'', pkg_cp = ''cat/pkg'', pkg_cpv_split = (''cat'', ''pkg'', ''1'', ''r0''), pkg_version = ''1'', pkg_build_id = None, pkg_slot = None, pkg_sub_slot = None, pkg_repo = (Some ''gentoo''), pkg_use = None, pkg_iuse_is_valid_flag = (\<lambda>f. True)\<rparr>, Pkg \<lparr>pkg_cpv = ''cat/pkg-1'', pkg_cp = ''cat/pkg'', pkg_cpv_split = (''cat'', ''pkg'', ''1'', ''r0''), pkg_version = ''1'', pkg_build_id = None, pkg_slot = None, pkg_sub_slot = None, pkg_repo = (Some ''__unknown__''), pkg_use = None, pkg_iuse_is_valid_flag = (\<lambda>f. True)\<rparr>, Pkg \<lparr>pkg_cpv = ''cat/pkg-1'', pkg_cp = ''cat/pkg'', pkg_cpv_split = (''cat'', ''pkg'', ''1'', ''r0''), pkg_version = ''1'', pkg_build_id = None, pkg_slot = None, pkg_sub_slot = None, pkg_repo = None, pkg_use = None, pkg_iuse_is_valid_flag = (\<lambda>f. True)\<rparr>]"
    by (simp add: match_defs)
  show ?thesis
    by (rule repo_filter_keeps [OF r n t c m])
qed

lemma relational_gt_ge:
  assumes "relational_test env (Atom s1 bl (Some ''>'') acp acpv av asl ass aso ar au ab aext aun) ''>'' x = Inr True"
  shows "relational_test env (Atom s2 bl (Some ''>='') acp acpv av asl ass aso ar au ab aext aun) ''>='' x = Inr True"
  using assms
  by (auto simp: relational_test_def split: option.splits cand.splits sum.splits if_splits)

lemma exact_ge:
  assumes "exact_test env (Atom s1 bl (Some ''='') acp (Pkg pa) (Some (pkg_version pa)) asl ass aso ar au ab aext aun) x = Inr True"
    and "acp = fst (pkg_cpv_split pa) @ ''/'' @ fst (snd (pkg_cpv_split pa))"
    and "\<And>p. x = Pkg p \<Longrightarrow> pkg_cp p = fst (pkg_cpv_split p) @ ''/'' @ fst (snd (pkg_cpv_split p))"
    and "\<And>s sl p. pkg_str_new env s sl = Some p \<Longrightarrow> pkg_cp p = fst (pkg_cpv_split p) @ ''/'' @ fst (snd (pkg_cpv_split p))"
  shows "relational_test env (Atom s2 bl (Some ''>='') acp (Pkg pa) (Some (pkg_version pa)) asl ass aso ar au ab aext aun) ''>='' x = Inr True"
proof (cases x)
  case (Str s)
  from assms(1) Str obtain p where p: "pkg_str_new env (remove_slot s) None = Some p"
    by (auto simp: exact_test_def cpvequal_def as_pkg_def split: option.splits sum.splits bool.splits)
  from assms(1) Str p have eq: "fst (pkg_cpv_split p) = fst (pkg_cpv_split pa)"
       "fst (snd (pkg_cpv_split p)) = fst (snd (pkg_cpv_split pa))"
       "vercmp env (pkg_version p) (pkg_version pa) = Inr (Some 0)"
    by (auto simp: exact_test_def cpvequal_def as_pkg_def split: option.splits sum.splits bool.splits if_splits prod.splits)
  show ?thesis using Str p eq assms(2) assms(4)[OF p]
    by (simp add: relational_test_def)
next
  case (Pkg p)
  from assms(1) Pkg have eq: "fst (pkg_cpv_split p) = fst (pkg_cpv_split pa)"
       "fst (snd (pkg_cpv_split p)) = fst (snd (pkg_cpv_split pa))"
       "vercmp env (pkg_version p) (pkg_version pa) = Inr (Some 0)"
    by (auto simp: exact_test_def cpvequal_def as_pkg_def split: option.splits sum.splits bool.splits if_splits prod.splits)
  show ?thesis using Pkg eq assms(2) assms(3)[OF Pkg]
    by (simp add: relational_test_def)
qed

lemma post_filters_mono:
  assumes "set m \<subseteq> set m'"
    and "slot_filter env (Atom s1 bl o1 acp acpv av asl ass aso ar au ab aext aun) m = Inr ys"
    and "slot_filter env (Atom s2 bl o2 acp acpv av asl ass aso ar au ab aext aun) m' = Inr ys'"
  shows "set (repo_filter env (Atom s1 bl o1 acp acpv av asl ass aso ar au ab aext aun)
               (use_filter (Atom s1 bl o1 acp acpv av asl ass aso ar au ab aext aun) ys))
       \<subseteq> set (repo_filter env (Atom s2 bl o2 acp acpv av asl ass aso ar au ab aext aun)
               (use_filter (Atom s2 bl o2 acp acpv av asl ass aso ar au ab aext aun) ys'))"
proof -
  let ?a = "Atom s1 bl o1 acp acpv av asl ass aso ar au ab aext aun"
  let ?b = "Atom s2 bl o2 acp acpv av asl ass aso ar au ab aext aun"
  have st: "slot_test env ?a = slot_test env ?b"
    by (auto simp: slot_test_def match_slot_def fun_eq_iff split: cand.splits option.splits)
  have sub: "set ys \<subseteq> set ys'"
  proof (cases "asl = None")
    case True
    with assms show ?thesis by (simp add: slot_filter_def)
  next
    case False
    with assms(2,3) have "filter_err (slot_test env ?a) m = Inr ys" "filter_err (slot_test env ?b) m' = Inr ys'"
      by (simp_all add: slot_filter_def)
    then show ?thesis using assms(1) st by (auto simp: set_filter_err)
  qed
  have ut: "use_test ?a = use_test ?b"
    by (simp add: use_test_def fun_eq_iff split: cand.splits option.splits)
  have "set (use_filter ?a ys) \<subseteq> set (use_filter ?b ys')"
    using sub ut by (auto simp: use_filter_def split: option.splits)
  moreover have "repo_test env ?a = repo_test env ?b"
    by (simp add: repo_test_def fun_eq_iff)
  ultimately show ?thesis
    by (auto simp: repo_filter_def)
qed

lemma operator_gt_ge:
  assumes "match_operator env (Atom s1 bl (Some ''>'') acp acpv av asl ass aso ar au ab aext aun) cs = Inr m"
    and "match_operator env (Atom s2 bl (Some ''>='') acp acpv av asl ass aso ar au ab aext aun) cs = Inr m'"
  shows "set m \<subseteq> set m'"
proof -
  let ?a = "Atom s1 bl (Some ''>'') acp acpv av asl ass aso ar au ab aext aun"
  let ?b = "Atom s2 bl (Some ''>='') acp acpv av asl ass aso ar au ab aext aun"
  have ext: "match_extended env ?a cs = match_extended env ?b cs"
    by (simp add: match_extended_def cong: option.case_cong)
  have cpm: "match_cp env ?a cs = match_cp env ?b cs"
    by (simp add: match_cp_def)
  show ?thesis
  proof (cases "aext \<or> \<not> (case catpkgsplit env acpv of None \<Rightarrow> False | Some (c, n, ver, rv) \<Rightarrow> ver \<noteq> [] \<and> rv \<noteq> [])")
    case True
    with assms ext cpm have "m = m'"
      by (auto simp: match_operator_def Let_def split: if_splits option.splits)
    then show ?thesis by simp
  next
    case False
    with assms have "filter_err (relational_test env ?a ''>'') cs = Inr m"
       "filter_err (relational_test env ?b ''>='') cs = Inr m'"
      by (auto simp: match_operator_def Let_def split: if_splits option.splits)
    then show ?thesis
      using relational_gt_ge by (auto simp: set_filter_err)
  qed
qed

lemma operator_eq_ge:
  assumes "match_operator env (Atom s1 bl (Some ''='') acp (Pkg pa) (Some (pkg_version pa)) asl ass aso ar au ab aext aun) cs = Inr m"
    and "match_operator env (Atom s2 bl (Some ''>='') acp (Pkg pa) (Some (pkg_version pa)) asl ass aso ar au ab aext aun) cs = Inr m'"
    and "acp = fst (pkg_cpv_split pa) @ ''/'' @ fst (snd (pkg_cpv_split pa))"
    and "\<And>p. Pkg p \<in> set cs \<Longrightarrow> pkg_cp p = fst (pkg_cpv_split p) @ ''/'' @ fst (snd (pkg_cpv_split p))"
    and "\<And>s sl p. pkg_str_new env s sl = Some p \<Longrightarrow> pkg_cp p = fst (pkg_cpv_split p) @ ''/'' @ fst (snd (pkg_cpv_split p))"
  shows "set m \<subseteq> set m'"
proof -
  let ?a = "Atom s1 bl (Some ''='') acp (Pkg pa) (Some (pkg_version pa)) asl ass aso ar au ab aext aun"
  let ?b = "Atom s2 bl (Some ''>='') acp (Pkg pa) (Some (pkg_version pa)) asl ass aso ar au ab aext aun"
  have ext: "match_extended env ?a cs = match_extended env ?b cs"
    by (simp add: match_extended_def cong: option.case_cong)
  have cpm: "match_cp env ?a cs = match_cp env ?b cs"
    by (simp add: match_cp_def)
  show ?thesis
  proof (cases "aext \<or> \<not> (case catpkgsplit env (Pkg pa) of None \<Rightarrow> False | Some (c, n, ver, rv) \<Rightarrow> ver \<noteq> [] \<and> rv \<noteq> [])")
    case True
    with assms(1,2) ext cpm have "m = m'"
      by (auto simp: match_operator_def Let_def split: if_splits option.splits)
    then show ?thesis by simp
  next
    case False
    with assms(1,2) have fe: "filter_err (exact_test env ?a) cs = Inr m"
       "filter_err (relational_test env ?b ''>='') cs = Inr m'"
      by (auto simp: match_operator_def Let_def split: if_splits option.splits)
    have "relational_test env ?b ''>='' x = Inr True" if "x \<in> set cs" "exact_test env ?a x = Inr True" for x
    proof (rule exact_ge[OF that(2) assms(3)])
      show "pkg_cp p = fst (pkg_cpv_split p) @ ''/'' @ fst (snd (pkg_cpv_split p))" if "x = Pkg p" for p
        using assms(4) that \<open>x \<in> set cs\<close> by blast
      show "pkg_cp p = fst (pkg_cpv_split p) @ ''/'' @ fst (snd (pkg_cpv_split p))"
        if "pkg_str_new env s sl = Some p" for s sl p
        using assms(5) that by blast
    qed
    then show ?thesis
      using fe by (auto simp: set_filter_err)
  qed
qed

text \<open>
  C3. The three atoms \<^verbatim>\<open>>=cp-v\<close>, \<^verbatim>\<open>>cp-v\<close> and \<^verbatim>\<open>=cp-v\<close> differ in their
  operator and text only; their \<^verbatim>\<open>cpv\<close> is a \<^verbatim>\<open>_pkg_str\<close> and their \<^verbatim>\<open>version\<close> is
  its version, as \<^verbatim>\<open>Atom.__init__\<close> sets them. The \<^verbatim>\<open>cp\<close> of the atom and of every
  package is category, slash, name of its \<^verbatim>\<open>cpv_split\<close>. Then for every candidate
  list, whenever the calls return, what \<^verbatim>\<open>match_from_list\<close> returns for \<^verbatim>\<open>>\<close> and
  what it returns for \<^verbatim>\<open>=\<close> is contained in what it returns for \<^verbatim>\<open>>=\<close>.
\<close>

theorem relational_superset:
  assumes wa: "acp = fst (pkg_cpv_split pa) @ ''/'' @ fst (snd (pkg_cpv_split pa))"
    and wc: "\<forall>p. Pkg p \<in> set cs \<longrightarrow> pkg_cp p = fst (pkg_cpv_split p) @ ''/'' @ fst (snd (pkg_cpv_split p))"
    and wp: "\<forall>t sl p. pkg_str_new env t sl = Some p
               \<longrightarrow> pkg_cp p = fst (pkg_cpv_split p) @ ''/'' @ fst (snd (pkg_cpv_split p))"
    and ge: "match_from_list env
               (AtomArg (Atom (''>='' @ t) bl (Some ''>='') acp (Pkg pa) (Some (pkg_version pa))
                          asl ass aso ar au ab aext aun)) cs = Inr ge"
  shows "(\<forall>gt. match_from_list env
                  (AtomArg (Atom (''>'' @ t) bl (Some ''>'') acp (Pkg pa) (Some (pkg_version pa))
                             asl ass aso ar au ab aext aun)) cs = Inr gt
               \<longrightarrow> set gt \<subseteq> set ge)
       \<and> (\<forall>eq. match_from_list env
                  (AtomArg (Atom (''='' @ t) bl (Some ''='') acp (Pkg pa) (Some (pkg_version pa))
                             asl ass aso ar au ab aext aun)) cs = Inr eq
               \<longrightarrow> set eq \<subseteq> set ge)"
proof (cases "cs = []")
  case True
  then show ?thesis by (auto simp: match_from_list_def)
next
  case False
  let ?ge = "Atom (''>='' @ t) bl (Some ''>='') acp (Pkg pa) (Some (pkg_version pa)) asl ass aso ar au ab aext aun"
  let ?gt = "Atom (''>'' @ t) bl (Some ''>'') acp (Pkg pa) (Some (pkg_version pa)) asl ass aso ar au ab aext aun"
  let ?eq = "Atom (''='' @ t) bl (Some ''='') acp (Pkg pa) (Some (pkg_version pa)) asl ass aso ar au ab aext aun"
  have stages: "\<exists>m1 m2. match_operator env a cs = Inr m1 \<and> slot_filter env a m1 = Inr m2
                  \<and> ys = repo_filter env a (use_filter a m2)"
    if "match_from_list env (AtomArg a) cs = Inr ys" "take 1 (atom_str a) \<noteq> ''!''" for a ys
    using that False by (auto simp: match_from_list_def dep_text_def split: sum.splits)
  from stages [OF ge] obtain g1 g2 where
    g: "match_operator env ?ge cs = Inr g1" "slot_filter env ?ge g1 = Inr g2"
       "ge = repo_filter env ?ge (use_filter ?ge g2)"
    by auto
  show ?thesis
  proof (intro conjI allI impI)
    fix gt
    assume "match_from_list env (AtomArg ?gt) cs = Inr gt"
    from stages [OF this] obtain h1 h2 where
      h: "match_operator env ?gt cs = Inr h1" "slot_filter env ?gt h1 = Inr h2"
         "gt = repo_filter env ?gt (use_filter ?gt h2)"
      by auto
    have "set h1 \<subseteq> set g1" using h(1) g(1) by (rule operator_gt_ge)
    then show "set gt \<subseteq> set ge"
      unfolding h(3) g(3) using h(2) g(2) by (rule post_filters_mono)
  next
    fix eq
    assume "match_from_list env (AtomArg ?eq) cs = Inr eq"
    from stages [OF this] obtain h1 h2 where
      h: "match_operator env ?eq cs = Inr h1" "slot_filter env ?eq h1 = Inr h2"
         "eq = repo_filter env ?eq (use_filter ?eq h2)"
      by auto
    have "set h1 \<subseteq> set g1"
      using h(1) g(1) wa wc wp by (intro operator_eq_ge) blast+
    then show "set eq \<subseteq> set ge"
      unfolding h(3) g(3) using h(2) g(2) by (rule post_filters_mono)
  qed
qed

theorem relational_superset_witness:
  "match_from_list \<lparr>vercmp = (\<lambda>a b. Inr (Some (int (of_char (hd a)) - int (of_char (hd b))))), catpkgsplit = (\<lambda>c. case c of Str t \<Rightarrow> None | Pkg p \<Rightarrow> Some (pkg_cpv_split p)), pkg_str_new = (\<lambda>t sl. None), unknown_repo = ''__unknown__'', atom_parse = (\<lambda>t w r. Inl InvalidAtom)\<rparr> (AtomArg (Atom ''>=cat/pkg-2'' None (Some ''>='') ''cat/pkg'' (Pkg \<lparr>pkg_cpv = ''cat/pkg-2'', pkg_cp = ''cat/pkg'', pkg_cpv_split = (''cat'', ''pkg'', ''2'', ''r0''), pkg_version = ''2'', pkg_build_id = None, pkg_slot = None, pkg_sub_slot = None, pkg_repo = None, pkg_use = None, pkg_iuse_is_valid_flag = (\<lambda>f. True)\<rparr>) (Some ''2'') None None None None None None False None)) [Pkg \<lparr>pkg_cpv = ''cat/pkg-1'', pkg_cp = ''cat/pkg'', pkg_cpv_split = (''cat'', ''pkg'', ''1'', ''r0''), pkg_version = ''1'', pkg_build_id = None, pkg_slot = None, pkg_sub_slot = None, pkg_repo = None, pkg_use = None, pkg_iuse_is_valid_flag = (\<lambda>f. True)\<rparr>, Pkg \<lparr>pkg_cpv = ''cat/pkg-2'', pkg_cp = ''cat/pkg'', pkg_cpv_split = (''cat'', ''pkg'', ''2'', ''r0''), pkg_version = ''2'', pkg_build_id = None, pkg_slot = None, pkg_sub_slot = None, pkg_repo = None, pkg_use = None, pkg_iuse_is_valid_flag = (\<lambda>f. True)\<rparr>, Pkg \<lparr>pkg_cpv = ''cat/pkg-3'', pkg_cp = ''cat/pkg'', pkg_cpv_split = (''cat'', ''pkg'', ''3'', ''r0''), pkg_version = ''3'', pkg_build_id = None, pkg_slot = None, pkg_sub_slot = None, pkg_repo = None, pkg_use = None, pkg_iuse_is_valid_flag = (\<lambda>f. True)\<rparr>] = Inr [Pkg \<lparr>pkg_cpv = ''cat/pkg-2'', pkg_cp = ''cat/pkg'', pkg_cpv_split = (''cat'', ''pkg'', ''2'', ''r0''), pkg_version = ''2'', pkg_build_id = None, pkg_slot = None, pkg_sub_slot = None, pkg_repo = None, pkg_use = None, pkg_iuse_is_valid_flag = (\<lambda>f. True)\<rparr>, Pkg \<lparr>pkg_cpv = ''cat/pkg-3'', pkg_cp = ''cat/pkg'', pkg_cpv_split = (''cat'', ''pkg'', ''3'', ''r0''), pkg_version = ''3'', pkg_build_id = None, pkg_slot = None, pkg_sub_slot = None, pkg_repo = None, pkg_use = None, pkg_iuse_is_valid_flag = (\<lambda>f. True)\<rparr>]
   \<and> match_from_list \<lparr>vercmp = (\<lambda>a b. Inr (Some (int (of_char (hd a)) - int (of_char (hd b))))), catpkgsplit = (\<lambda>c. case c of Str t \<Rightarrow> None | Pkg p \<Rightarrow> Some (pkg_cpv_split p)), pkg_str_new = (\<lambda>t sl. None), unknown_repo = ''__unknown__'', atom_parse = (\<lambda>t w r. Inl InvalidAtom)\<rparr> (AtomArg (Atom ''>cat/pkg-2'' None (Some ''>'') ''cat/pkg'' (Pkg \<lparr>pkg_cpv = ''cat/pkg-2'', pkg_cp = ''cat/pkg'', pkg_cpv_split = (''cat'', ''pkg'', ''2'', ''r0''), pkg_version = ''2'', pkg_build_id = None, pkg_slot = None, pkg_sub_slot = None, pkg_repo = None, pkg_use = None, pkg_iuse_is_valid_flag = (\<lambda>f. True)\<rparr>) (Some ''2'') None None None None None None False None)) [Pkg \<lparr>pkg_cpv = ''cat/pkg-1'', pkg_cp = ''cat/pkg'', pkg_cpv_split = (''cat'', ''pkg'', ''1'', ''r0''), pkg_version = ''1'', pkg_build_id = None, pkg_slot = None, pkg_sub_slot = None, pkg_repo = None, pkg_use = None, pkg_iuse_is_valid_flag = (\<lambda>f. True)\<rparr>, Pkg \<lparr>pkg_cpv = ''cat/pkg-2'', pkg_cp = ''cat/pkg'', pkg_cpv_split = (''cat'', ''pkg'', ''2'', ''r0''), pkg_version = ''2'', pkg_build_id = None, pkg_slot = None, pkg_sub_slot = None, pkg_repo = None, pkg_use = None, pkg_iuse_is_valid_flag = (\<lambda>f. True)\<rparr>, Pkg \<lparr>pkg_cpv = ''cat/pkg-3'', pkg_cp = ''cat/pkg'', pkg_cpv_split = (''cat'', ''pkg'', ''3'', ''r0''), pkg_version = ''3'', pkg_build_id = None, pkg_slot = None, pkg_sub_slot = None, pkg_repo = None, pkg_use = None, pkg_iuse_is_valid_flag = (\<lambda>f. True)\<rparr>] = Inr [Pkg \<lparr>pkg_cpv = ''cat/pkg-3'', pkg_cp = ''cat/pkg'', pkg_cpv_split = (''cat'', ''pkg'', ''3'', ''r0''), pkg_version = ''3'', pkg_build_id = None, pkg_slot = None, pkg_sub_slot = None, pkg_repo = None, pkg_use = None, pkg_iuse_is_valid_flag = (\<lambda>f. True)\<rparr>]
   \<and> match_from_list \<lparr>vercmp = (\<lambda>a b. Inr (Some (int (of_char (hd a)) - int (of_char (hd b))))), catpkgsplit = (\<lambda>c. case c of Str t \<Rightarrow> None | Pkg p \<Rightarrow> Some (pkg_cpv_split p)), pkg_str_new = (\<lambda>t sl. None), unknown_repo = ''__unknown__'', atom_parse = (\<lambda>t w r. Inl InvalidAtom)\<rparr> (AtomArg (Atom ''=cat/pkg-2'' None (Some ''='') ''cat/pkg'' (Pkg \<lparr>pkg_cpv = ''cat/pkg-2'', pkg_cp = ''cat/pkg'', pkg_cpv_split = (''cat'', ''pkg'', ''2'', ''r0''), pkg_version = ''2'', pkg_build_id = None, pkg_slot = None, pkg_sub_slot = None, pkg_repo = None, pkg_use = None, pkg_iuse_is_valid_flag = (\<lambda>f. True)\<rparr>) (Some ''2'') None None None None None None False None)) [Pkg \<lparr>pkg_cpv = ''cat/pkg-1'', pkg_cp = ''cat/pkg'', pkg_cpv_split = (''cat'', ''pkg'', ''1'', ''r0''), pkg_version = ''1'', pkg_build_id = None, pkg_slot = None, pkg_sub_slot = None, pkg_repo = None, pkg_use = None, pkg_iuse_is_valid_flag = (\<lambda>f. True)\<rparr>, Pkg \<lparr>pkg_cpv = ''cat/pkg-2'', pkg_cp = ''cat/pkg'', pkg_cpv_split = (''cat'', ''pkg'', ''2'', ''r0''), pkg_version = ''2'', pkg_build_id = None, pkg_slot = None, pkg_sub_slot = None, pkg_repo = None, pkg_use = None, pkg_iuse_is_valid_flag = (\<lambda>f. True)\<rparr>, Pkg \<lparr>pkg_cpv = ''cat/pkg-3'', pkg_cp = ''cat/pkg'', pkg_cpv_split = (''cat'', ''pkg'', ''3'', ''r0''), pkg_version = ''3'', pkg_build_id = None, pkg_slot = None, pkg_sub_slot = None, pkg_repo = None, pkg_use = None, pkg_iuse_is_valid_flag = (\<lambda>f. True)\<rparr>] = Inr [Pkg \<lparr>pkg_cpv = ''cat/pkg-2'', pkg_cp = ''cat/pkg'', pkg_cpv_split = (''cat'', ''pkg'', ''2'', ''r0''), pkg_version = ''2'', pkg_build_id = None, pkg_slot = None, pkg_sub_slot = None, pkg_repo = None, pkg_use = None, pkg_iuse_is_valid_flag = (\<lambda>f. True)\<rparr>]
   \<and> set [Pkg \<lparr>pkg_cpv = ''cat/pkg-3'', pkg_cp = ''cat/pkg'', pkg_cpv_split = (''cat'', ''pkg'', ''3'', ''r0''), pkg_version = ''3'', pkg_build_id = None, pkg_slot = None, pkg_sub_slot = None, pkg_repo = None, pkg_use = None, pkg_iuse_is_valid_flag = (\<lambda>f. True)\<rparr>] \<subseteq> set [Pkg \<lparr>pkg_cpv = ''cat/pkg-2'', pkg_cp = ''cat/pkg'', pkg_cpv_split = (''cat'', ''pkg'', ''2'', ''r0''), pkg_version = ''2'', pkg_build_id = None, pkg_slot = None, pkg_sub_slot = None, pkg_repo = None, pkg_use = None, pkg_iuse_is_valid_flag = (\<lambda>f. True)\<rparr>, Pkg \<lparr>pkg_cpv = ''cat/pkg-3'', pkg_cp = ''cat/pkg'', pkg_cpv_split = (''cat'', ''pkg'', ''3'', ''r0''), pkg_version = ''3'', pkg_build_id = None, pkg_slot = None, pkg_sub_slot = None, pkg_repo = None, pkg_use = None, pkg_iuse_is_valid_flag = (\<lambda>f. True)\<rparr>]
   \<and> set [Pkg \<lparr>pkg_cpv = ''cat/pkg-2'', pkg_cp = ''cat/pkg'', pkg_cpv_split = (''cat'', ''pkg'', ''2'', ''r0''), pkg_version = ''2'', pkg_build_id = None, pkg_slot = None, pkg_sub_slot = None, pkg_repo = None, pkg_use = None, pkg_iuse_is_valid_flag = (\<lambda>f. True)\<rparr>] \<subseteq> set [Pkg \<lparr>pkg_cpv = ''cat/pkg-2'', pkg_cp = ''cat/pkg'', pkg_cpv_split = (''cat'', ''pkg'', ''2'', ''r0''), pkg_version = ''2'', pkg_build_id = None, pkg_slot = None, pkg_sub_slot = None, pkg_repo = None, pkg_use = None, pkg_iuse_is_valid_flag = (\<lambda>f. True)\<rparr>, Pkg \<lparr>pkg_cpv = ''cat/pkg-3'', pkg_cp = ''cat/pkg'', pkg_cpv_split = (''cat'', ''pkg'', ''3'', ''r0''), pkg_version = ''3'', pkg_build_id = None, pkg_slot = None, pkg_sub_slot = None, pkg_repo = None, pkg_use = None, pkg_iuse_is_valid_flag = (\<lambda>f. True)\<rparr>]"
proof -
  have ge: "match_from_list \<lparr>vercmp = (\<lambda>a b. Inr (Some (int (of_char (hd a)) - int (of_char (hd b))))), catpkgsplit = (\<lambda>c. case c of Str t \<Rightarrow> None | Pkg p \<Rightarrow> Some (pkg_cpv_split p)), pkg_str_new = (\<lambda>t sl. None), unknown_repo = ''__unknown__'', atom_parse = (\<lambda>t w r. Inl InvalidAtom)\<rparr> (AtomArg (Atom (''>='' @ ''cat/pkg-2'') None (Some ''>='') ''cat/pkg'' (Pkg \<lparr>pkg_cpv = ''cat/pkg-2'', pkg_cp = ''cat/pkg'', pkg_cpv_split = (''cat'', ''pkg'', ''2'', ''r0''), pkg_version = ''2'', pkg_build_id = None, pkg_slot = None, pkg_sub_slot = None, pkg_repo = None, pkg_use = None, pkg_iuse_is_valid_flag = (\<lambda>f. True)\<rparr>)
      (Some (pkg_version \<lparr>pkg_cpv = ''cat/pkg-2'', pkg_cp = ''cat/pkg'', pkg_cpv_split = (''cat'', ''pkg'', ''2'', ''r0''), pkg_version = ''2'', pkg_build_id = None, pkg_slot = None, pkg_sub_slot = None, pkg_repo = None, pkg_use = None, pkg_iuse_is_valid_flag = (\<lambda>f. True)\<rparr>)) None None None None None None False None)) [Pkg \<lparr>pkg_cpv = ''cat/pkg-1'', pkg_cp = ''cat/pkg'', pkg_cpv_split = (''cat'', ''pkg'', ''1'', ''r0''), pkg_version = ''1'', pkg_build_id = None, pkg_slot = None, pkg_sub_slot = None, pkg_repo = None, pkg_use = None, pkg_iuse_is_valid_flag = (\<lambda>f. True)\<rparr>, Pkg \<lparr>pkg_cpv = ''cat/pkg-2'', pkg_cp = ''cat/pkg'', pkg_cpv_split = (''cat'', ''pkg'', ''2'', ''r0''), pkg_version = ''2'', pkg_build_id = None, pkg_slot = None, pkg_sub_slot = None, pkg_repo = None, pkg_use = None, pkg_iuse_is_valid_flag = (\<lambda>f. True)\<rparr>, Pkg \<lparr>pkg_cpv = ''cat/pkg-3'', pkg_cp = ''cat/pkg'', pkg_cpv_split = (''cat'', ''pkg'', ''3'', ''r0''), pkg_version = ''3'', pkg_build_id = None, pkg_slot = None, pkg_sub_slot = None, pkg_repo = None, pkg_use = None, pkg_iuse_is_valid_flag = (\<lambda>f. True)\<rparr>] = Inr [Pkg \<lparr>pkg_cpv = ''cat/pkg-2'', pkg_cp = ''cat/pkg'', pkg_cpv_split = (''cat'', ''pkg'', ''2'', ''r0''), pkg_version = ''2'', pkg_build_id = None, pkg_slot = None, pkg_sub_slot = None, pkg_repo = None, pkg_use = None, pkg_iuse_is_valid_flag = (\<lambda>f. True)\<rparr>, Pkg \<lparr>pkg_cpv = ''cat/pkg-3'', pkg_cp = ''cat/pkg'', pkg_cpv_split = (''cat'', ''pkg'', ''3'', ''r0''), pkg_version = ''3'', pkg_build_id = None, pkg_slot = None, pkg_sub_slot = None, pkg_repo = None, pkg_use = None, pkg_iuse_is_valid_flag = (\<lambda>f. True)\<rparr>]"
    by (simp add: match_defs)
  have gt: "match_from_list \<lparr>vercmp = (\<lambda>a b. Inr (Some (int (of_char (hd a)) - int (of_char (hd b))))), catpkgsplit = (\<lambda>c. case c of Str t \<Rightarrow> None | Pkg p \<Rightarrow> Some (pkg_cpv_split p)), pkg_str_new = (\<lambda>t sl. None), unknown_repo = ''__unknown__'', atom_parse = (\<lambda>t w r. Inl InvalidAtom)\<rparr> (AtomArg (Atom (''>'' @ ''cat/pkg-2'') None (Some ''>'') ''cat/pkg'' (Pkg \<lparr>pkg_cpv = ''cat/pkg-2'', pkg_cp = ''cat/pkg'', pkg_cpv_split = (''cat'', ''pkg'', ''2'', ''r0''), pkg_version = ''2'', pkg_build_id = None, pkg_slot = None, pkg_sub_slot = None, pkg_repo = None, pkg_use = None, pkg_iuse_is_valid_flag = (\<lambda>f. True)\<rparr>)
      (Some (pkg_version \<lparr>pkg_cpv = ''cat/pkg-2'', pkg_cp = ''cat/pkg'', pkg_cpv_split = (''cat'', ''pkg'', ''2'', ''r0''), pkg_version = ''2'', pkg_build_id = None, pkg_slot = None, pkg_sub_slot = None, pkg_repo = None, pkg_use = None, pkg_iuse_is_valid_flag = (\<lambda>f. True)\<rparr>)) None None None None None None False None)) [Pkg \<lparr>pkg_cpv = ''cat/pkg-1'', pkg_cp = ''cat/pkg'', pkg_cpv_split = (''cat'', ''pkg'', ''1'', ''r0''), pkg_version = ''1'', pkg_build_id = None, pkg_slot = None, pkg_sub_slot = None, pkg_repo = None, pkg_use = None, pkg_iuse_is_valid_flag = (\<lambda>f. True)\<rparr>, Pkg \<lparr>pkg_cpv = ''cat/pkg-2'', pkg_cp = ''cat/pkg'', pkg_cpv_split = (''cat'', ''pkg'', ''2'', ''r0''), pkg_version = ''2'', pkg_build_id = None, pkg_slot = None, pkg_sub_slot = None, pkg_repo = None, pkg_use = None, pkg_iuse_is_valid_flag = (\<lambda>f. True)\<rparr>, Pkg \<lparr>pkg_cpv = ''cat/pkg-3'', pkg_cp = ''cat/pkg'', pkg_cpv_split = (''cat'', ''pkg'', ''3'', ''r0''), pkg_version = ''3'', pkg_build_id = None, pkg_slot = None, pkg_sub_slot = None, pkg_repo = None, pkg_use = None, pkg_iuse_is_valid_flag = (\<lambda>f. True)\<rparr>] = Inr [Pkg \<lparr>pkg_cpv = ''cat/pkg-3'', pkg_cp = ''cat/pkg'', pkg_cpv_split = (''cat'', ''pkg'', ''3'', ''r0''), pkg_version = ''3'', pkg_build_id = None, pkg_slot = None, pkg_sub_slot = None, pkg_repo = None, pkg_use = None, pkg_iuse_is_valid_flag = (\<lambda>f. True)\<rparr>]"
    by (simp add: match_defs)
  have eq: "match_from_list \<lparr>vercmp = (\<lambda>a b. Inr (Some (int (of_char (hd a)) - int (of_char (hd b))))), catpkgsplit = (\<lambda>c. case c of Str t \<Rightarrow> None | Pkg p \<Rightarrow> Some (pkg_cpv_split p)), pkg_str_new = (\<lambda>t sl. None), unknown_repo = ''__unknown__'', atom_parse = (\<lambda>t w r. Inl InvalidAtom)\<rparr> (AtomArg (Atom (''='' @ ''cat/pkg-2'') None (Some ''='') ''cat/pkg'' (Pkg \<lparr>pkg_cpv = ''cat/pkg-2'', pkg_cp = ''cat/pkg'', pkg_cpv_split = (''cat'', ''pkg'', ''2'', ''r0''), pkg_version = ''2'', pkg_build_id = None, pkg_slot = None, pkg_sub_slot = None, pkg_repo = None, pkg_use = None, pkg_iuse_is_valid_flag = (\<lambda>f. True)\<rparr>)
      (Some (pkg_version \<lparr>pkg_cpv = ''cat/pkg-2'', pkg_cp = ''cat/pkg'', pkg_cpv_split = (''cat'', ''pkg'', ''2'', ''r0''), pkg_version = ''2'', pkg_build_id = None, pkg_slot = None, pkg_sub_slot = None, pkg_repo = None, pkg_use = None, pkg_iuse_is_valid_flag = (\<lambda>f. True)\<rparr>)) None None None None None None False None)) [Pkg \<lparr>pkg_cpv = ''cat/pkg-1'', pkg_cp = ''cat/pkg'', pkg_cpv_split = (''cat'', ''pkg'', ''1'', ''r0''), pkg_version = ''1'', pkg_build_id = None, pkg_slot = None, pkg_sub_slot = None, pkg_repo = None, pkg_use = None, pkg_iuse_is_valid_flag = (\<lambda>f. True)\<rparr>, Pkg \<lparr>pkg_cpv = ''cat/pkg-2'', pkg_cp = ''cat/pkg'', pkg_cpv_split = (''cat'', ''pkg'', ''2'', ''r0''), pkg_version = ''2'', pkg_build_id = None, pkg_slot = None, pkg_sub_slot = None, pkg_repo = None, pkg_use = None, pkg_iuse_is_valid_flag = (\<lambda>f. True)\<rparr>, Pkg \<lparr>pkg_cpv = ''cat/pkg-3'', pkg_cp = ''cat/pkg'', pkg_cpv_split = (''cat'', ''pkg'', ''3'', ''r0''), pkg_version = ''3'', pkg_build_id = None, pkg_slot = None, pkg_sub_slot = None, pkg_repo = None, pkg_use = None, pkg_iuse_is_valid_flag = (\<lambda>f. True)\<rparr>] = Inr [Pkg \<lparr>pkg_cpv = ''cat/pkg-2'', pkg_cp = ''cat/pkg'', pkg_cpv_split = (''cat'', ''pkg'', ''2'', ''r0''), pkg_version = ''2'', pkg_build_id = None, pkg_slot = None, pkg_sub_slot = None, pkg_repo = None, pkg_use = None, pkg_iuse_is_valid_flag = (\<lambda>f. True)\<rparr>]"
    by (simp add: match_defs)
  have wa: "''cat/pkg'' = fst (pkg_cpv_split \<lparr>pkg_cpv = ''cat/pkg-2'', pkg_cp = ''cat/pkg'', pkg_cpv_split = (''cat'', ''pkg'', ''2'', ''r0''), pkg_version = ''2'', pkg_build_id = None, pkg_slot = None, pkg_sub_slot = None, pkg_repo = None, pkg_use = None, pkg_iuse_is_valid_flag = (\<lambda>f. True)\<rparr>) @ ''/'' @ fst (snd (pkg_cpv_split \<lparr>pkg_cpv = ''cat/pkg-2'', pkg_cp = ''cat/pkg'', pkg_cpv_split = (''cat'', ''pkg'', ''2'', ''r0''), pkg_version = ''2'', pkg_build_id = None, pkg_slot = None, pkg_sub_slot = None, pkg_repo = None, pkg_use = None, pkg_iuse_is_valid_flag = (\<lambda>f. True)\<rparr>))"
    by simp
  have wc: "\<forall>p. Pkg p \<in> set [Pkg \<lparr>pkg_cpv = ''cat/pkg-1'', pkg_cp = ''cat/pkg'', pkg_cpv_split = (''cat'', ''pkg'', ''1'', ''r0''), pkg_version = ''1'', pkg_build_id = None, pkg_slot = None, pkg_sub_slot = None, pkg_repo = None, pkg_use = None, pkg_iuse_is_valid_flag = (\<lambda>f. True)\<rparr>, Pkg \<lparr>pkg_cpv = ''cat/pkg-2'', pkg_cp = ''cat/pkg'', pkg_cpv_split = (''cat'', ''pkg'', ''2'', ''r0''), pkg_version = ''2'', pkg_build_id = None, pkg_slot = None, pkg_sub_slot = None, pkg_repo = None, pkg_use = None, pkg_iuse_is_valid_flag = (\<lambda>f. True)\<rparr>, Pkg \<lparr>pkg_cpv = ''cat/pkg-3'', pkg_cp = ''cat/pkg'', pkg_cpv_split = (''cat'', ''pkg'', ''3'', ''r0''), pkg_version = ''3'', pkg_build_id = None, pkg_slot = None, pkg_sub_slot = None, pkg_repo = None, pkg_use = None, pkg_iuse_is_valid_flag = (\<lambda>f. True)\<rparr>] \<longrightarrow> pkg_cp p = fst (pkg_cpv_split p) @ ''/'' @ fst (snd (pkg_cpv_split p))"
    by auto
  have wp: "\<forall>t sl p. pkg_str_new \<lparr>vercmp = (\<lambda>a b. Inr (Some (int (of_char (hd a)) - int (of_char (hd b))))), catpkgsplit = (\<lambda>c. case c of Str t \<Rightarrow> None | Pkg p \<Rightarrow> Some (pkg_cpv_split p)), pkg_str_new = (\<lambda>t sl. None), unknown_repo = ''__unknown__'', atom_parse = (\<lambda>t w r. Inl InvalidAtom)\<rparr> t sl = Some p
              \<longrightarrow> pkg_cp p = fst (pkg_cpv_split p) @ ''/'' @ fst (snd (pkg_cpv_split p))"
    by simp
  from relational_superset [OF wa wc wp ge] gt eq
  have "set [Pkg \<lparr>pkg_cpv = ''cat/pkg-3'', pkg_cp = ''cat/pkg'', pkg_cpv_split = (''cat'', ''pkg'', ''3'', ''r0''), pkg_version = ''3'', pkg_build_id = None, pkg_slot = None, pkg_sub_slot = None, pkg_repo = None, pkg_use = None, pkg_iuse_is_valid_flag = (\<lambda>f. True)\<rparr>] \<subseteq> set [Pkg \<lparr>pkg_cpv = ''cat/pkg-2'', pkg_cp = ''cat/pkg'', pkg_cpv_split = (''cat'', ''pkg'', ''2'', ''r0''), pkg_version = ''2'', pkg_build_id = None, pkg_slot = None, pkg_sub_slot = None, pkg_repo = None, pkg_use = None, pkg_iuse_is_valid_flag = (\<lambda>f. True)\<rparr>, Pkg \<lparr>pkg_cpv = ''cat/pkg-3'', pkg_cp = ''cat/pkg'', pkg_cpv_split = (''cat'', ''pkg'', ''3'', ''r0''), pkg_version = ''3'', pkg_build_id = None, pkg_slot = None, pkg_sub_slot = None, pkg_repo = None, pkg_use = None, pkg_iuse_is_valid_flag = (\<lambda>f. True)\<rparr>]"
       "set [Pkg \<lparr>pkg_cpv = ''cat/pkg-2'', pkg_cp = ''cat/pkg'', pkg_cpv_split = (''cat'', ''pkg'', ''2'', ''r0''), pkg_version = ''2'', pkg_build_id = None, pkg_slot = None, pkg_sub_slot = None, pkg_repo = None, pkg_use = None, pkg_iuse_is_valid_flag = (\<lambda>f. True)\<rparr>] \<subseteq> set [Pkg \<lparr>pkg_cpv = ''cat/pkg-2'', pkg_cp = ''cat/pkg'', pkg_cpv_split = (''cat'', ''pkg'', ''2'', ''r0''), pkg_version = ''2'', pkg_build_id = None, pkg_slot = None, pkg_sub_slot = None, pkg_repo = None, pkg_use = None, pkg_iuse_is_valid_flag = (\<lambda>f. True)\<rparr>, Pkg \<lparr>pkg_cpv = ''cat/pkg-3'', pkg_cp = ''cat/pkg'', pkg_cpv_split = (''cat'', ''pkg'', ''3'', ''r0''), pkg_version = ''3'', pkg_build_id = None, pkg_slot = None, pkg_sub_slot = None, pkg_repo = None, pkg_use = None, pkg_iuse_is_valid_flag = (\<lambda>f. True)\<rparr>]"
    by blast+
  with ge gt eq show ?thesis by simp
qed

lemma startswith_append: "startswith (old @ rest) old"
  by (simp add: startswith_def)

lemma find_at_prefix: "find_at (old @ rest) old i = Some i"
proof (cases "old @ rest")
  case Nil
  then show ?thesis by simp
next
  case (Cons a list)
  have "startswith (a # list) old"
    using startswith_append[of old rest] Cons by simp
  then show ?thesis using Cons by simp
qed

lemma replace_first_prefix: "replace_first (old @ rest) old new = new @ rest"
  by (simp add: replace_first_def py_find_def find_from_def find_at_prefix)

lemma glob_cpv_prefix: "glob_cpv (k @ ''-'' @ v @ rest) k v = k @ ''-'' @ glob_ver v @ rest"
proof (cases "glob_ver v = v")
  case True
  then show ?thesis by (simp add: glob_cpv_def)
next
  case False
  have "replace_first ((k @ ''-'' @ v) @ rest) (k @ ''-'' @ v) (k @ ''-'' @ glob_ver v)
        = (k @ ''-'' @ glob_ver v) @ rest"
    by (rule replace_first_prefix)
  with False show ?thesis by (simp add: glob_cpv_def)
qed

lemma contains_sep: "contains ''._-'' [d] = (d \<in> {CHR ''.'', CHR ''_'', CHR ''-''})"
  by (auto simp: contains_def py_find_def find_from_def startswith_def)

lemma glob_boundary_eq:
  assumes "m \<noteq> []"
  shows "glob_boundary m xc
     = Inr (startswith xc m \<and> (length xc = length m
              \<or> xc ! length m \<in> {CHR ''.'', CHR ''_'', CHR ''-''}
              \<or> isdigit (last m) \<noteq> isdigit (xc ! length m)))"
proof (cases "startswith xc m")
  case False
  then show ?thesis by (simp add: glob_boundary_def)
next
  case True
  then have len: "length m \<le> length xc"
    by (metis startswith_def length_take min.cobounded2 min_def nat_le_linear take_all)
  show ?thesis
  proof (cases "length xc = length m")
    case True
    with \<open>startswith xc m\<close> show ?thesis by (simp add: glob_boundary_def)
  next
    case False
    with len have lt: "length m < length xc" by simp
    then have "take 1 (drop (length m) xc) = [xc ! length m]"
      by (simp add: take_Suc_conv_app_nth drop_Suc Cons_nth_drop_Suc hd_drop_conv_nth take_Suc)
    with \<open>startswith xc m\<close> False assms show ?thesis
      by (simp add: glob_boundary_def contains_sep Let_def)
  qed
qed

lemma glob_cpv_nonempty: "t \<noteq> [] \<Longrightarrow> glob_cpv t k v \<noteq> []"
  by (auto simp: glob_cpv_def replace_first_def split: option.splits)

lemma glob_test_eq:
  assumes "m \<noteq> []"
  shows "glob_test env m x =
     Inr (case (case x of Pkg p \<Rightarrow> Some p | Str t \<Rightarrow> pkg_str_new env (remove_slot t) None) of
            None \<Rightarrow> False
          | Some p \<Rightarrow>
              startswith (glob_cpv (pkg_cpv p) (pkg_cp p) (fst (snd (snd (pkg_cpv_split p))))) m
              \<and> (length (glob_cpv (pkg_cpv p) (pkg_cp p) (fst (snd (snd (pkg_cpv_split p))))) = length m
                    \<or> glob_cpv (pkg_cpv p) (pkg_cp p) (fst (snd (snd (pkg_cpv_split p)))) ! length m
                        \<in> {CHR ''.'', CHR ''_'', CHR ''-''}
                    \<or> isdigit (last m)
                        \<noteq> isdigit (glob_cpv (pkg_cpv p) (pkg_cp p) (fst (snd (snd (pkg_cpv_split p)))) ! length m)))"
  using assms
  by (auto simp: glob_test_def glob_boundary_eq split: option.splits cand.splits prod.splits)

text \<open>
  C1. For an atom with the operator \<^verbatim>\<open>=*\<close> that is no wildcard atom and whose
  \<^verbatim>\<open>cpv\<close> splits into category, name, version and revision, the operator stage of
  \<^verbatim>\<open>match_from_list\<close> keeps exactly the candidates that are (or parse to) a package
  whose normalized cpv starts with the normalized cpv of the atom, the match ending
  on a boundary: nothing follows the prefix, or the next character is one of
  \<^verbatim>\<open>. _ -\<close>, or it is a digit where the last matched character is none, or the
  reverse. Without slot, USE dependencies and repository in the atom this is what
  \<^verbatim>\<open>match_from_list\<close> returns. The normalization replaces, in a text that starts
  with cp, hyphen, version, the version by the version without its leading zeros
  (one zero kept where no digit would lead) and leaves what follows, the revision,
  as it is. The witness is the match of \<^verbatim>\<open>=cat/pkg-1*\<close> against \<^verbatim>\<open>cat/pkg-10\<close> and
  \<^verbatim>\<open>cat/pkg-1.2\<close>, which returns \<^verbatim>\<open>cat/pkg-1.2\<close> only.
\<close>

theorem glob_operator:
  assumes "catpkgsplit env acpv = Some (c, n, ver, rv)" "ver \<noteq> []" "rv \<noteq> []"
    and "s \<noteq> cand_text acpv" "take 1 s \<noteq> ''!''" "cand_text acpv \<noteq> []"
  shows "match_operator env (Atom s bl (Some ''=*'') acp acpv av asl ass aso ar au ab False aun) cs
       = Inr (filter (\<lambda>x. case (case x of Pkg p \<Rightarrow> Some p | Str t \<Rightarrow> pkg_str_new env (remove_slot t) None) of
            None \<Rightarrow> False
          | Some p \<Rightarrow>
              (let m = glob_cpv (cand_text acpv) acp ver;
                   xc = glob_cpv (pkg_cpv p) (pkg_cp p) (fst (snd (snd (pkg_cpv_split p))))
               in startswith xc m \<and> (length xc = length m
                    \<or> xc ! length m \<in> {CHR ''.'', CHR ''_'', CHR ''-''}
                    \<or> isdigit (last m) \<noteq> isdigit (xc ! length m)))) cs)
     \<and> match_from_list env (AtomArg (Atom s bl (Some ''=*'') acp acpv av None None aso None None ab False None)) cs
       = match_operator env (Atom s bl (Some ''=*'') acp acpv av None None aso None None ab False None) cs
     \<and> glob_cpv (k @ ''-'' @ v @ rest) k v = k @ ''-'' @ glob_ver v @ rest
     \<and> glob_ver v = (let w = dropWhile (\<lambda>d. d = CHR ''0'') v
                     in if w \<noteq> [] \<and> isdigit (hd w) then w else CHR ''0'' # w)"
proof (intro conjI)
  let ?m = "glob_cpv (cand_text acpv) acp ver"
  have m: "?m \<noteq> []" using assms(6) by (rule glob_cpv_nonempty)
  have total: "\<exists>b. glob_test env ?m x = Inr b" for x
    using glob_test_eq[OF m] by blast
  have "match_operator env (Atom s bl (Some ''=*'') acp acpv av asl ass aso ar au ab False aun) cs
      = filter_err (glob_test env ?m) cs"
    using assms by (simp add: match_operator_def)
  also have "\<dots> = Inr (filter (\<lambda>x. glob_test env ?m x = Inr True) cs)"
    using total by (intro filter_err_total) blast
  finally show "match_operator env (Atom s bl (Some ''=*'') acp acpv av asl ass aso ar au ab False aun) cs
       = Inr (filter (\<lambda>x. case (case x of Pkg p \<Rightarrow> Some p | Str t \<Rightarrow> pkg_str_new env (remove_slot t) None) of
            None \<Rightarrow> False
          | Some p \<Rightarrow>
              (let m = glob_cpv (cand_text acpv) acp ver;
                   xc = glob_cpv (pkg_cpv p) (pkg_cp p) (fst (snd (snd (pkg_cpv_split p))))
               in startswith xc m \<and> (length xc = length m
                    \<or> xc ! length m \<in> {CHR ''.'', CHR ''_'', CHR ''-''}
                    \<or> isdigit (last m) \<noteq> isdigit (xc ! length m)))) cs)"
    unfolding Let_def by (simp add: glob_test_eq[OF m])
next
  show "match_from_list env (AtomArg (Atom s bl (Some ''=*'') acp acpv av None None aso None None ab False None)) cs
       = match_operator env (Atom s bl (Some ''=*'') acp acpv av None None aso None None ab False None) cs"
  proof (cases "cs = []")
    case True
    then show ?thesis using assms by (simp add: match_from_list_def match_operator_def)
  next
    case False
    then show ?thesis using assms(5)
      by (simp add: match_from_list_def dep_text_def slot_filter_def use_filter_def repo_filter_def
          split: sum.splits)
  qed
next
  show "glob_cpv (k @ ''-'' @ v @ rest) k v = k @ ''-'' @ glob_ver v @ rest"
    by (rule glob_cpv_prefix)
next
  show "glob_ver v = (let w = dropWhile (\<lambda>d. d = CHR ''0'') v
                     in if w \<noteq> [] \<and> isdigit (hd w) then w else CHR ''0'' # w)"
    by (simp add: glob_ver_def lstrip0_def Let_def)
qed

theorem glob_operator_witness:
  "match_from_list \<lparr>vercmp = (\<lambda>a b. Inr (Some (int (of_char (hd a)) - int (of_char (hd b))))), catpkgsplit = (\<lambda>c. case c of Str t \<Rightarrow> None | Pkg p \<Rightarrow> Some (pkg_cpv_split p)), pkg_str_new = (\<lambda>t sl. None), unknown_repo = ''__unknown__'', atom_parse = (\<lambda>t w r. Inl InvalidAtom)\<rparr> (AtomArg (Atom ''=cat/pkg-1*'' None (Some ''=*'') ''cat/pkg'' (Pkg \<lparr>pkg_cpv = ''cat/pkg-1'', pkg_cp = ''cat/pkg'', pkg_cpv_split = (''cat'', ''pkg'', ''1'', ''r0''), pkg_version = ''1'', pkg_build_id = None, pkg_slot = None, pkg_sub_slot = None, pkg_repo = None, pkg_use = None, pkg_iuse_is_valid_flag = (\<lambda>f. True)\<rparr>) (Some ''1'') None None None None None None False None)) [Pkg \<lparr>pkg_cpv = ''cat/pkg-10'', pkg_cp = ''cat/pkg'', pkg_cpv_split = (''cat'', ''pkg'', ''10'', ''r0''), pkg_version = ''10'', pkg_build_id = None, pkg_slot = None, pkg_sub_slot = None, pkg_repo = None, pkg_use = None, pkg_iuse_is_valid_flag = (\<lambda>f. True)\<rparr>, Pkg \<lparr>pkg_cpv = ''cat/pkg-1.2'', pkg_cp = ''cat/pkg'', pkg_cpv_split = (''cat'', ''pkg'', ''1.2'', ''r0''), pkg_version = ''1.2'', pkg_build_id = None, pkg_slot = None, pkg_sub_slot = None, pkg_repo = None, pkg_use = None, pkg_iuse_is_valid_flag = (\<lambda>f. True)\<rparr>] = Inr [Pkg \<lparr>pkg_cpv = ''cat/pkg-1.2'', pkg_cp = ''cat/pkg'', pkg_cpv_split = (''cat'', ''pkg'', ''1.2'', ''r0''), pkg_version = ''1.2'', pkg_build_id = None, pkg_slot = None, pkg_sub_slot = None, pkg_repo = None, pkg_use = None, pkg_iuse_is_valid_flag = (\<lambda>f. True)\<rparr>]"
proof -
  have c: "catpkgsplit \<lparr>vercmp = (\<lambda>a b. Inr (Some (int (of_char (hd a)) - int (of_char (hd b))))), catpkgsplit = (\<lambda>c. case c of Str t \<Rightarrow> None | Pkg p \<Rightarrow> Some (pkg_cpv_split p)), pkg_str_new = (\<lambda>t sl. None), unknown_repo = ''__unknown__'', atom_parse = (\<lambda>t w r. Inl InvalidAtom)\<rparr> (Pkg \<lparr>pkg_cpv = ''cat/pkg-1'', pkg_cp = ''cat/pkg'', pkg_cpv_split = (''cat'', ''pkg'', ''1'', ''r0''), pkg_version = ''1'', pkg_build_id = None, pkg_slot = None, pkg_sub_slot = None, pkg_repo = None, pkg_use = None, pkg_iuse_is_valid_flag = (\<lambda>f. True)\<rparr>) = Some (''cat'', ''pkg'', ''1'', ''r0'')" by simp
  have n: "''1'' \<noteq> []" "''r0'' \<noteq> []" by simp_all
  have t: "''=cat/pkg-1*'' \<noteq> cand_text (Pkg \<lparr>pkg_cpv = ''cat/pkg-1'', pkg_cp = ''cat/pkg'', pkg_cpv_split = (''cat'', ''pkg'', ''1'', ''r0''), pkg_version = ''1'', pkg_build_id = None, pkg_slot = None, pkg_sub_slot = None, pkg_repo = None, pkg_use = None, pkg_iuse_is_valid_flag = (\<lambda>f. True)\<rparr>)" "take 1 ''=cat/pkg-1*'' \<noteq> ''!''"
          "cand_text (Pkg \<lparr>pkg_cpv = ''cat/pkg-1'', pkg_cp = ''cat/pkg'', pkg_cpv_split = (''cat'', ''pkg'', ''1'', ''r0''), pkg_version = ''1'', pkg_build_id = None, pkg_slot = None, pkg_sub_slot = None, pkg_repo = None, pkg_use = None, pkg_iuse_is_valid_flag = (\<lambda>f. True)\<rparr>) \<noteq> []"
    by (simp_all add: cand_text_def)
  from glob_operator [OF c n t, where bl = None and acp = "''cat/pkg''" and av = "Some ''1''"
         and asl = None and ass = None and aso = None and ar = None and au = None and ab = None
         and aun = None and cs = "[Pkg \<lparr>pkg_cpv = ''cat/pkg-10'', pkg_cp = ''cat/pkg'', pkg_cpv_split = (''cat'', ''pkg'', ''10'', ''r0''), pkg_version = ''10'', pkg_build_id = None, pkg_slot = None, pkg_sub_slot = None, pkg_repo = None, pkg_use = None, pkg_iuse_is_valid_flag = (\<lambda>f. True)\<rparr>, Pkg \<lparr>pkg_cpv = ''cat/pkg-1.2'', pkg_cp = ''cat/pkg'', pkg_cpv_split = (''cat'', ''pkg'', ''1.2'', ''r0''), pkg_version = ''1.2'', pkg_build_id = None, pkg_slot = None, pkg_sub_slot = None, pkg_repo = None, pkg_use = None, pkg_iuse_is_valid_flag = (\<lambda>f. True)\<rparr>]"]
  show ?thesis
    by (simp add: cand_text_def glob_cpv_def glob_ver_def lstrip0_def isdigit_def startswith_def)
qed

section \<open>Properties of the ranking\<close>

lemma cmp_cpv_less_rank:
  assumes "\<exists>k. vercmp env (pkg_version p) (pkg_version q) = Inr (Some k) \<and> (k < 0) = (rank (pkg_version p) < (rank (pkg_version q) :: int))"
  shows "cmp_cpv_less env p q = Inr (rank (pkg_version p) < rank (pkg_version q))"
  using assms by (auto simp: cmp_cpv_less_def)

lemma tie_break_nearer:
  fixes rank :: "string \<Rightarrow> int"
  assumes ord: "\<forall>u \<in> {pkg_version bp, pkg_version my, pkg_version xp}.
                \<forall>w \<in> {pkg_version bp, pkg_version my, pkg_version xp}.
                  \<exists>k. vercmp env u w = Inr (Some k) \<and> (k < 0) = (rank u < rank w)"
    and b: "cpv bestm = Pkg bp" and x: "cpv x = Pkg xp"
  shows "tie_break env bestm my x = Inr (nearer rank my bestm x)"
proof -
  have c: "cmp_cpv_less env p q = Inr (rank (pkg_version p) < rank (pkg_version q))"
    if "p \<in> {bp, my, xp}" "q \<in> {bp, my, xp}" for p q
    using ord that by (intro cmp_cpv_less_rank) auto
  have c1: "cmp_cpv_less env my bp = Inr (rank (pkg_version my) < rank (pkg_version bp))"
    and c2: "cmp_cpv_less env xp bp = Inr (rank (pkg_version xp) < rank (pkg_version bp))"
    and c3: "cmp_cpv_less env xp my = Inr (rank (pkg_version xp) < rank (pkg_version my))"
    by (rule c; simp)+
  show ?thesis
  proof (cases "pkg_cpv bp = pkg_cpv my \<or> pkg_cpv bp = pkg_cpv xp")
    case True
    then show ?thesis using b x by (auto simp: tie_break_def cand_text_def nearer_def replaces_def)
  next
    case nb: False
    show ?thesis
    proof (cases "pkg_cpv xp = pkg_cpv my")
      case True
      then show ?thesis using nb b x by (auto simp: tie_break_def cand_text_def nearer_def replaces_def)
    next
      case False
      have sorted3: "sort_cpvs env [] [bp, my, xp] =
          Inr (if rank (pkg_version my) < rank (pkg_version bp)
               then (if rank (pkg_version xp) < rank (pkg_version my) then [xp, my, bp]
                     else if rank (pkg_version xp) < rank (pkg_version bp) then [my, xp, bp]
                     else [my, bp, xp])
               else (if rank (pkg_version xp) < rank (pkg_version bp) then [xp, bp, my]
                     else if rank (pkg_version xp) < rank (pkg_version my) then [bp, xp, my]
                     else [bp, my, xp]))"
        by (cases "rank (pkg_version my) < rank (pkg_version bp)";
            cases "rank (pkg_version xp) < rank (pkg_version my)";
            cases "rank (pkg_version xp) < rank (pkg_version bp)";
            simp add: c1 c2 c3)
      have tb: "tie_break env bestm my x =
          (case sort_cpvs env [] [bp, my, xp] of
             Inl e \<Rightarrow> Inl e
           | Inr cpv_list \<Rightarrow>
               (if pkg_cpv (cpv_list ! 0) = pkg_cpv my \<or> pkg_cpv (cpv_list ! 2) = pkg_cpv my
                then (if pkg_cpv (cpv_list ! 1) = pkg_cpv xp then Inr x else Inr bestm)
                else Inr bestm))"
        using False nb b x by (simp add: tie_break_def cand_text_def)
      have nr: "nearer rank my bestm x =
          (if (rank (pkg_version my) \<le> rank (pkg_version xp)
                \<and> rank (pkg_version xp) < rank (pkg_version bp))
              \<or> (rank (pkg_version bp) \<le> rank (pkg_version xp)
                \<and> rank (pkg_version xp) < rank (pkg_version my)) then x else bestm)"
        using False nb b x by (simp add: nearer_def replaces_def)
      show ?thesis
        unfolding tb sorted3 nr using False nb
        by (cases "rank (pkg_version my) < rank (pkg_version bp)";
            cases "rank (pkg_version xp) < rank (pkg_version my)";
            cases "rank (pkg_version xp) < rank (pkg_version bp)";
            simp; linarith?)
    qed
  qed
qed

lemma nearer_cases: "nearer rank my b x = b \<or> nearer rank my b x = x"
  by (auto simp: nearer_def split: cand.splits)

lemma best_step_tie:
  fixes rank :: "string \<Rightarrow> int"
  assumes ord: "\<forall>u \<in> {pkg_version bp, pkg_version my, pkg_version xp}.
                \<forall>w \<in> {pkg_version bp, pkg_version my, pkg_version xp}.
                  \<exists>k. vercmp env u w = Inr (Some k) \<and> (k < 0) = (rank u < rank w)"
    and b: "cpv bestm = Pkg bp" and x: "cpv x = Pkg xp" and rel: "relational x"
    and mc: "mc = None \<or> mc = Some my"
  shows "best_step env (Pkg my) (2, Some bestm, mc) x
           = Inr (2, Some (nearer rank my bestm x), Some my)"
proof -
  have ov: "operator_values (operator x) = Some 2"
    using rel by (auto simp: operator_values_def relational_def)
  have step: "best_step env (Pkg my) (2, Some bestm, mc) x =
      (case tie_break env bestm my x of Inl e \<Rightarrow> Inl e | Inr b' \<Rightarrow> Inr (2, Some b', Some my))"
    using rel mc ov by (auto simp: best_step_def relational_def)
  show ?thesis unfolding step tie_break_nearer[OF ord b x] by simp
qed

lemma best_loop_tie:
  fixes rank :: "string \<Rightarrow> int"
  assumes ord: "\<forall>u \<in> V. \<forall>w \<in> V.
                  \<exists>k. vercmp env u w = Inr (Some k) \<and> (k < 0) = (rank u < rank w)"
    and my: "pkg_version my \<in> V"
    and mc: "mc = None \<or> mc = Some my"
  shows "\<forall>a \<in> set (c # xs). relational a \<and> (\<forall>p. cpv a = Pkg p \<longrightarrow> pkg_version p \<in> V) \<Longrightarrow>
         \<exists>mc'. best_loop env (Pkg my) (2, Some c, mc) xs
           = Inr (2, Some (foldl (nearer rank my) c xs), mc')"
  using mc
proof (induction xs arbitrary: c mc)
  case Nil
  show ?case by simp
next
  case (Cons x xs)
  have rc: "relational c" and rx: "relational x" using Cons.prems(1) by simp_all
  obtain bp where bp: "cpv c = Pkg bp" using rc by (auto simp: relational_def split: cand.splits)
  obtain xp where xp: "cpv x = Pkg xp" using rx by (auto simp: relational_def split: cand.splits)
  have vb: "pkg_version bp \<in> V" using Cons.prems(1) bp by simp
  have vx: "pkg_version xp \<in> V" using Cons.prems(1) xp by simp
  have o3: "\<forall>u \<in> {pkg_version bp, pkg_version my, pkg_version xp}.
                \<forall>w \<in> {pkg_version bp, pkg_version my, pkg_version xp}.
                  \<exists>k. vercmp env u w = Inr (Some k) \<and> (k < 0) = (rank u < rank w)"
  proof (intro ballI)
    fix u w
    assume "u \<in> {pkg_version bp, pkg_version my, pkg_version xp}"
      "w \<in> {pkg_version bp, pkg_version my, pkg_version xp}"
    then have "u \<in> V" "w \<in> V" using vb vx my by auto
    then show "\<exists>k. vercmp env u w = Inr (Some k) \<and> (k < 0) = (rank u < rank w)"
      using ord by blast
  qed
  have st: "best_step env (Pkg my) (2, Some c, mc) x = Inr (2, Some (nearer rank my c x), Some my)"
    by (rule best_step_tie[OF o3 bp xp rx Cons.prems(2)])
  have all: "\<forall>a \<in> set (nearer rank my c x # xs).
               relational a \<and> (\<forall>p. cpv a = Pkg p \<longrightarrow> pkg_version p \<in> V)"
  proof (cases "nearer rank my c x = c")
    case True
    then show ?thesis using Cons.prems(1) by simp
  next
    case False
    then have "nearer rank my c x = x" using nearer_cases[of rank my c x] by simp
    then show ?thesis using Cons.prems(1) by simp
  qed
  have "\<exists>mc'. best_loop env (Pkg my) (2, Some (nearer rank my c x), Some my) xs
           = Inr (2, Some (foldl (nearer rank my) (nearer rank my c x) xs), mc')"
    by (rule Cons.IH[OF all]) simp
  then show ?case using st by simp
qed

lemma best_step_first:
  assumes "relational b"
  shows "best_step env mypkg (- 99, None, None) b = Inr (2, Some b, None)"
proof -
  have ov: "operator_values (operator b) = Some 2"
    using assms by (auto simp: operator_values_def relational_def)
  show ?thesis using assms ov by (simp add: best_step_def relational_def)
qed

text \<open>
  C4. The atoms of \<^verbatim>\<open>mylist\<close> that match the package, \<open>b\<close> first, all are plain
  atoms with a relational operator and no slot, so all of them tie at value 2, and
  \<^verbatim>\<open>vercmp\<close> orders the versions at hand totally (its sign is that of the
  difference of a rank). Then \<^verbatim>\<open>best_match_to_list\<close> returns an atom: the one that
  is left when each matching atom in turn has challenged the current best, from
  \<open>b\<close> on, and the challenger takes the place of the current best exactly when
  the sorted triple of the versions has the queried version at an end and the
  version of the challenger in the middle (\<open>replaces\<close>, which also says what equal
  \<^verbatim>\<open>cpv\<close> do). So when the version of the queried package lies strictly between the
  other two, the current best is kept.
\<close>

theorem relational_tie:
  fixes rank :: "string \<Rightarrow> int"
  assumes m: "match_to_list env (Pkg my) mylist = Inr (b # xs)"
    and rel: "\<forall>a \<in> set (b # xs). relational a \<and> (\<forall>p. cpv a = Pkg p \<longrightarrow> pkg_version p \<in> V)"
    and my: "pkg_version my \<in> V"
    and ord: "\<forall>u \<in> V. \<forall>w \<in> V.
                  \<exists>k. vercmp env u w = Inr (Some k) \<and> (k < 0) = (rank u < rank w)"
  shows "best_match_to_list env (Pkg my) mylist = Inr (Some (foldl (nearer rank my) b xs))"
proof -
  have rb: "relational b" using rel by simp
  obtain mc' where "best_loop env (Pkg my) (2, Some b, None) xs
           = Inr (2, Some (foldl (nearer rank my) b xs), mc')"
    using best_loop_tie[OF ord my _ rel, of None] by auto
  then show ?thesis
    using m best_step_first[OF rb, of env "Pkg my"] by (simp add: best_match_to_list_def)
qed

theorem relational_tie_witness:
  "best_match_to_list \<lparr>vercmp = (\<lambda>a b. Inr (Some (int (of_char (hd a)) - int (of_char (hd b))))), catpkgsplit = (\<lambda>c. case c of Str t \<Rightarrow> None | Pkg p \<Rightarrow> Some (pkg_cpv_split p)), pkg_str_new = (\<lambda>t sl. None), unknown_repo = ''__unknown__'', atom_parse = (\<lambda>t w r. Inl InvalidAtom)\<rparr> (Pkg \<lparr>pkg_cpv = ''cat/pkg-3'', pkg_cp = ''cat/pkg'', pkg_cpv_split = (''cat'', ''pkg'', ''3'', ''r0''), pkg_version = ''3'', pkg_build_id = None, pkg_slot = None, pkg_sub_slot = None, pkg_repo = None, pkg_use = None, pkg_iuse_is_valid_flag = (\<lambda>f. True)\<rparr>) [(Atom ''>=cat/pkg-1'' None (Some ''>='') ''cat/pkg'' (Pkg \<lparr>pkg_cpv = ''cat/pkg-1'', pkg_cp = ''cat/pkg'', pkg_cpv_split = (''cat'', ''pkg'', ''1'', ''r0''), pkg_version = ''1'', pkg_build_id = None, pkg_slot = None, pkg_sub_slot = None, pkg_repo = None, pkg_use = None, pkg_iuse_is_valid_flag = (\<lambda>f. True)\<rparr>) (Some ''1'') None None None None None None False None), (Atom ''>=cat/pkg-2'' None (Some ''>='') ''cat/pkg'' (Pkg \<lparr>pkg_cpv = ''cat/pkg-2'', pkg_cp = ''cat/pkg'', pkg_cpv_split = (''cat'', ''pkg'', ''2'', ''r0''), pkg_version = ''2'', pkg_build_id = None, pkg_slot = None, pkg_sub_slot = None, pkg_repo = None, pkg_use = None, pkg_iuse_is_valid_flag = (\<lambda>f. True)\<rparr>) (Some ''2'') None None None None None None False None)] = Inr (Some (Atom ''>=cat/pkg-2'' None (Some ''>='') ''cat/pkg'' (Pkg \<lparr>pkg_cpv = ''cat/pkg-2'', pkg_cp = ''cat/pkg'', pkg_cpv_split = (''cat'', ''pkg'', ''2'', ''r0''), pkg_version = ''2'', pkg_build_id = None, pkg_slot = None, pkg_sub_slot = None, pkg_repo = None, pkg_use = None, pkg_iuse_is_valid_flag = (\<lambda>f. True)\<rparr>) (Some ''2'') None None None None None None False None))
   \<and> best_match_to_list \<lparr>vercmp = (\<lambda>a b. Inr (Some (int (of_char (hd a)) - int (of_char (hd b))))), catpkgsplit = (\<lambda>c. case c of Str t \<Rightarrow> None | Pkg p \<Rightarrow> Some (pkg_cpv_split p)), pkg_str_new = (\<lambda>t sl. None), unknown_repo = ''__unknown__'', atom_parse = (\<lambda>t w r. Inl InvalidAtom)\<rparr> (Pkg \<lparr>pkg_cpv = ''cat/pkg-2'', pkg_cp = ''cat/pkg'', pkg_cpv_split = (''cat'', ''pkg'', ''2'', ''r0''), pkg_version = ''2'', pkg_build_id = None, pkg_slot = None, pkg_sub_slot = None, pkg_repo = None, pkg_use = None, pkg_iuse_is_valid_flag = (\<lambda>f. True)\<rparr>) [(Atom ''>=cat/pkg-1'' None (Some ''>='') ''cat/pkg'' (Pkg \<lparr>pkg_cpv = ''cat/pkg-1'', pkg_cp = ''cat/pkg'', pkg_cpv_split = (''cat'', ''pkg'', ''1'', ''r0''), pkg_version = ''1'', pkg_build_id = None, pkg_slot = None, pkg_sub_slot = None, pkg_repo = None, pkg_use = None, pkg_iuse_is_valid_flag = (\<lambda>f. True)\<rparr>) (Some ''1'') None None None None None None False None), (Atom ''<=cat/pkg-3'' None (Some ''<='') ''cat/pkg'' (Pkg \<lparr>pkg_cpv = ''cat/pkg-3'', pkg_cp = ''cat/pkg'', pkg_cpv_split = (''cat'', ''pkg'', ''3'', ''r0''), pkg_version = ''3'', pkg_build_id = None, pkg_slot = None, pkg_sub_slot = None, pkg_repo = None, pkg_use = None, pkg_iuse_is_valid_flag = (\<lambda>f. True)\<rparr>) (Some ''3'') None None None None None None False None)] = Inr (Some (Atom ''>=cat/pkg-1'' None (Some ''>='') ''cat/pkg'' (Pkg \<lparr>pkg_cpv = ''cat/pkg-1'', pkg_cp = ''cat/pkg'', pkg_cpv_split = (''cat'', ''pkg'', ''1'', ''r0''), pkg_version = ''1'', pkg_build_id = None, pkg_slot = None, pkg_sub_slot = None, pkg_repo = None, pkg_use = None, pkg_iuse_is_valid_flag = (\<lambda>f. True)\<rparr>) (Some ''1'') None None None None None None False None))"
proof -
  have ma: "match_to_list \<lparr>vercmp = (\<lambda>a b. Inr (Some (int (of_char (hd a)) - int (of_char (hd b))))), catpkgsplit = (\<lambda>c. case c of Str t \<Rightarrow> None | Pkg p \<Rightarrow> Some (pkg_cpv_split p)), pkg_str_new = (\<lambda>t sl. None), unknown_repo = ''__unknown__'', atom_parse = (\<lambda>t w r. Inl InvalidAtom)\<rparr> (Pkg \<lparr>pkg_cpv = ''cat/pkg-3'', pkg_cp = ''cat/pkg'', pkg_cpv_split = (''cat'', ''pkg'', ''3'', ''r0''), pkg_version = ''3'', pkg_build_id = None, pkg_slot = None, pkg_sub_slot = None, pkg_repo = None, pkg_use = None, pkg_iuse_is_valid_flag = (\<lambda>f. True)\<rparr>) [(Atom ''>=cat/pkg-1'' None (Some ''>='') ''cat/pkg'' (Pkg \<lparr>pkg_cpv = ''cat/pkg-1'', pkg_cp = ''cat/pkg'', pkg_cpv_split = (''cat'', ''pkg'', ''1'', ''r0''), pkg_version = ''1'', pkg_build_id = None, pkg_slot = None, pkg_sub_slot = None, pkg_repo = None, pkg_use = None, pkg_iuse_is_valid_flag = (\<lambda>f. True)\<rparr>) (Some ''1'') None None None None None None False None), (Atom ''>=cat/pkg-2'' None (Some ''>='') ''cat/pkg'' (Pkg \<lparr>pkg_cpv = ''cat/pkg-2'', pkg_cp = ''cat/pkg'', pkg_cpv_split = (''cat'', ''pkg'', ''2'', ''r0''), pkg_version = ''2'', pkg_build_id = None, pkg_slot = None, pkg_sub_slot = None, pkg_repo = None, pkg_use = None, pkg_iuse_is_valid_flag = (\<lambda>f. True)\<rparr>) (Some ''2'') None None None None None None False None)] = Inr ((Atom ''>=cat/pkg-1'' None (Some ''>='') ''cat/pkg'' (Pkg \<lparr>pkg_cpv = ''cat/pkg-1'', pkg_cp = ''cat/pkg'', pkg_cpv_split = (''cat'', ''pkg'', ''1'', ''r0''), pkg_version = ''1'', pkg_build_id = None, pkg_slot = None, pkg_sub_slot = None, pkg_repo = None, pkg_use = None, pkg_iuse_is_valid_flag = (\<lambda>f. True)\<rparr>) (Some ''1'') None None None None None None False None) # [(Atom ''>=cat/pkg-2'' None (Some ''>='') ''cat/pkg'' (Pkg \<lparr>pkg_cpv = ''cat/pkg-2'', pkg_cp = ''cat/pkg'', pkg_cpv_split = (''cat'', ''pkg'', ''2'', ''r0''), pkg_version = ''2'', pkg_build_id = None, pkg_slot = None, pkg_sub_slot = None, pkg_repo = None, pkg_use = None, pkg_iuse_is_valid_flag = (\<lambda>f. True)\<rparr>) (Some ''2'') None None None None None None False None)])"
    by (simp add: match_to_list_def match_defs)
  have ra: "\<forall>a \<in> set ((Atom ''>=cat/pkg-1'' None (Some ''>='') ''cat/pkg'' (Pkg \<lparr>pkg_cpv = ''cat/pkg-1'', pkg_cp = ''cat/pkg'', pkg_cpv_split = (''cat'', ''pkg'', ''1'', ''r0''), pkg_version = ''1'', pkg_build_id = None, pkg_slot = None, pkg_sub_slot = None, pkg_repo = None, pkg_use = None, pkg_iuse_is_valid_flag = (\<lambda>f. True)\<rparr>) (Some ''1'') None None None None None None False None) # [(Atom ''>=cat/pkg-2'' None (Some ''>='') ''cat/pkg'' (Pkg \<lparr>pkg_cpv = ''cat/pkg-2'', pkg_cp = ''cat/pkg'', pkg_cpv_split = (''cat'', ''pkg'', ''2'', ''r0''), pkg_version = ''2'', pkg_build_id = None, pkg_slot = None, pkg_sub_slot = None, pkg_repo = None, pkg_use = None, pkg_iuse_is_valid_flag = (\<lambda>f. True)\<rparr>) (Some ''2'') None None None None None None False None)]). relational a \<and> (\<forall>p. cpv a = Pkg p \<longrightarrow> pkg_version p \<in> {''1'', ''2'', ''3''})"
    by (simp add: relational_def)
  have va: "pkg_version \<lparr>pkg_cpv = ''cat/pkg-3'', pkg_cp = ''cat/pkg'', pkg_cpv_split = (''cat'', ''pkg'', ''3'', ''r0''), pkg_version = ''3'', pkg_build_id = None, pkg_slot = None, pkg_sub_slot = None, pkg_repo = None, pkg_use = None, pkg_iuse_is_valid_flag = (\<lambda>f. True)\<rparr> \<in> {''1'', ''2'', ''3''}"
    by simp
  have mb: "match_to_list \<lparr>vercmp = (\<lambda>a b. Inr (Some (int (of_char (hd a)) - int (of_char (hd b))))), catpkgsplit = (\<lambda>c. case c of Str t \<Rightarrow> None | Pkg p \<Rightarrow> Some (pkg_cpv_split p)), pkg_str_new = (\<lambda>t sl. None), unknown_repo = ''__unknown__'', atom_parse = (\<lambda>t w r. Inl InvalidAtom)\<rparr> (Pkg \<lparr>pkg_cpv = ''cat/pkg-2'', pkg_cp = ''cat/pkg'', pkg_cpv_split = (''cat'', ''pkg'', ''2'', ''r0''), pkg_version = ''2'', pkg_build_id = None, pkg_slot = None, pkg_sub_slot = None, pkg_repo = None, pkg_use = None, pkg_iuse_is_valid_flag = (\<lambda>f. True)\<rparr>) [(Atom ''>=cat/pkg-1'' None (Some ''>='') ''cat/pkg'' (Pkg \<lparr>pkg_cpv = ''cat/pkg-1'', pkg_cp = ''cat/pkg'', pkg_cpv_split = (''cat'', ''pkg'', ''1'', ''r0''), pkg_version = ''1'', pkg_build_id = None, pkg_slot = None, pkg_sub_slot = None, pkg_repo = None, pkg_use = None, pkg_iuse_is_valid_flag = (\<lambda>f. True)\<rparr>) (Some ''1'') None None None None None None False None), (Atom ''<=cat/pkg-3'' None (Some ''<='') ''cat/pkg'' (Pkg \<lparr>pkg_cpv = ''cat/pkg-3'', pkg_cp = ''cat/pkg'', pkg_cpv_split = (''cat'', ''pkg'', ''3'', ''r0''), pkg_version = ''3'', pkg_build_id = None, pkg_slot = None, pkg_sub_slot = None, pkg_repo = None, pkg_use = None, pkg_iuse_is_valid_flag = (\<lambda>f. True)\<rparr>) (Some ''3'') None None None None None None False None)] = Inr ((Atom ''>=cat/pkg-1'' None (Some ''>='') ''cat/pkg'' (Pkg \<lparr>pkg_cpv = ''cat/pkg-1'', pkg_cp = ''cat/pkg'', pkg_cpv_split = (''cat'', ''pkg'', ''1'', ''r0''), pkg_version = ''1'', pkg_build_id = None, pkg_slot = None, pkg_sub_slot = None, pkg_repo = None, pkg_use = None, pkg_iuse_is_valid_flag = (\<lambda>f. True)\<rparr>) (Some ''1'') None None None None None None False None) # [(Atom ''<=cat/pkg-3'' None (Some ''<='') ''cat/pkg'' (Pkg \<lparr>pkg_cpv = ''cat/pkg-3'', pkg_cp = ''cat/pkg'', pkg_cpv_split = (''cat'', ''pkg'', ''3'', ''r0''), pkg_version = ''3'', pkg_build_id = None, pkg_slot = None, pkg_sub_slot = None, pkg_repo = None, pkg_use = None, pkg_iuse_is_valid_flag = (\<lambda>f. True)\<rparr>) (Some ''3'') None None None None None None False None)])"
    by (simp add: match_to_list_def match_defs)
  have rb: "\<forall>a \<in> set ((Atom ''>=cat/pkg-1'' None (Some ''>='') ''cat/pkg'' (Pkg \<lparr>pkg_cpv = ''cat/pkg-1'', pkg_cp = ''cat/pkg'', pkg_cpv_split = (''cat'', ''pkg'', ''1'', ''r0''), pkg_version = ''1'', pkg_build_id = None, pkg_slot = None, pkg_sub_slot = None, pkg_repo = None, pkg_use = None, pkg_iuse_is_valid_flag = (\<lambda>f. True)\<rparr>) (Some ''1'') None None None None None None False None) # [(Atom ''<=cat/pkg-3'' None (Some ''<='') ''cat/pkg'' (Pkg \<lparr>pkg_cpv = ''cat/pkg-3'', pkg_cp = ''cat/pkg'', pkg_cpv_split = (''cat'', ''pkg'', ''3'', ''r0''), pkg_version = ''3'', pkg_build_id = None, pkg_slot = None, pkg_sub_slot = None, pkg_repo = None, pkg_use = None, pkg_iuse_is_valid_flag = (\<lambda>f. True)\<rparr>) (Some ''3'') None None None None None None False None)]). relational a \<and> (\<forall>p. cpv a = Pkg p \<longrightarrow> pkg_version p \<in> {''1'', ''2'', ''3''})"
    by (simp add: relational_def)
  have vb: "pkg_version \<lparr>pkg_cpv = ''cat/pkg-2'', pkg_cp = ''cat/pkg'', pkg_cpv_split = (''cat'', ''pkg'', ''2'', ''r0''), pkg_version = ''2'', pkg_build_id = None, pkg_slot = None, pkg_sub_slot = None, pkg_repo = None, pkg_use = None, pkg_iuse_is_valid_flag = (\<lambda>f. True)\<rparr> \<in> {''1'', ''2'', ''3''}"
    by simp
  have o: "\<forall>u \<in> {''1'', ''2'', ''3''}. \<forall>w \<in> {''1'', ''2'', ''3''}. \<exists>k. vercmp \<lparr>vercmp = (\<lambda>a b. Inr (Some (int (of_char (hd a)) - int (of_char (hd b))))), catpkgsplit = (\<lambda>c. case c of Str t \<Rightarrow> None | Pkg p \<Rightarrow> Some (pkg_cpv_split p)), pkg_str_new = (\<lambda>t sl. None), unknown_repo = ''__unknown__'', atom_parse = (\<lambda>t w r. Inl InvalidAtom)\<rparr> u w = Inr (Some k) \<and> (k < 0) = ((\<lambda>v. int (of_char (hd v))) u < (\<lambda>v. int (of_char (hd v))) w)"
    by simp
  show ?thesis
    using relational_tie [OF ma ra va o] relational_tie [OF mb rb vb o]
    by (simp add: nearer_def replaces_def)
qed

section \<open>Properties of the USE conditionals\<close>

lemma usedep_groups_shape:
  assumes "usedep_re_match x = Some m"
  shows "\<exists>c cs. g_flag m = c # takeWhile flag_char cs \<and> isalnum_ascii c"
    and "g_default m = [] \<or> g_default m = ''(+)'' \<or> g_default m = ''(-)''"
  using assms
  by (auto simp: usedep_re_match_def Let_def split: if_splits)

lemma isalnum_not_prefix: "isalnum_ascii c \<Longrightarrow> c \<noteq> CHR ''!'' \<and> c \<noteq> CHR ''-''"
  by (auto simp: isalnum_ascii_def)

lemma flag_char_paren: "\<not> flag_char CHR ''(''"
  by (simp add: flag_char_def isalnum_ascii_def)

lemma takeWhile_stop:
  assumes "d = [] \<or> \<not> P (hd d)"
  shows "takeWhile P d = []" and "dropWhile P d = d"
  using assms by (cases d; simp)+

lemma takeWhile_run:
  assumes "d = [] \<or> \<not> P (hd d)"
  shows "takeWhile P (takeWhile P cs @ d) = takeWhile P cs"
    and "dropWhile P (takeWhile P cs @ d) = d"
  using takeWhile_stop[where P = P and d = d] assms by (induction cs) auto

lemma default_run:
  assumes "d = [] \<or> d = ''(+)'' \<or> d = ''(-)''"
  shows "d = [] \<or> \<not> flag_char (hd d)"
  using assms flag_char_paren by auto

lemma rematch_plain:
  assumes "isalnum_ascii c" "d = [] \<or> d = ''(+)'' \<or> d = ''(-)''"
  shows "usedep_re_match ((c # takeWhile flag_char cs) @ d)
       = Some \<lparr>g_prefix = [], g_flag = c # takeWhile flag_char cs, g_default = d, g_suffix = []\<rparr>"
proof -
  have tw: "takeWhile flag_char (takeWhile flag_char cs @ d) = takeWhile flag_char cs"
    and dw: "dropWhile flag_char (takeWhile flag_char cs @ d) = d"
    using takeWhile_run[where P = flag_char and d = d and cs = cs] default_run[OF assms(2)] by auto
  show ?thesis
    using assms isalnum_not_prefix[OF assms(1)]
    by (auto simp: usedep_re_match_def Let_def tw dw startswith_def)
qed

lemma rematch_minus:
  assumes "isalnum_ascii c" "d = [] \<or> d = ''(+)'' \<or> d = ''(-)''"
  shows "usedep_re_match (''-'' @ (c # takeWhile flag_char cs) @ d)
       = Some \<lparr>g_prefix = ''-'', g_flag = c # takeWhile flag_char cs, g_default = d, g_suffix = []\<rparr>"
proof -
  have tw: "takeWhile flag_char (takeWhile flag_char cs @ d) = takeWhile flag_char cs"
    and dw: "dropWhile flag_char (takeWhile flag_char cs @ d) = d"
    using takeWhile_run[where P = flag_char and d = d and cs = cs] default_run[OF assms(2)] by auto
  show ?thesis
    using assms
    by (auto simp: usedep_re_match_def Let_def tw dw startswith_def)
qed

lemma eval_token_plain:
  assumes "(\<exists>g. usedep_re_match t = Some g \<and> g_prefix g @ g_suffix g \<notin> {''?'', ''='', ''!='', ''!?''})"
  shows "eval_token u (E, D, ts) t = Inr (E, D, ts @ [t])"
  using assms by (auto simp: eval_token_def Let_def)

lemma eval_tokens_plain:
  assumes "\<forall>t \<in> set xs. (\<exists>g. usedep_re_match t = Some g \<and> g_prefix g @ g_suffix g \<notin> {''?'', ''='', ''!='', ''!?''})"
  shows "eval_tokens u (E, D, ts) xs = Inr (E, D, ts @ xs)"
  using assms
  by (induction xs arbitrary: ts) (simp_all add: eval_token_plain)

lemma eval_token_output:
  assumes "eval_token u (E, D, ts) x = Inr (E', D', ts')" "\<forall>t \<in> set ts. (\<exists>g. usedep_re_match t = Some g \<and> g_prefix g @ g_suffix g \<notin> {''?'', ''='', ''!='', ''!?''})"
  shows "\<forall>t \<in> set ts'. (\<exists>g. usedep_re_match t = Some g \<and> g_prefix g @ g_suffix g \<notin> {''?'', ''='', ''!='', ''!?''})"
proof -
  from assms(1) obtain m where m: "usedep_re_match x = Some m"
    by (auto simp: eval_token_def split: option.splits)
  from usedep_groups_shape[OF m] obtain c cs where
    f: "g_flag m = c # takeWhile flag_char cs" "isalnum_ascii c"
    and d: "g_default m = [] \<or> g_default m = ''(+)'' \<or> g_default m = ''(-)''"
    by auto
  have p: "(\<exists>g. usedep_re_match (g_flag m @ g_default m) = Some g \<and> g_prefix g @ g_suffix g \<notin> {''?'', ''='', ''!='', ''!?''})"
    unfolding f(1) using rematch_plain[OF f(2) d, of cs] by simp
  have q: "(\<exists>g. usedep_re_match (''-'' @ g_flag m @ g_default m) = Some g \<and> g_prefix g @ g_suffix g \<notin> {''?'', ''='', ''!='', ''!?''})"
    unfolding f(1) using rematch_minus[OF f(2) d, of cs] by simp
  have r: "(\<exists>g. usedep_re_match x = Some g \<and> g_prefix g @ g_suffix g \<notin> {''?'', ''='', ''!='', ''!?''})" if "g_prefix m @ g_suffix m \<notin> {''?'', ''='', ''!='', ''!?''}"
    using m that by auto
  show ?thesis
    using assms m p q r
    by (auto simp: eval_token_def Let_def split: if_splits)
qed

lemma eval_tokens_output:
  assumes "eval_tokens u (E, D, ts) xs = Inr (E', D', ts')" "\<forall>t \<in> set ts. (\<exists>g. usedep_re_match t = Some g \<and> g_prefix g @ g_suffix g \<notin> {''?'', ''='', ''!='', ''!?''})"
  shows "\<forall>t \<in> set ts'. (\<exists>g. usedep_re_match t = Some g \<and> g_prefix g @ g_suffix g \<notin> {''?'', ''='', ''!='', ''!?''})"
  using assms
proof (induction xs arbitrary: E D ts)
  case Nil
  then show ?case by simp
next
  case (Cons x xs)
  from Cons.prems(1) obtain E1 D1 ts1 where
    s1: "eval_token u (E, D, ts) x = Inr (E1, D1, ts1)"
    and s2: "eval_tokens u (E1, D1, ts1) xs = Inr (E', D', ts')"
    by (auto split: sum.splits)
  from eval_token_output[OF s1 Cons.prems(2)] have "\<forall>t \<in> set ts1. (\<exists>g. usedep_re_match t = Some g \<and> g_prefix g @ g_suffix g \<notin> {''?'', ''='', ''!='', ''!?''})" .
  from Cons.IH[OF s2 this] show ?case .
qed

lemma use_dep_idem:
  assumes "use_dep_evaluate_conditionals d u = Inr d'"
  shows "use_dep_evaluate_conditionals d' u = Inr d'" and "conditional d' = None"
proof -
  from assms obtain E' D' ts' where
    e: "eval_tokens u (enabled d, disabled d, []) (tokens d) = Inr (E', D', ts')"
    and d': "d' = \<lparr>tokens = ts', required = required d, enabled = E', disabled = D',
                   missing_enabled = missing_enabled d, missing_disabled = missing_disabled d,
                   conditional = None\<rparr>"
    by (auto simp: use_dep_evaluate_conditionals_def split: sum.splits)
  from eval_tokens_output[OF e] have "\<forall>t \<in> set ts'. (\<exists>g. usedep_re_match t = Some g \<and> g_prefix g @ g_suffix g \<notin> {''?'', ''='', ''!='', ''!?''})" by simp
  from eval_tokens_plain[OF this, of u E' D' "[]"]
  show "use_dep_evaluate_conditionals d' u = Inr d'"
    by (simp add: use_dep_evaluate_conditionals_def d')
  show "conditional d' = None" by (simp add: d')
qed

lemma Atom_init_use:
  assumes "Atom_init env s un aw ar (Some d) = Inr a"
  shows "use a = None \<or> use a = Some d"
  using assms
  by (auto simp: Atom_init_def split: sum.splits option.splits)

lemma atom_idem:
  assumes "evaluate_conditionals env a u = Inr a'"
  shows "evaluate_conditionals env a' u = Inr a'"
proof (cases "use a")
  case None
  with assms show ?thesis by (simp add: evaluate_conditionals_def)
next
  case (Some d)
  show ?thesis
  proof (cases "use_dep_bool d \<and> conditional d \<noteq> None")
    case False
    with assms Some show ?thesis by (auto simp: evaluate_conditionals_def)
  next
    case True
    with assms Some obtain d' where
      d': "use_dep_evaluate_conditionals d u = Inr d'"
      and a': "Atom_init env (remove_slot (atom_str a) @ slot_suffix a @ use_dep_str d')
                 (Some a) False (Some (repo a \<noteq> None)) (Some d') = Inr a'"
      by (auto simp: evaluate_conditionals_def split: sum.splits)
    from Atom_init_use[OF a'] use_dep_idem(2)[OF d']
    show ?thesis by (auto simp: evaluate_conditionals_def)
  qed
qed

lemma eval_token_total:
  assumes "usedep_re_match x \<noteq> None"
  shows "\<exists>st'. eval_token u st x = Inr st'"
  using assms by (cases st rule: prod_cases3) (auto simp: eval_token_def Let_def)

lemma eval_tokens_total:
  assumes "\<forall>x \<in> set xs. usedep_re_match x \<noteq> None"
  shows "\<exists>st'. eval_tokens u st xs = Inr st'"
  using assms
proof (induction xs arbitrary: st)
  case Nil
  show ?case by (rule exI[of _ st]) simp
next
  case (Cons x xs)
  then obtain st1 where "eval_token u st x = Inr st1"
    using eval_token_total[of x u st] by auto
  with Cons show ?case by simp
qed

lemma use_dep_init_loop_matches:
  assumes "use_dep_init_loop acc xs = Inr acc'"
  shows "\<forall>x \<in> set xs. usedep_re_match x \<noteq> None"
  using assms
proof (induction xs arbitrary: acc)
  case Nil
  then show ?case by simp
next
  case (Cons x xs)
  then show ?case
    by (auto simp: use_dep_init_step_def split: sum.splits option.splits)
qed

text \<open>
  C6. \<^verbatim>\<open>evaluate_conditionals\<close> is idempotent for a fixed set of enabled flags:
  where \<^verbatim>\<open>a.evaluate_conditionals(u)\<close> returns an atom, evaluating that atom again
  with \<^verbatim>\<open>u\<close> returns it unchanged; the same holds of the USE dependencies, where
  the second evaluation returns a set equal to the first in every attribute. The
  evaluation of USE dependencies that the parsing constructor built does return.
\<close>

theorem evaluate_conditionals_idempotent:
  "(evaluate_conditionals env a u = Inr a' \<longrightarrow> evaluate_conditionals env a' u = Inr a')
   \<and> (use_dep_evaluate_conditionals d u = Inr d'
        \<longrightarrow> use_dep_evaluate_conditionals d' u = Inr d')
   \<and> (use_dep_init toks = Inr d0 \<longrightarrow> (\<exists>d1. use_dep_evaluate_conditionals d0 u = Inr d1))"
proof (intro conjI impI)
  assume "evaluate_conditionals env a u = Inr a'"
  then show "evaluate_conditionals env a' u = Inr a'" by (rule atom_idem)
next
  assume "use_dep_evaluate_conditionals d u = Inr d'"
  then show "use_dep_evaluate_conditionals d' u = Inr d'" by (rule use_dep_idem(1))
next
  assume i: "use_dep_init toks = Inr d0"
  then obtain acc where "use_dep_init_loop
             \<lparr>acc_enabled = {}, acc_disabled = {}, acc_missing_enabled = {},
              acc_missing_disabled = {}, acc_no_default = {}, acc_conditional = []\<rparr>
             toks = Inr acc" and t: "tokens d0 = toks"
    by (auto simp: use_dep_init_def split: sum.splits)
  from use_dep_init_loop_matches[OF this(1)] have "\<forall>x \<in> set toks. usedep_re_match x \<noteq> None" .
  from eval_tokens_total[OF this, of u "(enabled d0, disabled d0, [])"] t
  show "\<exists>d1. use_dep_evaluate_conditionals d0 u = Inr d1"
    by (auto simp: use_dep_evaluate_conditionals_def)
qed

theorem evaluate_conditionals_idempotent_witness:
  "evaluate_conditionals \<lparr>vercmp = (\<lambda>a b. Inr None), catpkgsplit = (\<lambda>c. None), pkg_str_new = (\<lambda>t sl. None), unknown_repo = ''__unknown__'', atom_parse = (\<lambda>t w r. Inr \<lparr>syn_blocker = None, syn_operator = None, syn_cp = ''cat/pkg'', syn_cpv = Str ''cat/pkg'', syn_version = None, syn_slot = None, syn_sub_slot = None, syn_slot_operator = None, syn_repo = None, syn_build_id = None, syn_extended_syntax = False, syn_use_str = (case py_find t ''['' of None \<Rightarrow> None | Some i \<Rightarrow> Some (drop i t))\<rparr>)\<rparr> (Atom ''cat/pkg[foo?,!bar=,baz(+)]'' None None ''cat/pkg'' (Str ''cat/pkg'') None None None None None (Some \<lparr>tokens = [''foo?'', ''!bar='', ''baz(+)''], required = {''foo'', ''bar''}, enabled = {''baz''}, disabled = {}, missing_enabled = {''baz''}, missing_disabled = {}, conditional = Some \<lparr>c_enabled = {''foo''}, c_disabled = {}, c_equal = {}, c_not_equal = {''bar''}\<rparr>\<rparr>) None False None) {''foo''} = Inr (Atom ''cat/pkg[foo,bar,baz(+)]'' None None ''cat/pkg'' (Str ''cat/pkg'') None None None None None (Some \<lparr>tokens = [''foo'', ''bar'', ''baz(+)''], required = {''foo'', ''bar''}, enabled = {''bar'', ''foo'', ''baz''}, disabled = {}, missing_enabled = {''baz''}, missing_disabled = {}, conditional = None\<rparr>) None False (Some (Atom ''cat/pkg[foo?,!bar=,baz(+)]'' None None ''cat/pkg'' (Str ''cat/pkg'') None None None None None (Some \<lparr>tokens = [''foo?'', ''!bar='', ''baz(+)''], required = {''foo'', ''bar''}, enabled = {''baz''}, disabled = {}, missing_enabled = {''baz''}, missing_disabled = {}, conditional = Some \<lparr>c_enabled = {''foo''}, c_disabled = {}, c_equal = {}, c_not_equal = {''bar''}\<rparr>\<rparr>) None False None)))
   \<and> evaluate_conditionals \<lparr>vercmp = (\<lambda>a b. Inr None), catpkgsplit = (\<lambda>c. None), pkg_str_new = (\<lambda>t sl. None), unknown_repo = ''__unknown__'', atom_parse = (\<lambda>t w r. Inr \<lparr>syn_blocker = None, syn_operator = None, syn_cp = ''cat/pkg'', syn_cpv = Str ''cat/pkg'', syn_version = None, syn_slot = None, syn_sub_slot = None, syn_slot_operator = None, syn_repo = None, syn_build_id = None, syn_extended_syntax = False, syn_use_str = (case py_find t ''['' of None \<Rightarrow> None | Some i \<Rightarrow> Some (drop i t))\<rparr>)\<rparr> (Atom ''cat/pkg[foo,bar,baz(+)]'' None None ''cat/pkg'' (Str ''cat/pkg'') None None None None None (Some \<lparr>tokens = [''foo'', ''bar'', ''baz(+)''], required = {''foo'', ''bar''}, enabled = {''bar'', ''foo'', ''baz''}, disabled = {}, missing_enabled = {''baz''}, missing_disabled = {}, conditional = None\<rparr>) None False (Some (Atom ''cat/pkg[foo?,!bar=,baz(+)]'' None None ''cat/pkg'' (Str ''cat/pkg'') None None None None None (Some \<lparr>tokens = [''foo?'', ''!bar='', ''baz(+)''], required = {''foo'', ''bar''}, enabled = {''baz''}, disabled = {}, missing_enabled = {''baz''}, missing_disabled = {}, conditional = Some \<lparr>c_enabled = {''foo''}, c_disabled = {}, c_equal = {}, c_not_equal = {''bar''}\<rparr>\<rparr>) None False None))) {''foo''} = Inr (Atom ''cat/pkg[foo,bar,baz(+)]'' None None ''cat/pkg'' (Str ''cat/pkg'') None None None None None (Some \<lparr>tokens = [''foo'', ''bar'', ''baz(+)''], required = {''foo'', ''bar''}, enabled = {''bar'', ''foo'', ''baz''}, disabled = {}, missing_enabled = {''baz''}, missing_disabled = {}, conditional = None\<rparr>) None False (Some (Atom ''cat/pkg[foo?,!bar=,baz(+)]'' None None ''cat/pkg'' (Str ''cat/pkg'') None None None None None (Some \<lparr>tokens = [''foo?'', ''!bar='', ''baz(+)''], required = {''foo'', ''bar''}, enabled = {''baz''}, disabled = {}, missing_enabled = {''baz''}, missing_disabled = {}, conditional = Some \<lparr>c_enabled = {''foo''}, c_disabled = {}, c_equal = {}, c_not_equal = {''bar''}\<rparr>\<rparr>) None False None)))
   \<and> use_dep_evaluate_conditionals \<lparr>tokens = [''foo?'', ''!bar='', ''baz(+)''], required = {''foo'', ''bar''}, enabled = {''baz''}, disabled = {}, missing_enabled = {''baz''}, missing_disabled = {}, conditional = Some \<lparr>c_enabled = {''foo''}, c_disabled = {}, c_equal = {}, c_not_equal = {''bar''}\<rparr>\<rparr> {''foo''} = Inr \<lparr>tokens = [''foo'', ''bar'', ''baz(+)''], required = {''foo'', ''bar''}, enabled = {''bar'', ''foo'', ''baz''}, disabled = {}, missing_enabled = {''baz''}, missing_disabled = {}, conditional = None\<rparr>
   \<and> use_dep_evaluate_conditionals \<lparr>tokens = [''foo'', ''bar'', ''baz(+)''], required = {''foo'', ''bar''}, enabled = {''bar'', ''foo'', ''baz''}, disabled = {}, missing_enabled = {''baz''}, missing_disabled = {}, conditional = None\<rparr> {''foo''} = Inr \<lparr>tokens = [''foo'', ''bar'', ''baz(+)''], required = {''foo'', ''bar''}, enabled = {''bar'', ''foo'', ''baz''}, disabled = {}, missing_enabled = {''baz''}, missing_disabled = {}, conditional = None\<rparr>
   \<and> use_dep_init [''foo?'', ''!bar='', ''baz(+)''] = Inr \<lparr>tokens = [''foo?'', ''!bar='', ''baz(+)''], required = {''foo'', ''bar''}, enabled = {''baz''}, disabled = {}, missing_enabled = {''baz''}, missing_disabled = {}, conditional = Some \<lparr>c_enabled = {''foo''}, c_disabled = {}, c_equal = {}, c_not_equal = {''bar''}\<rparr>\<rparr>"
proof -
  have m: "usedep_re_match ''foo?'' = Some \<lparr>g_prefix = [], g_flag = ''foo'', g_default = [], g_suffix = ''?''\<rparr>"
          "usedep_re_match ''!bar='' = Some \<lparr>g_prefix = ''!'', g_flag = ''bar'', g_default = [], g_suffix = ''=''\<rparr>"
          "usedep_re_match ''baz(+)'' = Some \<lparr>g_prefix = [], g_flag = ''baz'', g_default = ''(+)'', g_suffix = []\<rparr>"
    by (simp_all add: usedep_re_match_def isalnum_ascii_def flag_char_def startswith_def Let_def)
  have d: "use_dep_evaluate_conditionals \<lparr>tokens = [''foo?'', ''!bar='', ''baz(+)''], required = {''foo'', ''bar''}, enabled = {''baz''}, disabled = {}, missing_enabled = {''baz''}, missing_disabled = {}, conditional = Some \<lparr>c_enabled = {''foo''}, c_disabled = {}, c_equal = {}, c_not_equal = {''bar''}\<rparr>\<rparr> {''foo''} = Inr \<lparr>tokens = [''foo'', ''bar'', ''baz(+)''], required = {''foo'', ''bar''}, enabled = {''bar'', ''foo'', ''baz''}, disabled = {}, missing_enabled = {''baz''}, missing_disabled = {}, conditional = None\<rparr>"
    by (simp add: use_dep_evaluate_conditionals_def eval_token_def m Let_def insert_commute)
  have i: "use_dep_init [''foo?'', ''!bar='', ''baz(+)''] = Inr \<lparr>tokens = [''foo?'', ''!bar='', ''baz(+)''], required = {''foo'', ''bar''}, enabled = {''baz''}, disabled = {}, missing_enabled = {''baz''}, missing_disabled = {}, conditional = Some \<lparr>c_enabled = {''foo''}, c_disabled = {}, c_equal = {}, c_not_equal = {''bar''}\<rparr>\<rparr>"
    by (simp add: use_dep_init_def use_dep_init_step_def m Let_def conditionals_of_def cond_get_def
          insert_commute)
  have a: "evaluate_conditionals \<lparr>vercmp = (\<lambda>a b. Inr None), catpkgsplit = (\<lambda>c. None), pkg_str_new = (\<lambda>t sl. None), unknown_repo = ''__unknown__'', atom_parse = (\<lambda>t w r. Inr \<lparr>syn_blocker = None, syn_operator = None, syn_cp = ''cat/pkg'', syn_cpv = Str ''cat/pkg'', syn_version = None, syn_slot = None, syn_sub_slot = None, syn_slot_operator = None, syn_repo = None, syn_build_id = None, syn_extended_syntax = False, syn_use_str = (case py_find t ''['' of None \<Rightarrow> None | Some i \<Rightarrow> Some (drop i t))\<rparr>)\<rparr> (Atom ''cat/pkg[foo?,!bar=,baz(+)]'' None None ''cat/pkg'' (Str ''cat/pkg'') None None None None None (Some \<lparr>tokens = [''foo?'', ''!bar='', ''baz(+)''], required = {''foo'', ''bar''}, enabled = {''baz''}, disabled = {}, missing_enabled = {''baz''}, missing_disabled = {}, conditional = Some \<lparr>c_enabled = {''foo''}, c_disabled = {}, c_equal = {}, c_not_equal = {''bar''}\<rparr>\<rparr>) None False None) {''foo''} = Inr (Atom ''cat/pkg[foo,bar,baz(+)]'' None None ''cat/pkg'' (Str ''cat/pkg'') None None None None None (Some \<lparr>tokens = [''foo'', ''bar'', ''baz(+)''], required = {''foo'', ''bar''}, enabled = {''bar'', ''foo'', ''baz''}, disabled = {}, missing_enabled = {''baz''}, missing_disabled = {}, conditional = None\<rparr>) None False (Some (Atom ''cat/pkg[foo?,!bar=,baz(+)]'' None None ''cat/pkg'' (Str ''cat/pkg'') None None None None None (Some \<lparr>tokens = [''foo?'', ''!bar='', ''baz(+)''], required = {''foo'', ''bar''}, enabled = {''baz''}, disabled = {}, missing_enabled = {''baz''}, missing_disabled = {}, conditional = Some \<lparr>c_enabled = {''foo''}, c_disabled = {}, c_equal = {}, c_not_equal = {''bar''}\<rparr>\<rparr>) None False None)))"
    by (simp add: evaluate_conditionals_def use_dep_bool_def d Atom_init_def remove_slot_def
          py_find_def find_from_def startswith_def slot_suffix_def use_dep_str_def)
  from evaluate_conditionals_idempotent
         [where env = "\<lparr>vercmp = (\<lambda>a b. Inr None), catpkgsplit = (\<lambda>c. None), pkg_str_new = (\<lambda>t sl. None), unknown_repo = ''__unknown__'', atom_parse = (\<lambda>t w r. Inr \<lparr>syn_blocker = None, syn_operator = None, syn_cp = ''cat/pkg'', syn_cpv = Str ''cat/pkg'', syn_version = None, syn_slot = None, syn_sub_slot = None, syn_slot_operator = None, syn_repo = None, syn_build_id = None, syn_extended_syntax = False, syn_use_str = (case py_find t ''['' of None \<Rightarrow> None | Some i \<Rightarrow> Some (drop i t))\<rparr>)\<rparr>" and a = "(Atom ''cat/pkg[foo?,!bar=,baz(+)]'' None None ''cat/pkg'' (Str ''cat/pkg'') None None None None None (Some \<lparr>tokens = [''foo?'', ''!bar='', ''baz(+)''], required = {''foo'', ''bar''}, enabled = {''baz''}, disabled = {}, missing_enabled = {''baz''}, missing_disabled = {}, conditional = Some \<lparr>c_enabled = {''foo''}, c_disabled = {}, c_equal = {}, c_not_equal = {''bar''}\<rparr>\<rparr>) None False None)" and u = "{''foo''}" and a' = "(Atom ''cat/pkg[foo,bar,baz(+)]'' None None ''cat/pkg'' (Str ''cat/pkg'') None None None None None (Some \<lparr>tokens = [''foo'', ''bar'', ''baz(+)''], required = {''foo'', ''bar''}, enabled = {''bar'', ''foo'', ''baz''}, disabled = {}, missing_enabled = {''baz''}, missing_disabled = {}, conditional = None\<rparr>) None False (Some (Atom ''cat/pkg[foo?,!bar=,baz(+)]'' None None ''cat/pkg'' (Str ''cat/pkg'') None None None None None (Some \<lparr>tokens = [''foo?'', ''!bar='', ''baz(+)''], required = {''foo'', ''bar''}, enabled = {''baz''}, disabled = {}, missing_enabled = {''baz''}, missing_disabled = {}, conditional = Some \<lparr>c_enabled = {''foo''}, c_disabled = {}, c_equal = {}, c_not_equal = {''bar''}\<rparr>\<rparr>) None False None)))"
            and d = "\<lparr>tokens = [''foo?'', ''!bar='', ''baz(+)''], required = {''foo'', ''bar''}, enabled = {''baz''}, disabled = {}, missing_enabled = {''baz''}, missing_disabled = {}, conditional = Some \<lparr>c_enabled = {''foo''}, c_disabled = {}, c_equal = {}, c_not_equal = {''bar''}\<rparr>\<rparr>" and d' = "\<lparr>tokens = [''foo'', ''bar'', ''baz(+)''], required = {''foo'', ''bar''}, enabled = {''bar'', ''foo'', ''baz''}, disabled = {}, missing_enabled = {''baz''}, missing_disabled = {}, conditional = None\<rparr>"]
       a d i
  show ?thesis by simp
qed

section \<open>Properties of the dependency reducer\<close>

lemmas ur_defs = use_reduce_cached_def reduce_tokens_def py_split_def isspace_def ur_step_def
  ur_push_def close_nested_def close_merge_def close_flat_def special_append_def
  ends_in_any_of_dep_def
  below_ends_in_any_of_dep_def extend_items_def use_is_active_def useflag_re_match_def
  startswith_def Let_def

text \<open>
  The copy that \<^verbatim>\<open>use_reduce\<close> returns is a new outermost list: after a first call
  on \<^verbatim>\<open>|| ( a b )\<close> the caller appends \<^verbatim>\<open>c\<close> to the list it received, and a second
  call with the same arguments still returns \<^verbatim>\<open>["||", ["a", "b"]]\<close>, in another
  list object.
\<close>

lemma use_reduce_top_level_copy:
  "(let A = \<lparr>ur_uselist = {}, ur_masklist = {}, ur_matchall = False, ur_excludeall = {},
              ur_is_src_uri = False,
              ur_eapi = \<lparr>required_use_at_most_one_of = True, empty_groups_always_true = False,
                         src_uri_arrows = True, selective_src_uri_restriction = True\<rparr>,
              ur_opconvert = False, ur_flat = False, ur_is_valid_flag = None,
              ur_token_class = None, ur_matchnone = False, ur_subset = None\<rparr>;
        ids = \<lparr>id_eapi = Some ''8'', id_is_valid_flag = None, id_token_class = None\<rparr>;
        env = \<lparr>vercmp = (\<lambda>a b. Inr None), catpkgsplit = (\<lambda>c. None),
                pkg_str_new = (\<lambda>t sl. None), unknown_repo = ''__unknown__'',
                atom_parse = (\<lambda>t w r. Inl InvalidAtom)\<rparr>
    in case use_reduce env ids A ''|| ( a b )'' \<lparr>heap = [], cache = []\<rparr> of
         Inl e \<Rightarrow> False
       | Inr (r1, w1) \<Rightarrow>
           fetch 2 (heap w1) r1 = Some [Tok ''||'', Lst [Tok ''a'', Tok ''b'']] \<and>
           (case use_reduce env ids A ''|| ( a b )'' (list_append r1 (IStr ''c'') w1) of
              Inl e \<Rightarrow> False
            | Inr (r2, w2) \<Rightarrow>
                r2 \<noteq> r1 \<and>
                fetch 2 (heap w2) r1 = Some [Tok ''||'', Lst [Tok ''a'', Tok ''b''], Tok ''c''] \<and>
                fetch 2 (heap w2) r2 = Some [Tok ''||'', Lst [Tok ''a'', Tok ''b'']]))"
  by (simp add: use_reduce_def cache_key_of_def list_append_def ur_defs numeral_2_eq_2)

text \<open>
  Claim C5, at the input on which it fails. \<^verbatim>\<open>result[:]\<close> copies the outermost
  list only, its nested lists are the objects that the cache holds. After a first
  call on \<^verbatim>\<open>|| ( a b )\<close>, which returns \<^verbatim>\<open>["||", ["a", "b"]]\<close>, the caller appends
  \<^verbatim>\<open>c\<close> to the nested list of the result; a second call with the same arguments
  then returns \<^verbatim>\<open>["||", ["a", "b", "c"]]\<close>.
\<close>

theorem use_reduce_nested_mutation_reaches_cache:
  "(let A = \<lparr>ur_uselist = {}, ur_masklist = {}, ur_matchall = False, ur_excludeall = {},
              ur_is_src_uri = False,
              ur_eapi = \<lparr>required_use_at_most_one_of = True, empty_groups_always_true = False,
                         src_uri_arrows = True, selective_src_uri_restriction = True\<rparr>,
              ur_opconvert = False, ur_flat = False, ur_is_valid_flag = None,
              ur_token_class = None, ur_matchnone = False, ur_subset = None\<rparr>;
        ids = \<lparr>id_eapi = Some ''8'', id_is_valid_flag = None, id_token_class = None\<rparr>;
        env = \<lparr>vercmp = (\<lambda>a b. Inr None), catpkgsplit = (\<lambda>c. None),
                pkg_str_new = (\<lambda>t sl. None), unknown_repo = ''__unknown__'',
                atom_parse = (\<lambda>t w r. Inl InvalidAtom)\<rparr>
    in case use_reduce env ids A ''|| ( a b )'' \<lparr>heap = [], cache = []\<rparr> of
         Inl e \<Rightarrow> False
       | Inr (r1, w1) \<Rightarrow>
           fetch 2 (heap w1) r1 = Some [Tok ''||'', Lst [Tok ''a'', Tok ''b'']] \<and>
           (case heap w1 ! r1 ! 1 of
              IStr t \<Rightarrow> False
            | IRef n \<Rightarrow>
                (case use_reduce env ids A ''|| ( a b )'' (list_append n (IStr ''c'') w1) of
                   Inl e \<Rightarrow> False
                 | Inr (r2, w2) \<Rightarrow>
                     r2 \<noteq> r1 \<and>
                     fetch 2 (heap w2) r2 =
                       Some [Tok ''||'', Lst [Tok ''a'', Tok ''b'', Tok ''c'']])))"
  by (simp add: use_reduce_def cache_key_of_def list_append_def ur_defs numeral_2_eq_2)


































end
